theory Spec2Isabelle
  imports Main "HOL-Library.Char_ord" "HOL-Library.List_Lexorder"
begin

section \<open>Scalars, threads and errors\<close>

text \<open>
  The C++ types \<open>int\<close>, \<open>long\<close> and \<open>size_t\<close> are modelled as HOL integers with the
  wrap-around of the LP64 target written out where the source computes with them:
  \<open>int\<close> is 32 bits, \<open>long\<close> and \<open>size_t\<close> are 64 bits. Comparisons are the ordinary
  ones on the represented values.
\<close>

definition int_wrap :: "int \<Rightarrow> int" where
  "int_wrap x = (x + 2 ^ 31) mod 2 ^ 32 - 2 ^ 31"

definition long_wrap :: "int \<Rightarrow> int" where
  "long_wrap x = (x + 2 ^ 63) mod 2 ^ 64 - 2 ^ 63"

definition size_t_wrap :: "int \<Rightarrow> int" where
  "size_t_wrap x = x mod 2 ^ 64"

definition long_add :: "int \<Rightarrow> int \<Rightarrow> int" where
  "long_add a b = long_wrap (a + b)"

definition long_sub :: "int \<Rightarrow> int \<Rightarrow> int" where
  "long_sub a b = long_wrap (a - b)"

definition long_range :: "int \<Rightarrow> bool" where
  "long_range x \<longleftrightarrow> - (2 ^ 63) \<le> x \<and> x < 2 ^ 63"

text \<open>
  What a control call can end in besides returning: \<open>Terminated\<close> is \<open>std::terminate\<close>
  (a joinable \<open>std::thread\<close> that is assigned to or destroyed, an exception that leaves
  a worker thread); \<open>JoinPending\<close> is a \<open>join()\<close> that has not returned after the worker
  steps it was given.
\<close>

datatype error = Terminated | JoinPending

section \<open>The lifecycle base class (stressor\_base.h, stressor\_base.cpp)\<close>

record StressStatus =
  type :: string
  isRunning :: bool
  remainingTimeMs :: int
  data :: "(string \<times> string) list"

record StressorBase =
  running :: bool
  startTimeMs :: int
  durationMs :: int

text \<open>\<open>getCurrentTimeMs()\<close> is the argument \<open>now\<close> of every function that reads the clock.\<close>

definition getRemainingTimeMs :: "int \<Rightarrow> 'a StressorBase_scheme \<Rightarrow> int" where
  "getRemainingTimeMs now s =
     (if \<not> running s then 0
      else let elapsed = long_sub now (startTimeMs s);
               remaining = long_sub (durationMs s) elapsed
           in if remaining > 0 then remaining else 0)"

definition setDuration :: "int \<Rightarrow> 'a StressorBase_scheme \<Rightarrow> 'a StressorBase_scheme" where
  "setDuration d s = s\<lparr>durationMs := d\<rparr>"

definition markStarted :: "int \<Rightarrow> 'a StressorBase_scheme \<Rightarrow> 'a StressorBase_scheme" where
  "markStarted now s = s\<lparr>startTimeMs := now, running := True\<rparr>"

definition markStopped :: "'a StressorBase_scheme \<Rightarrow> 'a StressorBase_scheme" where
  "markStopped s = s\<lparr>running := False\<rparr>"

text \<open>\<open>std::to_string\<close> on an integer: decimal digits, with a minus sign below zero.\<close>

definition digit_char :: "nat \<Rightarrow> char" where
  "digit_char n = ''0123456789'' ! (n mod 10)"

fun nat_to_string :: "nat \<Rightarrow> string" where
  "nat_to_string n =
     (if n < 10 then [digit_char n]
      else nat_to_string (n div 10) @ [digit_char n])"

declare nat_to_string.simps [simp del]

definition to_string :: "int \<Rightarrow> string" where
  "to_string i = (if i < 0 then CHR ''-'' # nat_to_string (nat (- i)) else nat_to_string (nat i))"

definition bool_string :: "bool \<Rightarrow> string" where
  "bool_string b = (if b then ''true'' else ''false'')"

section \<open>Strings, \<open>std::map\<close> and the control files\<close>

text \<open>A \<open>std::map\<close> of strings is the list of its entries in key order,
  which is the order a range-for visits them in. \<open>smap_put k v m\<close> is \<open>m[k] = v\<close>.\<close>

type_synonym smap = "(string \<times> string) list"

fun smap_put :: "string \<Rightarrow> string \<Rightarrow> smap \<Rightarrow> smap" where
  "smap_put k v [] = [(k, v)]"
| "smap_put k v ((k', v') # m) =
     (if k = k' then (k, v) # m
      else if k < k' then (k, v) # (k', v') # m
      else (k', v') # smap_put k v m)"

text \<open>
  The per-core control files. \<open>contents\<close> is what opening a path for reading gives
  (\<open>None\<close>: it does not open), \<open>writable\<close> whether it opens for writing and takes the
  value, \<open>numCores\<close> what \<open>getNumCores()\<close> counts.
\<close>

record sysfs =
  contents :: "string \<Rightarrow> string option"
  writable :: "string \<Rightarrow> bool"
  numCores :: int

definition is_blank :: "char \<Rightarrow> bool" where
  "is_blank c \<longleftrightarrow> c = CHR '' '' \<or> c = CHR 0x09 \<or> c = CHR 0x0A \<or> c = CHR 0x0D"

definition getline :: "string \<Rightarrow> string" where
  "getline s = takeWhile (\<lambda>c. c \<noteq> CHR 0x0A) s"

definition trim :: "string \<Rightarrow> string" where
  "trim s = rev (dropWhile is_blank (rev (dropWhile is_blank s)))"

definition readSysFile :: "sysfs \<Rightarrow> string \<Rightarrow> string" where
  "readSysFile fs path = (case contents fs path of None \<Rightarrow> [] | Some c \<Rightarrow> trim (getline c))"

definition writeSysFile :: "string \<Rightarrow> string \<Rightarrow> sysfs \<Rightarrow> bool \<times> sysfs" where
  "writeSysFile path v fs =
     (if writable fs path then (True, fs\<lparr>contents := (contents fs)(path \<mapsto> v)\<rparr>)
      else (False, fs))"

text \<open>\<open>std::stol\<close>: leading white space, an optional sign, then decimal digits; it throws
  \<open>std::invalid_argument\<close> without a digit and \<open>std::out_of_range\<close> outside \<open>long\<close>.\<close>

datatype stol_error = InvalidArgument | OutOfRange

definition is_space :: "char \<Rightarrow> bool" where
  "is_space c \<longleftrightarrow> c = CHR '' '' \<or> (9 \<le> (of_char c :: nat) \<and> (of_char c :: nat) \<le> 13)"

definition is_digit :: "char \<Rightarrow> bool" where
  "is_digit c \<longleftrightarrow> 48 \<le> (of_char c :: nat) \<and> (of_char c :: nat) \<le> 57"

definition dec_value :: "string \<Rightarrow> nat" where
  "dec_value ds = foldl (\<lambda>a c. 10 * a + (of_char c - 48)) 0 ds"

definition stol :: "string \<Rightarrow> stol_error + int" where
  "stol s =
     (let s1 = dropWhile is_space s;
          neg = (s1 \<noteq> [] \<and> hd s1 = CHR ''-'');
          s2 = (if s1 \<noteq> [] \<and> (hd s1 = CHR ''-'' \<or> hd s1 = CHR ''+'') then tl s1 else s1);
          ds = takeWhile is_digit s2
      in if ds = [] then Inl InvalidArgument
         else let v = (if neg then - int (dec_value ds) else int (dec_value ds))
              in if long_range v then Inr v else Inl OutOfRange)"

definition cpu_file :: "int \<Rightarrow> string \<Rightarrow> string" where
  "cpu_file cpu name = ''/sys/devices/system/cpu/cpu'' @ to_string cpu @ name"

text \<open>The quotient of C++ integer division: the magnitudes are divided and the sign
  is that of the exact quotient.\<close>

definition trunc_div :: "int \<Rightarrow> int \<Rightarrow> int" where
  "trunc_div a b =
     (if (a < 0) = (b < 0) then \<bar>a\<bar> div \<bar>b\<bar> else - (\<bar>a\<bar> div \<bar>b\<bar>))"

section \<open>The memory generator (memory\_stressor.cpp)\<close>

record MemoryStressConfig =
  targetFreeMB :: int
  chunkSizeMB :: int
  mem_durationMs :: int
  useAnonymousMmap :: bool
  lockMemory :: bool

text \<open>
  The worker thread: \<open>MNoThread\<close> is a \<open>std::thread\<close> that is not joinable, \<open>MSpawned\<close> a
  worker that has not yet read its configuration, \<open>MPhase1\<close> and \<open>MPhase2\<close> a worker at
  the head of its first or second loop with its local variables, \<open>MExited\<close> a worker
  that has returned and was not joined yet.
\<close>

record mem_locals =
  l_targetFreeMB :: int
  l_chunkSizeMB :: int
  l_lockMemory :: bool
  l_endTime :: int

datatype mem_worker = MNoThread | MSpawned | MPhase1 mem_locals | MPhase2 mem_locals | MExited

text \<open>
  The calls the generator makes on the address space, in the order they are made, and
  the two points of its own bookkeeping the claims speak of: \<open>EvStart\<close> is a successful
  \<open>start\<close>, \<open>EvListCleared\<close> the moment a non-empty \<open>allocations_\<close> is emptied. \<open>EvAlloc p n\<close> is a
  successful \<open>mmap\<close> or \<open>malloc\<close> of \<open>n\<close> bytes at \<open>p\<close>, \<open>EvMunmap p n\<close> the call
  \<open>munmap(p, n)\<close>, \<open>EvFree p n\<close> the call \<open>free(p)\<close> on a block of \<open>n\<close> bytes.
\<close>

datatype mem_event =
    EvStart
  | EvAlloc nat int
  | EvMlock nat int
  | EvMunlock nat int
  | EvMunmap nat int
  | EvFree nat int
  | EvListCleared

record MemoryStressor = StressorBase +
  mem_config :: MemoryStressConfig
  mem_thread :: mem_worker
  allocations :: "nat list"
  allocatedBytes :: int
  heap :: "(nat \<times> int) list"
  mem_trace :: "mem_event list"

text \<open>
  \<open>heap\<close> is the part of the address space the generator owns: the blocks it was given
  and has not returned, each with its size. \<open>mem_trace\<close> is the list of events so far.
\<close>

definition chunk_bytes :: "int \<Rightarrow> int" where
  "chunk_bytes mb = size_t_wrap (size_t_wrap (size_t_wrap mb * 1024) * 1024)"

text \<open>What one turn of a worker loop observes: the clock, \<open>getAvailableMemoryMB()\<close> and
  the pointer \<open>allocateChunk\<close> returns (0 is \<open>nullptr\<close>).\<close>

record mem_tick =
  m_now :: int
  m_availableMB :: int
  m_alloc :: nat

definition block_size :: "(nat \<times> int) list \<Rightarrow> nat \<Rightarrow> int" where
  "block_size h p = (case map_of h p of None \<Rightarrow> 0 | Some n \<Rightarrow> n)"

fun remove_block :: "nat \<Rightarrow> (nat \<times> int) list \<Rightarrow> (nat \<times> int) list" where
  "remove_block p [] = []"
| "remove_block p ((q, n) # h) = (if p = q then h else (q, n) # remove_block p h)"

text \<open>The body both loops share once \<open>allocateChunk\<close> has returned a pointer: touch,
  pin if asked, record the pointer, add to the counter.\<close>

definition record_chunk :: "mem_locals \<Rightarrow> nat \<Rightarrow> MemoryStressor \<Rightarrow> MemoryStressor" where
  "record_chunk l p s =
     (let n = chunk_bytes (l_chunkSizeMB l)
      in s\<lparr>allocations := allocations s @ [p],
            allocatedBytes := long_wrap (allocatedBytes s + n),
            heap := heap s @ [(p, n)],
            mem_trace := mem_trace s @ [EvAlloc p n] @ (if l_lockMemory l then [EvMlock p n] else [])\<rparr>)"

fun release_events :: "bool \<Rightarrow> bool \<Rightarrow> int \<Rightarrow> (nat \<times> int) list \<Rightarrow> nat list \<Rightarrow> mem_event list" where
  "release_events lck mm n h [] = []"
| "release_events lck mm n h (p # ps) =
     (if lck then [EvMunlock p n] else [])
     @ [if mm then EvMunmap p n else EvFree p (block_size h p)]
     @ release_events lck mm n (remove_block p h) ps"

fun release_heap :: "(nat \<times> int) list \<Rightarrow> nat list \<Rightarrow> (nat \<times> int) list" where
  "release_heap h [] = h"
| "release_heap h (p # ps) = release_heap (remove_block p h) ps"

definition releaseMemory :: "MemoryStressor \<Rightarrow> MemoryStressor" where
  "releaseMemory s =
     (let chunkSize = chunk_bytes (chunkSizeMB (mem_config s));
          useMmap = useAnonymousMmap (mem_config s);
          lck = lockMemory (mem_config s);
          toFree = allocations s
      in s\<lparr>allocations := [],
            allocatedBytes := 0,
            heap := release_heap (heap s) toFree,
            mem_trace := mem_trace s @ (if toFree = [] then [] else [EvListCleared])
                         @ release_events lck useMmap chunkSize (heap s) toFree\<rparr>)"

definition MemoryStressor_start ::
  "MemoryStressConfig \<Rightarrow> int \<Rightarrow> MemoryStressor \<Rightarrow> error + (bool \<times> MemoryStressor)" where
  "MemoryStressor_start config now s =
     (if running s then Inr (False, s)
      else if mem_thread s \<noteq> MNoThread then Inl Terminated
      else Inr (True,
        (markStarted now (setDuration (mem_durationMs config) (s\<lparr>mem_config := config\<rparr>)))
          \<lparr>allocatedBytes := 0, mem_thread := MSpawned,
           mem_trace := mem_trace s @ [EvStart]\<rparr>))"

definition mem_worker_step :: "mem_tick \<Rightarrow> MemoryStressor \<Rightarrow> MemoryStressor" where
  "mem_worker_step t s =
     (case mem_thread s of
        MNoThread \<Rightarrow> s
      | MExited \<Rightarrow> s
      | MSpawned \<Rightarrow>
          s\<lparr>mem_thread := MPhase1
              \<lparr>l_targetFreeMB = targetFreeMB (mem_config s),
               l_chunkSizeMB = chunkSizeMB (mem_config s),
               l_lockMemory = lockMemory (mem_config s),
               l_endTime = long_add (startTimeMs s) (durationMs s)\<rparr>\<rparr>
      | MPhase1 l \<Rightarrow>
          if running s \<and> m_now t < l_endTime l then
            (if m_availableMB t \<le> l_targetFreeMB l then s\<lparr>mem_thread := MPhase2 l\<rparr>
             else if m_alloc t = 0 then s
             else record_chunk l (m_alloc t) s)
          else s\<lparr>mem_thread := MPhase2 l\<rparr>
      | MPhase2 l \<Rightarrow>
          if running s \<and> m_now t < l_endTime l then
            (if m_availableMB t > int_wrap (l_targetFreeMB l + l_chunkSizeMB l) then
               (if m_alloc t \<noteq> 0 then record_chunk l (m_alloc t) s else s)
             else s)
          else (releaseMemory (markStopped s))\<lparr>mem_thread := MExited\<rparr>)"

fun mem_join :: "mem_tick list \<Rightarrow> MemoryStressor \<Rightarrow> error + MemoryStressor" where
  "mem_join ts s =
     (if mem_thread s = MNoThread then Inr s
      else if mem_thread s = MExited then Inr (s\<lparr>mem_thread := MNoThread\<rparr>)
      else case ts of [] \<Rightarrow> Inl JoinPending | t # ts' \<Rightarrow> mem_join ts' (mem_worker_step t s))"

declare mem_join.simps [simp del]

definition MemoryStressor_stop :: "mem_tick list \<Rightarrow> MemoryStressor \<Rightarrow> error + MemoryStressor" where
  "MemoryStressor_stop ts s =
     (let wasRunning = running s;
          s1 = (if wasRunning then markStopped s else s)
      in case mem_join ts s1 of
           Inl e \<Rightarrow> Inl e
         | Inr s2 \<Rightarrow> Inr (releaseMemory s2))"

definition MemoryStressor_getStatus :: "int \<Rightarrow> int \<Rightarrow> MemoryStressor \<Rightarrow> StressStatus" where
  "MemoryStressor_getStatus now availableMB s =
     (let r = running s
      in \<lparr>type = ''memory'', isRunning = r, remainingTimeMs = getRemainingTimeMs now s,
          data = (if r then
                    smap_put ''availableMB'' (to_string availableMB)
                      (smap_put ''targetFreeMB'' (to_string (targetFreeMB (mem_config s)))
                        (smap_put ''allocatedMB''
                           (to_string (trunc_div (allocatedBytes s) (1024 * 1024))) []))
                  else [])\<rparr>)"

section \<open>The thermal generator (thermal\_stressor.cpp)\<close>

record ThermalStressConfig =
  disableThermalThrottling :: bool
  maxFrequencyPercent :: int
  forceAllCoresOnline :: bool
  thm_durationMs :: int

text \<open>The worker: not yet at \<open>applySettings\<close>, in its monitoring loop with \<open>endTime\<close>,
  or returned.\<close>

datatype thm_worker = TNoThread | TSpawned | TLoop int | TExited

record ThermalStressor = StressorBase +
  thm_config :: ThermalStressConfig
  thm_thread :: thm_worker
  thm_originalSettings :: smap
  coresOnline :: int
  totalCores :: int
  thm_sysfs :: sysfs

definition thm_write :: "string \<Rightarrow> string \<Rightarrow> ThermalStressor \<Rightarrow> ThermalStressor" where
  "thm_write path v s = s\<lparr>thm_sysfs := snd (writeSysFile path v (thm_sysfs s))\<rparr>"

definition thm_save :: "string \<Rightarrow> string \<Rightarrow> ThermalStressor \<Rightarrow> ThermalStressor" where
  "thm_save path v s = s\<lparr>thm_originalSettings := smap_put path v (thm_originalSettings s)\<rparr>"

definition setCoreOnline :: "int \<Rightarrow> bool \<Rightarrow> ThermalStressor \<Rightarrow> ThermalStressor" where
  "setCoreOnline cpu online s =
     (if cpu = 0 then s
      else thm_write (cpu_file cpu ''/online'') (if online then ''1'' else ''0'') s)"

definition isCoreOnline :: "sysfs \<Rightarrow> int \<Rightarrow> bool" where
  "isCoreOnline fs cpu =
     (if cpu = 0 then True else CHR ''1'' \<in> set (readSysFile fs (cpu_file cpu ''/online'')))"

definition getCpuGovernor :: "sysfs \<Rightarrow> int \<Rightarrow> string" where
  "getCpuGovernor fs cpu = readSysFile fs (cpu_file cpu ''/cpufreq/scaling_governor'')"

definition setCpuGovernor :: "int \<Rightarrow> string \<Rightarrow> ThermalStressor \<Rightarrow> ThermalStressor" where
  "setCpuGovernor cpu governor s = thm_write (cpu_file cpu ''/cpufreq/scaling_governor'') governor s"

definition getMaxFrequency :: "sysfs \<Rightarrow> int \<Rightarrow> stol_error + int" where
  "getMaxFrequency fs cpu =
     (let v = readSysFile fs (cpu_file cpu ''/cpufreq/cpuinfo_max_freq'')
      in if v = [] then Inr 0 else stol v)"

definition getMinFrequency :: "sysfs \<Rightarrow> int \<Rightarrow> stol_error + int" where
  "getMinFrequency fs cpu =
     (let v = readSysFile fs (cpu_file cpu ''/cpufreq/cpuinfo_min_freq'')
      in if v = [] then Inr 0 else stol v)"

definition ThermalStressor_setMaxFrequency :: "int \<Rightarrow> int \<Rightarrow> ThermalStressor \<Rightarrow> ThermalStressor" where
  "ThermalStressor_setMaxFrequency cpu frequency s =
     thm_write (cpu_file cpu ''/cpufreq/scaling_max_freq'') (to_string frequency) s"

text \<open>The first loop of \<open>applySettings\<close>: one turn for core \<open>cpu\<close>.\<close>

definition force_online :: "int \<Rightarrow> ThermalStressor \<Rightarrow> ThermalStressor" where
  "force_online cpu s =
     (let path = cpu_file cpu ''/online'';
          original = readSysFile (thm_sysfs s) path;
          s1 = (if original \<noteq> [] then thm_save path original s else s)
      in setCoreOnline cpu True s1)"

text \<open>The second loop of \<open>applySettings\<close>: one turn for core \<open>cpu\<close>. An exception of
  \<open>std::stol\<close> is not caught anywhere in the worker thread.\<close>

definition tune_core :: "int \<Rightarrow> int \<Rightarrow> ThermalStressor \<Rightarrow> error + ThermalStressor" where
  "tune_core maxFreqPercent cpu s =
     (if \<not> isCoreOnline (thm_sysfs s) cpu then Inr s
      else
        let govPath = cpu_file cpu ''/cpufreq/scaling_governor'';
            origGov = getCpuGovernor (thm_sysfs s) cpu;
            s1 = (if origGov \<noteq> [] then thm_save govPath origGov s else s);
            s2 = setCpuGovernor cpu ''performance'' s1
        in case getMaxFrequency (thm_sysfs s2) cpu of
             Inl e \<Rightarrow> Inl Terminated
           | Inr maxFreq \<Rightarrow>
              (case getMinFrequency (thm_sysfs s2) cpu of
                 Inl e \<Rightarrow> Inl Terminated
               | Inr minFreq \<Rightarrow>
                  if maxFreq > 0 \<and> maxFreqPercent < 100 then
                    let targetFreq =
                          long_add minFreq
                            (trunc_div (long_wrap (long_sub maxFreq minFreq * maxFreqPercent)) 100);
                        maxPath = cpu_file cpu ''/cpufreq/scaling_max_freq'';
                        s3 = thm_save maxPath (to_string maxFreq) s2
                    in Inr (ThermalStressor_setMaxFrequency cpu targetFreq s3)
                  else Inr s2))"

fun tune_cores :: "int \<Rightarrow> int list \<Rightarrow> ThermalStressor \<Rightarrow> error + ThermalStressor" where
  "tune_cores pct [] s = Inr s"
| "tune_cores pct (cpu # cpus) s =
     (case tune_core pct cpu s of Inl e \<Rightarrow> Inl e | Inr s' \<Rightarrow> tune_cores pct cpus s')"

definition applySettings :: "ThermalStressor \<Rightarrow> error + ThermalStressor" where
  "applySettings s =
     (let n = totalCores s;
          forceAllCores = forceAllCoresOnline (thm_config s);
          maxFreqPercent = maxFrequencyPercent (thm_config s);
          s1 = (if forceAllCores then foldl (\<lambda>st cpu. force_online cpu st) s (map int [1..<nat n])
                else s)
      in tune_cores maxFreqPercent (map int [0..<nat n]) s1)"

fun restore_entries :: "smap \<Rightarrow> sysfs \<Rightarrow> sysfs" where
  "restore_entries [] fs = fs"
| "restore_entries ((k, v) # m) fs = restore_entries m (snd (writeSysFile k v fs))"

definition restoreSettings :: "ThermalStressor \<Rightarrow> ThermalStressor" where
  "restoreSettings s =
     s\<lparr>thm_sysfs := restore_entries (thm_originalSettings s) (thm_sysfs s),
       thm_originalSettings := []\<rparr>"

definition ThermalStressor_start ::
  "ThermalStressConfig \<Rightarrow> int \<Rightarrow> ThermalStressor \<Rightarrow> error + (bool \<times> ThermalStressor)" where
  "ThermalStressor_start config now s =
     (if running s then Inr (False, s)
      else if thm_thread s \<noteq> TNoThread then Inl Terminated
      else Inr (True,
        (markStarted now (setDuration (thm_durationMs config)
           (s\<lparr>thm_config := config, thm_originalSettings := [],
              totalCores := numCores (thm_sysfs s)\<rparr>)))
          \<lparr>thm_thread := TSpawned\<rparr>))"

text \<open>One turn of the monitoring loop: count the cores that are online, and write 1 to
  every core from 1 on that is not, when all cores are wanted and one is missing.\<close>

definition monitor_cores :: "ThermalStressor \<Rightarrow> ThermalStressor" where
  "monitor_cores s =
     (let total = totalCores s;
          online = int (length (filter (isCoreOnline (thm_sysfs s)) (map int [0..<nat total])));
          s1 = s\<lparr>coresOnline := online\<rparr>
      in if forceAllCoresOnline (thm_config s1) \<and> online < total then
           foldl (\<lambda>st cpu. if \<not> isCoreOnline (thm_sysfs st) cpu then setCoreOnline cpu True st else st)
             s1 (map int [1..<nat total])
         else s1)"

definition thm_worker_step :: "int \<Rightarrow> ThermalStressor \<Rightarrow> error + ThermalStressor" where
  "thm_worker_step now s =
     (case thm_thread s of
        TNoThread \<Rightarrow> Inr s
      | TExited \<Rightarrow> Inr s
      | TSpawned \<Rightarrow>
          (case applySettings s of
             Inl e \<Rightarrow> Inl e
           | Inr s' \<Rightarrow> Inr (s'\<lparr>thm_thread := TLoop (long_add (startTimeMs s) (durationMs s))\<rparr>))
      | TLoop endTime \<Rightarrow>
          if running s \<and> now < endTime then Inr (monitor_cores s)
          else Inr ((markStopped s)\<lparr>thm_thread := TExited\<rparr>))"

fun thm_join :: "int list \<Rightarrow> ThermalStressor \<Rightarrow> error + ThermalStressor" where
  "thm_join ts s =
     (if thm_thread s = TNoThread then Inr s
      else if thm_thread s = TExited then Inr (s\<lparr>thm_thread := TNoThread\<rparr>)
      else case ts of
             [] \<Rightarrow> Inl JoinPending
           | t # ts' \<Rightarrow> (case thm_worker_step t s of Inl e \<Rightarrow> Inl e | Inr s' \<Rightarrow> thm_join ts' s'))"

declare thm_join.simps [simp del]

definition ThermalStressor_stop :: "int list \<Rightarrow> ThermalStressor \<Rightarrow> error + ThermalStressor" where
  "ThermalStressor_stop ts s =
     (let wasRunning = running s;
          s1 = (if wasRunning then markStopped s else s)
      in case thm_join ts s1 of
           Inl e \<Rightarrow> Inl e
         | Inr s2 \<Rightarrow> Inr (restoreSettings s2))"

definition ThermalStressor_getStatus :: "int \<Rightarrow> ThermalStressor \<Rightarrow> StressStatus" where
  "ThermalStressor_getStatus now s =
     (let r = running s
      in \<lparr>type = ''thermal'', isRunning = r, remainingTimeMs = getRemainingTimeMs now s,
          data = (if r then
                    smap_put ''forceAllCoresOnline'' (bool_string (forceAllCoresOnline (thm_config s)))
                      (smap_put ''maxFrequencyPercent'' (to_string (maxFrequencyPercent (thm_config s)))
                        (smap_put ''onlineCores'' (to_string (coresOnline s))
                          (smap_put ''totalCores'' (to_string (totalCores s)) [])))
                  else [])\<rparr>)"


section \<open>The network generator (network\_stressor.cpp)\<close>

record NetworkStressConfig =
  bandwidthLimitKbps :: int
  latencyMs :: int
  packetLossPercent :: int
  net_durationMs :: int
  targetInterface :: string

text \<open>The four command lines the generator builds, by their parameters; \<open>command_line\<close>
  is the text handed to \<open>popen\<close>.\<close>

datatype tc_cmd =
    QdiscAddRootHtb string
  | ClassAddHtb string int
  | QdiscAddNetem string bool int int
  | QdiscDelRoot string

fun command_line :: "tc_cmd \<Rightarrow> string" where
  "command_line (QdiscAddRootHtb iface) =
     ''tc qdisc add dev '' @ iface @ '' root handle 1: htb default 12''"
| "command_line (ClassAddHtb iface kbps) =
     ''tc class add dev '' @ iface @ '' parent 1: classid 1:12 htb rate '' @ to_string kbps
       @ ''kbit ceil '' @ to_string kbps @ ''kbit''"
| "command_line (QdiscAddNetem iface child lat loss) =
     ''tc qdisc add dev '' @ iface
       @ (if child then '' parent 1:12 handle 10: netem'' else '' root netem'')
       @ (if lat > 0 then '' delay '' @ to_string lat @ ''ms'' else [])
       @ (if loss > 0 then '' loss '' @ to_string loss @ ''%'' else [])"
| "command_line (QdiscDelRoot iface) = ''tc qdisc del dev '' @ iface @ '' root 2>/dev/null''"

text \<open>
  The system as the generator's subprocesses see it: the exit status and output of the
  two probes of \<open>checkTcAvailable\<close>, which \<open>tc\<close> commands exit with status 0, and the
  queuing rules in force on each interface. A command that succeeds takes effect: an
  \<open>add\<close> installs its rule, deleting the root removes every rule of the interface.
\<close>

record shell =
  which_tc :: "bool \<times> string"
  ls_tc :: "bool \<times> string"
  tc_ok :: "tc_cmd \<Rightarrow> bool"
  shaping :: "string \<Rightarrow> tc_cmd list"

fun tc_iface :: "tc_cmd \<Rightarrow> string" where
  "tc_iface (QdiscAddRootHtb i) = i"
| "tc_iface (ClassAddHtb i k) = i"
| "tc_iface (QdiscAddNetem i c l p) = i"
| "tc_iface (QdiscDelRoot i) = i"

definition tc_effect :: "tc_cmd \<Rightarrow> (string \<Rightarrow> tc_cmd list) \<Rightarrow> (string \<Rightarrow> tc_cmd list)" where
  "tc_effect c sh =
     (case c of
        QdiscDelRoot i \<Rightarrow> sh(i := [])
      | _ \<Rightarrow> sh(tc_iface c := sh (tc_iface c) @ [c]))"

definition executeCommand :: "tc_cmd \<Rightarrow> shell \<Rightarrow> bool \<times> shell" where
  "executeCommand c w =
     (if tc_ok w c then (True, w\<lparr>shaping := tc_effect c (shaping w)\<rparr>) else (False, w))"

definition checkTcAvailable :: "shell \<Rightarrow> bool" where
  "checkTcAvailable w =
     (if fst (which_tc w) then snd (which_tc w) \<noteq> []
      else if fst (ls_tc w) then snd (which_tc w) @ snd (ls_tc w) \<noteq> []
      else False)"

datatype net_worker = NNoThread | NSpawned | NWait int | NExited

record NetworkStressor = StressorBase +
  net_config :: NetworkStressConfig
  net_thread :: net_worker
  tcRulesApplied :: bool
  net_shell :: shell

definition net_exec :: "tc_cmd \<Rightarrow> NetworkStressor \<Rightarrow> bool \<times> NetworkStressor" where
  "net_exec c s =
     (let r = executeCommand c (net_shell s) in (fst r, s\<lparr>net_shell := snd r\<rparr>))"

definition removeTcRules :: "NetworkStressor \<Rightarrow> NetworkStressor" where
  "removeTcRules s =
     (if \<not> tcRulesApplied s then s
      else (snd (net_exec (QdiscDelRoot (targetInterface (net_config s))) s))
             \<lparr>tcRulesApplied := False\<rparr>)"

text \<open>The netem stage of \<open>applyTcRules\<close>, entered once the rate-limiting stage is through.\<close>

definition apply_netem :: "NetworkStressor \<Rightarrow> bool \<times> NetworkStressor" where
  "apply_netem s =
     (let iface = targetInterface (net_config s);
          bandwidthKbps = bandwidthLimitKbps (net_config s);
          lat = latencyMs (net_config s);
          packetLoss = packetLossPercent (net_config s)
      in if lat > 0 \<or> packetLoss > 0 then
           (case net_exec (QdiscAddNetem iface (bandwidthKbps > 0) lat packetLoss) s of
              (False, s1) \<Rightarrow> (False, removeTcRules s1)
            | (True, s1) \<Rightarrow> (True, s1\<lparr>tcRulesApplied := True\<rparr>))
         else (True, s\<lparr>tcRulesApplied := True\<rparr>))"

definition applyTcRules :: "NetworkStressor \<Rightarrow> bool \<times> NetworkStressor" where
  "applyTcRules s =
     (let iface = targetInterface (net_config s);
          bandwidthKbps = bandwidthLimitKbps (net_config s);
          lat = latencyMs (net_config s);
          packetLoss = packetLossPercent (net_config s);
          s0 = removeTcRules s
      in if bandwidthKbps = 0 \<and> lat = 0 \<and> packetLoss = 0 then (True, s0\<lparr>tcRulesApplied := True\<rparr>)
         else if bandwidthKbps > 0 then
           (case net_exec (QdiscAddRootHtb iface) s0 of
              (False, s1) \<Rightarrow> (False, s1)
            | (True, s1) \<Rightarrow>
               (case net_exec (ClassAddHtb iface bandwidthKbps) s1 of
                  (False, s2) \<Rightarrow> (False, removeTcRules s2)
                | (True, s2) \<Rightarrow> apply_netem s2))
         else apply_netem s0)"

definition NetworkStressor_start ::
  "NetworkStressConfig \<Rightarrow> int \<Rightarrow> NetworkStressor \<Rightarrow> error + (bool \<times> NetworkStressor)" where
  "NetworkStressor_start config now s =
     (if running s then Inr (False, s)
      else if \<not> checkTcAvailable (net_shell s) then Inr (False, s)
      else if net_thread s \<noteq> NNoThread then Inl Terminated
      else Inr (True,
        (markStarted now (setDuration (net_durationMs config) (s\<lparr>net_config := config\<rparr>)))
          \<lparr>net_thread := NSpawned\<rparr>))"

definition net_worker_step :: "int \<Rightarrow> NetworkStressor \<Rightarrow> NetworkStressor" where
  "net_worker_step now s =
     (case net_thread s of
        NNoThread \<Rightarrow> s
      | NExited \<Rightarrow> s
      | NSpawned \<Rightarrow>
          (case applyTcRules s of
             (False, s1) \<Rightarrow> (markStopped s1)\<lparr>net_thread := NExited\<rparr>
           | (True, s1) \<Rightarrow> s1\<lparr>net_thread := NWait (long_add (startTimeMs s) (durationMs s))\<rparr>)
      | NWait endTime \<Rightarrow>
          if running s \<and> now < endTime then s
          else (removeTcRules (markStopped s))\<lparr>net_thread := NExited\<rparr>)"

fun net_join :: "int list \<Rightarrow> NetworkStressor \<Rightarrow> error + NetworkStressor" where
  "net_join ts s =
     (if net_thread s = NNoThread then Inr s
      else if net_thread s = NExited then Inr (s\<lparr>net_thread := NNoThread\<rparr>)
      else case ts of [] \<Rightarrow> Inl JoinPending | t # ts' \<Rightarrow> net_join ts' (net_worker_step t s))"

declare net_join.simps [simp del]

definition NetworkStressor_stop :: "int list \<Rightarrow> NetworkStressor \<Rightarrow> error + NetworkStressor" where
  "NetworkStressor_stop ts s =
     (let wasRunning = running s;
          s1 = (if wasRunning then markStopped s else s)
      in case net_join ts s1 of
           Inl e \<Rightarrow> Inl e
         | Inr s2 \<Rightarrow> Inr (removeTcRules s2))"

definition NetworkStressor_getStatus :: "int \<Rightarrow> NetworkStressor \<Rightarrow> StressStatus" where
  "NetworkStressor_getStatus now s =
     (let r = running s
      in \<lparr>type = ''network'', isRunning = r, remainingTimeMs = getRemainingTimeMs now s,
          data = (if r then
                    smap_put ''rulesApplied'' (bool_string (tcRulesApplied s))
                      (smap_put ''packetLossPercent'' (to_string (packetLossPercent (net_config s)))
                        (smap_put ''latencyMs'' (to_string (latencyMs (net_config s)))
                          (smap_put ''bandwidthLimitKbps'' (to_string (bandwidthLimitKbps (net_config s)))
                            (smap_put ''interface'' (targetInterface (net_config s)) []))))
                  else [])\<rparr>)"


section \<open>The disk generator (disk\_stressor.cpp)\<close>

record DiskStressConfig =
  throughputMBps :: int
  chunkSizeKB :: int
  disk_durationMs :: int
  testPath :: string
  useDirectIO :: bool
  syncWrites :: bool

text \<open>
  The file system as the generator uses it: what \<open>stat\<close> reports for a path (\<open>None\<close>: it
  fails), whether \<open>mkdir\<close> and \<open>unlink\<close> of a path succeed, the names \<open>readdir\<close> lists
  in a directory, and whether the worker's I/O buffer can be allocated.
\<close>

datatype node = Dir | File

record diskfs =
  stat_of :: "string \<Rightarrow> node option"
  mkdir_ok :: "string \<Rightarrow> bool"
  unlink_ok :: "string \<Rightarrow> bool"
  listing :: "string \<Rightarrow> string list"
  buffer_ok :: "int \<Rightarrow> bool"

fun starts_with :: "string \<Rightarrow> string \<Rightarrow> bool" where
  "starts_with s [] = True"
| "starts_with [] (c # cs) = False"
| "starts_with (d # ds) (c # cs) = (d = c \<and> starts_with ds cs)"

fun strstr :: "string \<Rightarrow> string \<Rightarrow> bool" where
  "strstr [] sub = (sub = [])"
| "strstr (c # cs) sub = (starts_with (c # cs) sub \<or> strstr cs sub)"

definition ensureDirectory :: "string \<Rightarrow> diskfs \<Rightarrow> bool \<times> diskfs" where
  "ensureDirectory path w =
     (case stat_of w path of
        Some k \<Rightarrow> (k = Dir, w)
      | None \<Rightarrow>
          if mkdir_ok w path
          then (True, w\<lparr>stat_of := (stat_of w)(path \<mapsto> Dir), listing := (listing w)(path := [])\<rparr>)
          else (False, w))"

definition unlink :: "string \<Rightarrow> string \<Rightarrow> diskfs \<Rightarrow> diskfs" where
  "unlink dir name w =
     (if unlink_ok w (dir @ ''/'' @ name)
      then w\<lparr>listing := (listing w)(dir := removeAll name (listing w dir))\<rparr>
      else w)"

definition create_file :: "string \<Rightarrow> string \<Rightarrow> diskfs \<Rightarrow> diskfs" where
  "create_file dir name w =
     (if name \<in> set (listing w dir) then w
      else w\<lparr>listing := (listing w)(dir := listing w dir @ [name])\<rparr>)"

record disk_locals =
  d_testPath :: string
  d_endTime :: int
  d_fileCounter :: int
  d_cycleStartTime :: int
  d_bytesThisCycle :: int

datatype disk_worker = DNoThread | DSpawned | DLoop disk_locals | DExited

record DiskStressor = StressorBase +
  disk_config :: DiskStressConfig
  disk_thread :: disk_worker
  bytesWritten :: int
  bytesRead :: int
  disk_fs :: diskfs

text \<open>What one turn of the worker loop observes: the clock at the loop head, whether the
  file opens for writing, the results of \<open>write\<close> and of the \<open>read\<close> (0 when the second
  open fails), and the clock at the throttle and at the reset of the cycle.\<close>

record disk_tick =
  k_now :: int
  k_open_ok :: bool
  k_written :: int
  k_readBytes :: int
  k_now_throttle :: int
  k_now_reset :: int

definition cleanup :: "DiskStressor \<Rightarrow> DiskStressor" where
  "cleanup s =
     (let path = testPath (disk_config s); w = disk_fs s
      in if stat_of w path = Some Dir then
           s\<lparr>disk_fs :=
               foldl (\<lambda>w' name.
                        if strstr name ''stress_'' \<and> strstr name ''.tmp'' then unlink path name w'
                        else w')
                 w (listing w path)\<rparr>
         else s)"

definition DiskStressor_start ::
  "DiskStressConfig \<Rightarrow> int \<Rightarrow> DiskStressor \<Rightarrow> error + (bool \<times> DiskStressor)" where
  "DiskStressor_start config now s =
     (if running s then Inr (False, s)
      else
        let s1 = s\<lparr>disk_config := config\<rparr>;
            r = ensureDirectory (testPath config) (disk_fs s1)
        in if \<not> fst r then Inr (False, s1\<lparr>disk_fs := snd r\<rparr>)
           else if disk_thread s \<noteq> DNoThread then Inl Terminated
           else Inr (True,
             (markStarted now (setDuration (disk_durationMs config) (s1\<lparr>disk_fs := snd r\<rparr>)))
               \<lparr>bytesWritten := 0, bytesRead := 0, disk_thread := DSpawned\<rparr>))"

definition disk_iteration :: "disk_locals \<Rightarrow> disk_tick \<Rightarrow> DiskStressor \<Rightarrow> DiskStressor" where
  "disk_iteration l t s =
     (let name = ''stress_'' @ to_string (d_fileCounter l) @ ''.tmp'';
          l1 = l\<lparr>d_fileCounter := int_wrap (d_fileCounter l + 1)\<rparr>
      in if \<not> k_open_ok t then s\<lparr>disk_thread := DLoop l1\<rparr>
         else
           let w1 = create_file (d_testPath l) name (disk_fs s);
               wr = (if k_written t > 0 then k_written t else 0);
               rd = (if k_readBytes t > 0 then k_readBytes t else 0);
               cyc = long_wrap (long_wrap (d_bytesThisCycle l + wr) + rd);
               w2 = unlink (d_testPath l) name w1;
               elapsed = long_sub (k_now_throttle t) (d_cycleStartTime l);
               l2 = (if elapsed \<ge> 1000
                     then l1\<lparr>d_cycleStartTime := k_now_reset t, d_bytesThisCycle := 0\<rparr>
                     else l1\<lparr>d_bytesThisCycle := cyc\<rparr>)
           in s\<lparr>bytesWritten := long_wrap (bytesWritten s + wr),
                 bytesRead := long_wrap (bytesRead s + rd),
                 disk_fs := w2,
                 disk_thread := DLoop l2\<rparr>)"

definition disk_worker_step :: "disk_tick \<Rightarrow> DiskStressor \<Rightarrow> error + DiskStressor" where
  "disk_worker_step t s =
     (case disk_thread s of
        DNoThread \<Rightarrow> Inr s
      | DExited \<Rightarrow> Inr s
      | DSpawned \<Rightarrow>
          if \<not> buffer_ok (disk_fs s) (size_t_wrap (size_t_wrap (chunkSizeKB (disk_config s)) * 1024))
          then Inl Terminated
          else Inr (s\<lparr>disk_thread := DLoop
                 \<lparr>d_testPath = testPath (disk_config s),
                  d_endTime = long_add (startTimeMs s) (durationMs s),
                  d_fileCounter = 0,
                  d_cycleStartTime = k_now t,
                  d_bytesThisCycle = 0\<rparr>\<rparr>)
      | DLoop l \<Rightarrow>
          if running s \<and> k_now t < d_endTime l then Inr (disk_iteration l t s)
          else Inr ((cleanup (markStopped s))\<lparr>disk_thread := DExited\<rparr>))"

fun disk_join :: "disk_tick list \<Rightarrow> DiskStressor \<Rightarrow> error + DiskStressor" where
  "disk_join ts s =
     (if disk_thread s = DNoThread then Inr s
      else if disk_thread s = DExited then Inr (s\<lparr>disk_thread := DNoThread\<rparr>)
      else case ts of
             [] \<Rightarrow> Inl JoinPending
           | t # ts' \<Rightarrow> (case disk_worker_step t s of Inl e \<Rightarrow> Inl e | Inr s' \<Rightarrow> disk_join ts' s'))"

declare disk_join.simps [simp del]

definition DiskStressor_stop :: "disk_tick list \<Rightarrow> DiskStressor \<Rightarrow> error + DiskStressor" where
  "DiskStressor_stop ts s =
     (let wasRunning = running s;
          s1 = (if wasRunning then markStopped s else s)
      in case disk_join ts s1 of
           Inl e \<Rightarrow> Inl e
         | Inr s2 \<Rightarrow> Inr (cleanup s2))"

definition DiskStressor_getStatus :: "int \<Rightarrow> DiskStressor \<Rightarrow> StressStatus" where
  "DiskStressor_getStatus now s =
     (let r = running s
      in \<lparr>type = ''disk_io'', isRunning = r, remainingTimeMs = getRemainingTimeMs now s,
          data = (if r then
                    smap_put ''throughputMBps'' (to_string (throughputMBps (disk_config s)))
                      (smap_put ''bytesReadMB'' (to_string (trunc_div (bytesRead s) (1024 * 1024)))
                        (smap_put ''bytesWrittenMB''
                           (to_string (trunc_div (bytesWritten s) (1024 * 1024))) []))
                  else [])\<rparr>)"

section \<open>The CPU generator (cpu\_stressor.cpp)\<close>

record CPUStressConfig =
  threadCount :: int
  loadPercentage :: int
  cpu_durationMs :: int
  pinToCores :: bool
  targetCores :: "int list"

text \<open>An element of \<open>workerThreads_\<close>: a worker that was created with its thread and
  core numbers, a worker in its loop with \<open>endTime\<close>, or a worker that has returned.
  Every element is joinable.\<close>

datatype cpu_worker = CSpawned int int | CLoop int | CExited

record CPUStressor = StressorBase +
  cpu_config :: CPUStressConfig
  workerThreads :: "cpu_worker list"
  totalOpsCompleted :: int

text \<open>The core a new worker is pinned to; \<open>-1\<close> is none.\<close>

definition core_for :: "CPUStressConfig \<Rightarrow> int \<Rightarrow> nat \<Rightarrow> int" where
  "core_for config ncores i =
     (if pinToCores config \<and> targetCores config \<noteq> []
      then targetCores config ! (i mod length (targetCores config))
      else if pinToCores config then int i mod ncores
      else - 1)"

text \<open>\<open>onlineCores\<close> is \<open>sysconf(_SC_NPROCESSORS_ONLN)\<close>.\<close>

definition CPUStressor_getNumCores :: "int \<Rightarrow> int" where
  "CPUStressor_getNumCores onlineCores = (if onlineCores > 0 then onlineCores else 4)"

definition CPUStressor_start ::
  "CPUStressConfig \<Rightarrow> int \<Rightarrow> int \<Rightarrow> CPUStressor \<Rightarrow> error + (bool \<times> CPUStressor)" where
  "CPUStressor_start config now onlineCores s =
     (if running s then Inr (False, s)
      else if workerThreads s \<noteq> [] then Inl Terminated
      else
        let ncores = CPUStressor_getNumCores onlineCores
        in Inr (True,
             (markStarted now (setDuration (cpu_durationMs config) (s\<lparr>cpu_config := config\<rparr>)))
               \<lparr>totalOpsCompleted := 0,
                workerThreads :=
                  map (\<lambda>i. CSpawned (int i) (core_for config ncores i))
                    [0..<nat (threadCount config)]\<rparr>))"

text \<open>What one turn of a worker's outer loop observes: the clock at the loop head and the
  number of rounds of 1000 operations its busy window completed.\<close>

record cpu_tick =
  c_now :: int
  c_rounds :: nat

definition cpu_worker_step :: "nat \<Rightarrow> cpu_tick \<Rightarrow> CPUStressor \<Rightarrow> CPUStressor" where
  "cpu_worker_step i t s =
     (if i \<ge> length (workerThreads s) then s
      else case workerThreads s ! i of
        CExited \<Rightarrow> s
      | CSpawned tid core \<Rightarrow>
          s\<lparr>workerThreads := (workerThreads s)[i := CLoop (long_add (startTimeMs s) (durationMs s))]\<rparr>
      | CLoop endTime \<Rightarrow>
          if running s \<and> c_now t < endTime
          then s\<lparr>totalOpsCompleted := long_wrap (totalOpsCompleted s + 1000 * int (c_rounds t))\<rparr>
          else (markStopped s)\<lparr>workerThreads := (workerThreads s)[i := CExited]\<rparr>)"

text \<open>\<open>join()\<close> on worker \<open>i\<close>: it returns once the worker has, with the steps left over.\<close>

fun cpu_join_worker ::
  "nat \<Rightarrow> cpu_tick list \<Rightarrow> CPUStressor \<Rightarrow> error + (cpu_tick list \<times> CPUStressor)" where
  "cpu_join_worker i ts s =
     (if i \<ge> length (workerThreads s) \<or> workerThreads s ! i = CExited then Inr (ts, s)
      else case ts of
             [] \<Rightarrow> Inl JoinPending
           | t # ts' \<Rightarrow> cpu_join_worker i ts' (cpu_worker_step i t s))"

declare cpu_join_worker.simps [simp del]

fun cpu_join :: "nat list \<Rightarrow> cpu_tick list \<Rightarrow> CPUStressor \<Rightarrow> error + CPUStressor" where
  "cpu_join [] ts s = Inr s"
| "cpu_join (i # js) ts s =
     (case cpu_join_worker i ts s of
        Inl e \<Rightarrow> Inl e
      | Inr (ts', s') \<Rightarrow> cpu_join js ts' s')"

definition CPUStressor_stop :: "cpu_tick list \<Rightarrow> CPUStressor \<Rightarrow> error + CPUStressor" where
  "CPUStressor_stop ts s =
     (let wasRunning = running s;
          s1 = (if wasRunning then markStopped s else s)
      in case cpu_join [0..<length (workerThreads s1)] ts s1 of
           Inl e \<Rightarrow> Inl e
         | Inr s2 \<Rightarrow> Inr (s2\<lparr>workerThreads := []\<rparr>))"

definition CPUStressor_getStatus :: "int \<Rightarrow> CPUStressor \<Rightarrow> StressStatus" where
  "CPUStressor_getStatus now s =
     (let r = running s
      in \<lparr>type = ''cpu'', isRunning = r, remainingTimeMs = getRemainingTimeMs now s,
          data = (if r then
                    smap_put ''opsCompleted'' (to_string (totalOpsCompleted s))
                      (smap_put ''loadPercentage'' (to_string (loadPercentage (cpu_config s)))
                        (smap_put ''threadCount'' (to_string (threadCount (cpu_config s))) []))
                  else [])\<rparr>)"


section \<open>The frequency-throttle controller (cpu\_freq\_manager.cpp)\<close>

text \<open>The background thread: none, running \<open>workerFunction\<close>, or returned from it and
  not joined.\<close>

datatype fm_worker = FNoThread | FLive | FExited

record CPUFreqManager =
  isLimited :: bool
  targetMaxFreq :: int
  originalMaxFreq :: int
  autoRestoreMs :: int
  limitStartTimeMs :: int
  fm_targetCores :: "int list"
  fm_originalSettings :: smap
  workerRunning :: bool
  fm_thread :: fm_worker
  fm_sysfs :: sysfs

definition getCurrentMaxFreq :: "sysfs \<Rightarrow> int \<Rightarrow> int" where
  "getCurrentMaxFreq fs cpu =
     (let v = readSysFile fs (cpu_file cpu ''/cpufreq/scaling_max_freq'')
      in if v = [] then 0 else case stol v of Inl e \<Rightarrow> 0 | Inr n \<Rightarrow> n)"

definition getHardwareMaxFreq :: "sysfs \<Rightarrow> int \<Rightarrow> int" where
  "getHardwareMaxFreq fs cpu =
     (let v = readSysFile fs (cpu_file cpu ''/cpufreq/cpuinfo_max_freq'')
      in if v = [] then 0 else case stol v of Inl e \<Rightarrow> 0 | Inr n \<Rightarrow> n)"

definition setCpuMaxFreq :: "int \<Rightarrow> int \<Rightarrow> sysfs \<Rightarrow> bool \<times> sysfs" where
  "setCpuMaxFreq cpu frequency fs =
     writeSysFile (cpu_file cpu ''/cpufreq/scaling_max_freq'') (to_string frequency) fs"

text \<open>The loop that saves the original ceilings, one turn per target core.\<close>

fun save_originals :: "sysfs \<Rightarrow> int list \<Rightarrow> smap \<Rightarrow> smap" where
  "save_originals fs [] m = m"
| "save_originals fs (cpu # cpus) m =
     (let origFreq = getCurrentMaxFreq fs cpu
      in save_originals fs cpus
           (if origFreq > 0
            then smap_put (cpu_file cpu ''/cpufreq/scaling_max_freq'') (to_string origFreq) m
            else m))"

text \<open>The loop that applies the frequency, one turn per target core, with \<open>allSuccess\<close>.\<close>

fun apply_frequency :: "int \<Rightarrow> int list \<Rightarrow> bool \<times> sysfs \<Rightarrow> bool \<times> sysfs" where
  "apply_frequency frequency [] r = r"
| "apply_frequency frequency (cpu # cpus) (allSuccess, fs) =
     (let w = setCpuMaxFreq cpu frequency fs
      in apply_frequency frequency cpus (allSuccess \<and> fst w, snd w))"

definition startWorker :: "CPUFreqManager \<Rightarrow> CPUFreqManager" where
  "startWorker s = (if workerRunning s then s else s\<lparr>workerRunning := True, fm_thread := FLive\<rparr>)"

definition stopWorker :: "CPUFreqManager \<Rightarrow> CPUFreqManager" where
  "stopWorker s =
     (if \<not> workerRunning s then s else s\<lparr>workerRunning := False, fm_thread := FNoThread\<rparr>)"

definition target_cores :: "sysfs \<Rightarrow> int list \<Rightarrow> int list" where
  "target_cores fs cores = (if cores = [] then map int [0..<nat (numCores fs)] else cores)"

definition CPUFreqManager_setMaxFrequency ::
  "int \<Rightarrow> int list \<Rightarrow> int \<Rightarrow> int \<Rightarrow> CPUFreqManager \<Rightarrow> bool \<times> CPUFreqManager" where
  "CPUFreqManager_setMaxFrequency frequency cores autoRestore now s =
     (let targetCores = target_cores (fm_sysfs s) cores;
          s1 = (if \<not> isLimited s
                then s\<lparr>fm_originalSettings := save_originals (fm_sysfs s) targetCores [],
                       originalMaxFreq := getHardwareMaxFreq (fm_sysfs s) 0\<rparr>
                else s);
          r = apply_frequency frequency targetCores (True, fm_sysfs s1);
          s2 = s1\<lparr>fm_sysfs := snd r\<rparr>
      in if fst r then
           (True, (let s3 = s2\<lparr>fm_targetCores := targetCores, targetMaxFreq := frequency,
                                 autoRestoreMs := autoRestore, limitStartTimeMs := now,
                                 isLimited := True\<rparr>
                   in if \<not> workerRunning s3 then startWorker s3 else s3))
         else (False, s2))"

definition CPUFreqManager_restore :: "CPUFreqManager \<Rightarrow> bool \<times> CPUFreqManager" where
  "CPUFreqManager_restore s =
     (let s1 = stopWorker s
      in if \<not> isLimited s1 then (True, s1)
         else (True,
           s1\<lparr>fm_sysfs := restore_entries (fm_originalSettings s1) (fm_sysfs s1),
              fm_originalSettings := [], fm_targetCores := [], targetMaxFreq := 0,
              autoRestoreMs := 0, limitStartTimeMs := 0, isLimited := False\<rparr>))"


section \<open>The orchestrator (stress\_manager.cpp)\<close>

record StressManager =
  cpuStressor :: CPUStressor
  memoryStressor :: MemoryStressor
  diskStressor :: DiskStressor
  networkStressor :: NetworkStressor
  thermalStressor :: ThermalStressor
  mutex_locked :: bool

text \<open>
  How a call on the orchestrator stands for its caller: it has returned a value and left
  the orchestrator in a state; it waits at \<open>std::lock_guard\<close> for the mutex; it holds the
  mutex and waits inside the generator, in a \<open>join()\<close> that has not returned; or the
  process has terminated. \<open>CallWait\<close> carries the orchestrator as the other threads find
  it meanwhile: its mutex is locked, and its generators are given as they were when the
  call was made (the waiting call and the worker may have moved them since).
\<close>

datatype 'a outcome = Returned 'a StressManager | LockWait | CallWait StressManager | Crashed

text \<open>\<open>std::lock_guard<std::mutex> lock(mutex_)\<close> around \<open>body\<close>: the mutex is taken before
  the body runs and released when the body has returned.\<close>

definition with_lock ::
  "(StressManager \<Rightarrow> error + ('a \<times> StressManager)) \<Rightarrow> StressManager \<Rightarrow> 'a outcome" where
  "with_lock body m =
     (if mutex_locked m then LockWait
      else case body (m\<lparr>mutex_locked := True\<rparr>) of
             Inl Terminated \<Rightarrow> Crashed
           | Inl JoinPending \<Rightarrow> CallWait (m\<lparr>mutex_locked := True\<rparr>)
           | Inr (v, m') \<Rightarrow> Returned v (m'\<lparr>mutex_locked := False\<rparr>))"

definition startCpuStress :: "CPUStressConfig \<Rightarrow> int \<Rightarrow> int \<Rightarrow> StressManager \<Rightarrow> bool outcome" where
  "startCpuStress config now onlineCores =
     with_lock (\<lambda>m. case CPUStressor_start config now onlineCores (cpuStressor m) of
                       Inl e \<Rightarrow> Inl e | Inr (ok, g) \<Rightarrow> Inr (ok, m\<lparr>cpuStressor := g\<rparr>))"

definition stopCpuStress :: "cpu_tick list \<Rightarrow> StressManager \<Rightarrow> unit outcome" where
  "stopCpuStress ts =
     with_lock (\<lambda>m. case CPUStressor_stop ts (cpuStressor m) of
                       Inl e \<Rightarrow> Inl e | Inr g \<Rightarrow> Inr ((), m\<lparr>cpuStressor := g\<rparr>))"

definition getCpuStatus :: "int \<Rightarrow> StressManager \<Rightarrow> StressStatus outcome" where
  "getCpuStatus now = with_lock (\<lambda>m. Inr (CPUStressor_getStatus now (cpuStressor m), m))"

definition startMemoryStress :: "MemoryStressConfig \<Rightarrow> int \<Rightarrow> StressManager \<Rightarrow> bool outcome" where
  "startMemoryStress config now =
     with_lock (\<lambda>m. case MemoryStressor_start config now (memoryStressor m) of
                       Inl e \<Rightarrow> Inl e | Inr (ok, g) \<Rightarrow> Inr (ok, m\<lparr>memoryStressor := g\<rparr>))"

definition stopMemoryStress :: "mem_tick list \<Rightarrow> StressManager \<Rightarrow> unit outcome" where
  "stopMemoryStress ts =
     with_lock (\<lambda>m. case MemoryStressor_stop ts (memoryStressor m) of
                       Inl e \<Rightarrow> Inl e | Inr g \<Rightarrow> Inr ((), m\<lparr>memoryStressor := g\<rparr>))"

definition getMemoryStatus :: "int \<Rightarrow> int \<Rightarrow> StressManager \<Rightarrow> StressStatus outcome" where
  "getMemoryStatus now availableMB =
     with_lock (\<lambda>m. Inr (MemoryStressor_getStatus now availableMB (memoryStressor m), m))"

definition startDiskStress :: "DiskStressConfig \<Rightarrow> int \<Rightarrow> StressManager \<Rightarrow> bool outcome" where
  "startDiskStress config now =
     with_lock (\<lambda>m. case DiskStressor_start config now (diskStressor m) of
                       Inl e \<Rightarrow> Inl e | Inr (ok, g) \<Rightarrow> Inr (ok, m\<lparr>diskStressor := g\<rparr>))"

definition stopDiskStress :: "disk_tick list \<Rightarrow> StressManager \<Rightarrow> unit outcome" where
  "stopDiskStress ts =
     with_lock (\<lambda>m. case DiskStressor_stop ts (diskStressor m) of
                       Inl e \<Rightarrow> Inl e | Inr g \<Rightarrow> Inr ((), m\<lparr>diskStressor := g\<rparr>))"

definition getDiskStatus :: "int \<Rightarrow> StressManager \<Rightarrow> StressStatus outcome" where
  "getDiskStatus now = with_lock (\<lambda>m. Inr (DiskStressor_getStatus now (diskStressor m), m))"

definition startNetworkStress :: "NetworkStressConfig \<Rightarrow> int \<Rightarrow> StressManager \<Rightarrow> bool outcome" where
  "startNetworkStress config now =
     with_lock (\<lambda>m. case NetworkStressor_start config now (networkStressor m) of
                       Inl e \<Rightarrow> Inl e | Inr (ok, g) \<Rightarrow> Inr (ok, m\<lparr>networkStressor := g\<rparr>))"

definition stopNetworkStress :: "int list \<Rightarrow> StressManager \<Rightarrow> unit outcome" where
  "stopNetworkStress ts =
     with_lock (\<lambda>m. case NetworkStressor_stop ts (networkStressor m) of
                       Inl e \<Rightarrow> Inl e | Inr g \<Rightarrow> Inr ((), m\<lparr>networkStressor := g\<rparr>))"

definition getNetworkStatus :: "int \<Rightarrow> StressManager \<Rightarrow> StressStatus outcome" where
  "getNetworkStatus now = with_lock (\<lambda>m. Inr (NetworkStressor_getStatus now (networkStressor m), m))"

definition startThermalStress :: "ThermalStressConfig \<Rightarrow> int \<Rightarrow> StressManager \<Rightarrow> bool outcome" where
  "startThermalStress config now =
     with_lock (\<lambda>m. case ThermalStressor_start config now (thermalStressor m) of
                       Inl e \<Rightarrow> Inl e | Inr (ok, g) \<Rightarrow> Inr (ok, m\<lparr>thermalStressor := g\<rparr>))"

definition stopThermalStress :: "int list \<Rightarrow> StressManager \<Rightarrow> unit outcome" where
  "stopThermalStress ts =
     with_lock (\<lambda>m. case ThermalStressor_stop ts (thermalStressor m) of
                       Inl e \<Rightarrow> Inl e | Inr g \<Rightarrow> Inr ((), m\<lparr>thermalStressor := g\<rparr>))"

definition getThermalStatus :: "int \<Rightarrow> StressManager \<Rightarrow> StressStatus outcome" where
  "getThermalStatus now = with_lock (\<lambda>m. Inr (ThermalStressor_getStatus now (thermalStressor m), m))"

text \<open>The worker steps \<open>stopAll\<close> has to wait for, generator by generator.\<close>

record all_ticks =
  cpu_ticks :: "cpu_tick list"
  mem_ticks :: "mem_tick list"
  disk_ticks :: "disk_tick list"
  net_ticks :: "int list"
  thm_ticks :: "int list"

definition stopAll_body :: "all_ticks \<Rightarrow> StressManager \<Rightarrow> error + (unit \<times> StressManager)" where
  "stopAll_body ts m =
     (case CPUStressor_stop (cpu_ticks ts) (cpuStressor m) of
        Inl e \<Rightarrow> Inl e
      | Inr c \<Rightarrow>
     (case MemoryStressor_stop (mem_ticks ts) (memoryStressor m) of
        Inl e \<Rightarrow> Inl e
      | Inr me \<Rightarrow>
     (case DiskStressor_stop (disk_ticks ts) (diskStressor m) of
        Inl e \<Rightarrow> Inl e
      | Inr d \<Rightarrow>
     (case NetworkStressor_stop (net_ticks ts) (networkStressor m) of
        Inl e \<Rightarrow> Inl e
      | Inr n \<Rightarrow>
     (case ThermalStressor_stop (thm_ticks ts) (thermalStressor m) of
        Inl e \<Rightarrow> Inl e
      | Inr t \<Rightarrow>
          Inr ((), m\<lparr>cpuStressor := c, memoryStressor := me, diskStressor := d,
                     networkStressor := n, thermalStressor := t\<rparr>))))))"

definition stopAll :: "all_ticks \<Rightarrow> StressManager \<Rightarrow> unit outcome" where
  "stopAll ts = with_lock (stopAll_body ts)"

definition isAnyRunning :: "StressManager \<Rightarrow> bool outcome" where
  "isAnyRunning =
     with_lock (\<lambda>m. Inr (running (cpuStressor m) \<or> running (memoryStressor m)
                          \<or> running (diskStressor m) \<or> running (networkStressor m)
                          \<or> running (thermalStressor m), m))"


section \<open>Initial states, runs and what is observed of them\<close>

text \<open>The states the constructors leave, with the default member initialisers.\<close>

definition CPUStressor_init :: CPUStressor where
  "CPUStressor_init =
     \<lparr>running = False, startTimeMs = 0, durationMs = 0,
      cpu_config = \<lparr>threadCount = 4, loadPercentage = 100, cpu_durationMs = 300000,
                    pinToCores = False, targetCores = []\<rparr>,
      workerThreads = [], totalOpsCompleted = 0\<rparr>"

definition MemoryStressor_init :: MemoryStressor where
  "MemoryStressor_init =
     \<lparr>running = False, startTimeMs = 0, durationMs = 0,
      mem_config = \<lparr>targetFreeMB = 100, chunkSizeMB = 10, mem_durationMs = 300000,
                    useAnonymousMmap = True, lockMemory = False\<rparr>,
      mem_thread = MNoThread, allocations = [], allocatedBytes = 0, heap = [], mem_trace = []\<rparr>"

definition DiskStressor_init :: "diskfs \<Rightarrow> DiskStressor" where
  "DiskStressor_init w =
     \<lparr>running = False, startTimeMs = 0, durationMs = 0,
      disk_config = \<lparr>throughputMBps = 5, chunkSizeKB = 100, disk_durationMs = 300000,
                     testPath = ''/data/local/tmp/danr_stress'', useDirectIO = False,
                     syncWrites = False\<rparr>,
      disk_thread = DNoThread, bytesWritten = 0, bytesRead = 0, disk_fs = w\<rparr>"

definition NetworkStressor_init :: "shell \<Rightarrow> NetworkStressor" where
  "NetworkStressor_init w =
     \<lparr>running = False, startTimeMs = 0, durationMs = 0,
      net_config = \<lparr>bandwidthLimitKbps = 0, latencyMs = 0, packetLossPercent = 0,
                    net_durationMs = 300000, targetInterface = ''wlan0''\<rparr>,
      net_thread = NNoThread, tcRulesApplied = False, net_shell = w\<rparr>"

definition ThermalStressor_init :: "sysfs \<Rightarrow> ThermalStressor" where
  "ThermalStressor_init fs =
     \<lparr>running = False, startTimeMs = 0, durationMs = 0,
      thm_config = \<lparr>disableThermalThrottling = False, maxFrequencyPercent = 100,
                    forceAllCoresOnline = True, thm_durationMs = 300000\<rparr>,
      thm_thread = TNoThread, thm_originalSettings = [], coresOnline = 0, totalCores = 0,
      thm_sysfs = fs\<rparr>"

text \<open>What the lifecycle contract says of a status snapshot \<open>st\<close> taken at \<open>now\<close> of a
  generator in state \<open>s\<close>: the remaining time is \<open>max(0, duration - elapsed)\<close>, a number, while
  the generator is running, and the fields are zero when it is idle.\<close>

definition status_as_specified :: "int \<Rightarrow> 'a StressorBase_scheme \<Rightarrow> StressStatus \<Rightarrow> bool" where
  "status_as_specified now s st \<longleftrightarrow>
     isRunning st = running s \<and>
     (running s \<longrightarrow> remainingTimeMs st = max 0 (durationMs s - (now - startTimeMs s))) \<and>
     (\<not> running s \<longrightarrow> remainingTimeMs st = 0 \<and> data st = [])"

text \<open>The elapsed time and the time left both lie in the range of \<open>long\<close>.\<close>

definition times_in_range :: "int \<Rightarrow> 'a StressorBase_scheme \<Rightarrow> bool" where
  "times_in_range now s \<longleftrightarrow>
     long_range (now - startTimeMs s) \<and> long_range (durationMs s - (now - startTimeMs s))"

subsection \<open>Runs of the memory generator\<close>

text \<open>A run is a sequence of calls on the generator and of turns of its worker, in the
  order they take effect.\<close>

datatype mem_call = MStart MemoryStressConfig int | MWorker mem_tick | MStop "mem_tick list"

fun mem_exec :: "mem_call \<Rightarrow> MemoryStressor \<Rightarrow> error + MemoryStressor" where
  "mem_exec (MStart c now) s =
     (case MemoryStressor_start c now s of Inl e \<Rightarrow> Inl e | Inr (ok, s') \<Rightarrow> Inr s')"
| "mem_exec (MWorker t) s = Inr (mem_worker_step t s)"
| "mem_exec (MStop ts) s = MemoryStressor_stop ts s"

fun mem_run :: "mem_call list \<Rightarrow> MemoryStressor \<Rightarrow> error + MemoryStressor" where
  "mem_run [] s = Inr s"
| "mem_run (c # cs) s = (case mem_exec c s of Inl e \<Rightarrow> Inl e | Inr s' \<Rightarrow> mem_run cs s')"

text \<open>Bytes allocated and bytes released since the last start, read off the events.\<close>

fun run_allocated :: "int \<Rightarrow> mem_event list \<Rightarrow> int" where
  "run_allocated a [] = a"
| "run_allocated a (EvStart # es) = run_allocated 0 es"
| "run_allocated a (EvAlloc p n # es) = run_allocated (a + n) es"
| "run_allocated a (e # es) = run_allocated a es"

fun run_released :: "int \<Rightarrow> mem_event list \<Rightarrow> int" where
  "run_released a [] = a"
| "run_released a (EvStart # es) = run_released 0 es"
| "run_released a (EvMunmap p n # es) = run_released (a + n) es"
| "run_released a (EvFree p n # es) = run_released (a + n) es"
| "run_released a (e # es) = run_released a es"

text \<open>The allocation list as the events determine it, starting from \<open>L\<close>.\<close>

fun listed :: "nat list \<Rightarrow> mem_event list \<Rightarrow> nat list" where
  "listed L [] = L"
| "listed L (EvAlloc p n # es) = listed (L @ [p]) es"
| "listed L (EvListCleared # es) = listed [] es"
| "listed L (e # es) = listed L es"

text \<open>\<open>released_while_listed\<close>: every region is still on the allocation list when it is
  released. \<open>released_after_clear\<close>: the allocation list is empty whenever a region is
  released.\<close>

fun released_while_listed :: "nat list \<Rightarrow> mem_event list \<Rightarrow> bool" where
  "released_while_listed L [] = True"
| "released_while_listed L (EvAlloc p n # es) = released_while_listed (L @ [p]) es"
| "released_while_listed L (EvListCleared # es) = released_while_listed [] es"
| "released_while_listed L (EvMunmap p n # es) = (p \<in> set L \<and> released_while_listed L es)"
| "released_while_listed L (EvFree p n # es) = (p \<in> set L \<and> released_while_listed L es)"
| "released_while_listed L (e # es) = released_while_listed L es"

fun released_after_clear :: "nat list \<Rightarrow> mem_event list \<Rightarrow> bool" where
  "released_after_clear L [] = True"
| "released_after_clear L (EvAlloc p n # es) = released_after_clear (L @ [p]) es"
| "released_after_clear L (EvListCleared # es) = released_after_clear [] es"
| "released_after_clear L (EvMunmap p n # es) = (L = [] \<and> released_after_clear L es)"
| "released_after_clear L (EvFree p n # es) = (L = [] \<and> released_after_clear L es)"
| "released_after_clear L (e # es) = released_after_clear L es"

text \<open>The invariant of the memory generator's runs.\<close>

definition mem_inv :: "MemoryStressor \<Rightarrow> bool" where
  "mem_inv s \<longleftrightarrow>
     listed [] (mem_trace s) = allocations s \<and>
     released_after_clear [] (mem_trace s) \<and>
     heap s = map (\<lambda>p. (p, chunk_bytes (chunkSizeMB (mem_config s)))) (allocations s) \<and>
     run_allocated 0 (mem_trace s) =
       run_released 0 (mem_trace s)
       + chunk_bytes (chunkSizeMB (mem_config s)) * int (length (allocations s)) \<and>
     (\<forall>l. mem_thread s = MPhase1 l \<or> mem_thread s = MPhase2 l \<longrightarrow>
          l_chunkSizeMB l = chunkSizeMB (mem_config s)) \<and>
     (mem_thread s = MNoThread \<or> mem_thread s = MExited \<longrightarrow> allocations s = [])"

subsection \<open>Stopping\<close>

text \<open>The number of turns a worker takes to return once the running flag is clear.\<close>

fun mem_steps_left :: "mem_worker \<Rightarrow> nat" where
  "mem_steps_left MNoThread = 0"
| "mem_steps_left MExited = 0"
| "mem_steps_left (MPhase2 l) = 1"
| "mem_steps_left (MPhase1 l) = 2"
| "mem_steps_left MSpawned = 3"

fun thm_steps_left :: "thm_worker \<Rightarrow> nat" where
  "thm_steps_left TNoThread = 0"
| "thm_steps_left TExited = 0"
| "thm_steps_left (TLoop e) = 1"
| "thm_steps_left TSpawned = 2"

fun net_steps_left :: "net_worker \<Rightarrow> nat" where
  "net_steps_left NNoThread = 0"
| "net_steps_left NExited = 0"
| "net_steps_left (NWait e) = 1"
| "net_steps_left NSpawned = 2"

fun disk_steps_left :: "disk_worker \<Rightarrow> nat" where
  "disk_steps_left DNoThread = 0"
| "disk_steps_left DExited = 0"
| "disk_steps_left (DLoop l) = 1"
| "disk_steps_left DSpawned = 2"

fun cpu_steps_left :: "cpu_worker \<Rightarrow> nat" where
  "cpu_steps_left CExited = 0"
| "cpu_steps_left (CLoop e) = 1"
| "cpu_steps_left (CSpawned i c) = 2"

text \<open>The names \<open>cleanup\<close> leaves in the test directory, having gone through \<open>names\<close>.\<close>

definition kept :: "string \<Rightarrow> diskfs \<Rightarrow> string list \<Rightarrow> string list \<Rightarrow> string list" where
  "kept path w names l =
     filter (\<lambda>n. \<not> (n \<in> set names \<and> strstr n ''stress_'' \<and> strstr n ''.tmp''
                     \<and> unlink_ok w (path @ ''/'' @ n))) l"

text \<open>The test directory once every stress file in it that can be unlinked is gone; a
  path that is not a directory is left as it is.\<close>

definition swept :: "string \<Rightarrow> diskfs \<Rightarrow> diskfs" where
  "swept path w =
     (if stat_of w path = Some Dir then
        w\<lparr>listing := (listing w)(path :=
             filter (\<lambda>n. \<not> (strstr n ''stress_'' \<and> strstr n ''.tmp'' \<and> unlink_ok w (path @ ''/'' @ n)))
               (listing w path))\<rparr>
      else w)"

text \<open>The system once the generator's rules are off its interface: deleting the root
  takes effect when the rules are recorded as applied and the command succeeds.\<close>

definition rules_removed :: "NetworkStressor \<Rightarrow> shell" where
  "rules_removed s =
     (let iface = targetInterface (net_config s); w = net_shell s
      in if tcRulesApplied s \<and> tc_ok w (QdiscDelRoot iface)
         then w\<lparr>shaping := (shaping w)(iface := [])\<rparr>
         else w)"

text \<open>The control files once every entry of a snapshot is written to its path, where the
  path takes the value.\<close>

definition written_back :: "smap \<Rightarrow> sysfs \<Rightarrow> sysfs" where
  "written_back snap fs =
     fs\<lparr>contents := (\<lambda>p. case map_of snap p of
                              None \<Rightarrow> contents fs p
                            | Some v \<Rightarrow> if writable fs p then Some v else contents fs p)\<rparr>"

subsection \<open>Example inputs\<close>

definition mem_config_example :: MemoryStressConfig where
  "mem_config_example =
     \<lparr>targetFreeMB = 100, chunkSizeMB = 1, mem_durationMs = 1000,
      useAnonymousMmap = True, lockMemory = False\<rparr>"

definition mem_tick_example :: "int \<Rightarrow> nat \<Rightarrow> mem_tick" where
  "mem_tick_example t p = \<lparr>m_now = t, m_availableMB = 500, m_alloc = p\<rparr>"

text \<open>The memory generator started at time 0, its worker having allocated one chunk at
  address 4096; then the same after \<open>stop\<close>.\<close>

definition mem_example_calls :: "mem_call list" where
  "mem_example_calls =
     [MStart mem_config_example 0, MWorker (mem_tick_example 1 0),
      MWorker (mem_tick_example 2 4096)]"

definition mem_example_running :: MemoryStressor where
  "mem_example_running =
     \<lparr>running = True, startTimeMs = 0, durationMs = 1000,
      mem_config = mem_config_example,
      mem_thread = MPhase1 \<lparr>l_targetFreeMB = 100, l_chunkSizeMB = 1, l_lockMemory = False,
                            l_endTime = 1000\<rparr>,
      allocations = [4096], allocatedBytes = 1048576, heap = [(4096, 1048576)],
      mem_trace = [EvStart, EvAlloc 4096 1048576]\<rparr>"

definition mem_example_stopped :: MemoryStressor where
  "mem_example_stopped =
     \<lparr>running = False, startTimeMs = 0, durationMs = 1000,
      mem_config = mem_config_example,
      mem_thread = MNoThread,
      allocations = [], allocatedBytes = 0, heap = [],
      mem_trace = [EvStart, EvAlloc 4096 1048576, EvListCleared, EvMunmap 4096 1048576]\<rparr>"

definition shell_without_tc :: shell where
  "shell_without_tc =
     \<lparr>which_tc = (False, []), ls_tc = (False, []), tc_ok = (\<lambda>c. True), shaping = (\<lambda>i. [])\<rparr>"

definition net_config_example :: NetworkStressConfig where
  "net_config_example =
     \<lparr>bandwidthLimitKbps = 1000, latencyMs = 0, packetLossPercent = 0,
      net_durationMs = 60000, targetInterface = ''wlan0''\<rparr>"

text \<open>A file system where the default test directory exists, \<open>/proc/version\<close> is a plain
  file and no directory can be created.\<close>

definition diskfs_example :: diskfs where
  "diskfs_example =
     \<lparr>stat_of = (\<lambda>p. if p = ''/data/local/tmp/danr_stress'' then Some Dir
                      else if p = ''/proc/version'' then Some File else None),
      mkdir_ok = (\<lambda>p. False), unlink_ok = (\<lambda>p. True),
      listing = (\<lambda>p. []), buffer_ok = (\<lambda>n. True)\<rparr>"

definition disk_config_example :: "string \<Rightarrow> DiskStressConfig" where
  "disk_config_example path =
     \<lparr>throughputMBps = 5, chunkSizeKB = 100, disk_durationMs = 1000,
      testPath = path, useDirectIO = False, syncWrites = False\<rparr>"

text \<open>A single core with a hardware range of 300000 to 2000000 kHz whose ceiling is
  1500000 kHz before anything is started.\<close>

definition sysfs_example :: sysfs where
  "sysfs_example =
     \<lparr>contents = map_of
        [(''/sys/devices/system/cpu/cpu0/cpufreq/cpuinfo_max_freq'', ''2000000''),
         (''/sys/devices/system/cpu/cpu0/cpufreq/cpuinfo_min_freq'', ''300000''),
         (''/sys/devices/system/cpu/cpu0/cpufreq/scaling_max_freq'', ''1500000''),
         (''/sys/devices/system/cpu/cpu0/cpufreq/scaling_governor'', ''schedutil'')],
      writable = (\<lambda>p. True), numCores = 1\<rparr>"

text \<open>A system with \<open>tc\<close> installed where adding the rate class to \<open>wlan0\<close> fails and
  every other command succeeds, with no rule in force.\<close>

definition shell_class_fails :: shell where
  "shell_class_fails =
     \<lparr>which_tc = (True, ''/system/bin/tc''), ls_tc = (False, []),
      tc_ok = (\<lambda>c. c \<noteq> ClassAddHtb ''wlan0'' 1000), shaping = (\<lambda>i. [])\<rparr>"

text \<open>The network generator started with a bandwidth cap of 1000 kbit/s on \<open>wlan0\<close>, its
  worker run once, then stopped.\<close>

definition net_example_run :: "error + NetworkStressor" where
  "net_example_run =
     (case NetworkStressor_start net_config_example 0 (NetworkStressor_init shell_class_fails) of
        Inl e \<Rightarrow> Inl e
      | Inr (ok, s) \<Rightarrow> NetworkStressor_stop [] (net_worker_step 1 s))"

definition thm_config_example :: ThermalStressConfig where
  "thm_config_example =
     \<lparr>disableThermalThrottling = False, maxFrequencyPercent = 50,
      forceAllCoresOnline = False, thm_durationMs = 1000\<rparr>"

text \<open>The thermal generator started at 50 percent on the example core and stopped, its
  worker taking its turns while \<open>stop\<close> waits for it.\<close>

definition thm_example_run :: "error + ThermalStressor" where
  "thm_example_run =
     (case ThermalStressor_start thm_config_example 0 (ThermalStressor_init sysfs_example) of
        Inl e \<Rightarrow> Inl e
      | Inr (ok, s) \<Rightarrow> ThermalStressor_stop [1, 2] s)"

text \<open>The ceiling a path holds, as \<open>getCurrentMaxFreq\<close> reads it.\<close>

definition ceiling_of :: "sysfs \<Rightarrow> string \<Rightarrow> int" where
  "ceiling_of fs p =
     (let v = readSysFile fs p in if v = [] then 0 else case stol v of Inl e \<Rightarrow> 0 | Inr n \<Rightarrow> n)"

text \<open>The controller as its constructor leaves it.\<close>

definition CPUFreqManager_init :: "sysfs \<Rightarrow> CPUFreqManager" where
  "CPUFreqManager_init fs =
     \<lparr>isLimited = False, targetMaxFreq = 0, originalMaxFreq = getHardwareMaxFreq fs 0,
      autoRestoreMs = 0, limitStartTimeMs = 0, fm_targetCores = [], fm_originalSettings = [],
      workerRunning = False, fm_thread = FNoThread, fm_sysfs = fs\<rparr>"

text \<open>The controller on the example core after a limit of 1000000 kHz on all cores, then
  after a second limit of 800000 kHz on core 0, then after \<open>restore\<close>.\<close>

definition fm_example_1 :: CPUFreqManager where
  "fm_example_1 =
     snd (CPUFreqManager_setMaxFrequency 1000000 [] 0 10 (CPUFreqManager_init sysfs_example))"

definition fm_example_2 :: CPUFreqManager where
  "fm_example_2 = snd (CPUFreqManager_setMaxFrequency 800000 [0] 0 20 fm_example_1)"

definition fm_example_3 :: CPUFreqManager where
  "fm_example_3 = snd (CPUFreqManager_restore fm_example_2)"

text \<open>The generators started, then with the worker run past the end of the run without
  a call of \<open>stop\<close>, then stopped by a call of \<open>stop\<close> right after the start.\<close>

definition cpu_example_started :: CPUStressor where
  "cpu_example_started =
     snd (projr (CPUStressor_start
       \<lparr>threadCount = 2, loadPercentage = 50, cpu_durationMs = 200, pinToCores = False,
        targetCores = []\<rparr> 0 8 CPUStressor_init))"

definition cpu_tick_example :: "int \<Rightarrow> cpu_tick" where
  "cpu_tick_example t = \<lparr>c_now = t, c_rounds = 3\<rparr>"

definition cpu_example_expired :: CPUStressor where
  "cpu_example_expired =
     foldl (\<lambda>s i. cpu_worker_step i (cpu_tick_example 250) s) cpu_example_started [0, 1, 0, 1]"

definition mem_example_expired :: MemoryStressor where
  "mem_example_expired =
     mem_worker_step (mem_tick_example 1500 0)
       (mem_worker_step (mem_tick_example 1500 0) mem_example_running)"

definition disk_example_started :: DiskStressor where
  "disk_example_started =
     snd (projr (DiskStressor_start (disk_config_example ''/data/local/tmp/danr_stress'') 0
       (DiskStressor_init diskfs_example)))"

definition disk_tick_example :: "int \<Rightarrow> disk_tick" where
  "disk_tick_example t =
     \<lparr>k_now = t, k_open_ok = True, k_written = 102400, k_readBytes = 102400,
      k_now_throttle = t + 1, k_now_reset = t + 1\<rparr>"

definition disk_example_expired :: DiskStressor where
  "disk_example_expired =
     projr (disk_worker_step (disk_tick_example 1500)
       (projr (disk_worker_step (disk_tick_example 1) disk_example_started)))"

definition net_example_started :: NetworkStressor where
  "net_example_started =
     snd (projr (NetworkStressor_start net_config_example 0
       (NetworkStressor_init shell_class_fails)))"

definition thm_example_started :: ThermalStressor where
  "thm_example_started =
     snd (projr (ThermalStressor_start thm_config_example 0 (ThermalStressor_init sysfs_example)))"

definition thm_example_expired :: ThermalStressor where
  "thm_example_expired =
     projr (thm_worker_step 1500 (projr (thm_worker_step 1 thm_example_started)))"

definition cpu_example_stopped :: CPUStressor where
  "cpu_example_stopped =
     projr (CPUStressor_stop (replicate 4 (cpu_tick_example 5)) cpu_example_started)"

definition disk_example_stopped :: DiskStressor where
  "disk_example_stopped =
     projr (DiskStressor_stop (replicate 2 (disk_tick_example 5)) disk_example_started)"

definition thm_example_stopped :: ThermalStressor where
  "thm_example_stopped = projr (ThermalStressor_stop [5, 6] thm_example_started)"

text \<open>The test directory with a stress file left behind by an earlier process and a file
  of another kind. The disk generator started on it, its worker in the loop; then stopped.\<close>

definition diskfs_leftover :: diskfs where
  "diskfs_leftover =
     diskfs_example\<lparr>listing := (\<lambda>p. if p = ''/data/local/tmp/danr_stress''
                                       then [''stress_3.tmp'', ''notes.txt''] else [])\<rparr>"

definition disk_example_busy :: DiskStressor where
  "disk_example_busy =
     projr (disk_worker_step (disk_tick_example 1)
       (snd (projr (DiskStressor_start (disk_config_example ''/data/local/tmp/danr_stress'') 0
          (DiskStressor_init diskfs_leftover)))))"

definition disk_busy_stopped :: DiskStressor where
  "disk_busy_stopped = projr (DiskStressor_stop [disk_tick_example 5] disk_example_busy)"

text \<open>A system with \<open>tc\<close> installed where every command succeeds, with no rule in force.
  The network generator started on it with the cap of 1000 kbit/s; with its worker having
  applied the rules; with the worker run past the end of the run; stopped while the rules are
  in force; stopped right after the start.\<close>

definition shell_all_ok :: shell where
  "shell_all_ok =
     \<lparr>which_tc = (True, ''/system/bin/tc''), ls_tc = (False, []),
      tc_ok = (\<lambda>c. True), shaping = (\<lambda>i. [])\<rparr>"

definition net_shaped_started :: NetworkStressor where
  "net_shaped_started =
     snd (projr (NetworkStressor_start net_config_example 0 (NetworkStressor_init shell_all_ok)))"

definition net_shaped_running :: NetworkStressor where
  "net_shaped_running = net_worker_step 1 net_shaped_started"

definition net_shaped_expired :: NetworkStressor where
  "net_shaped_expired = net_worker_step 70000 net_shaped_running"

definition net_shaped_stopped :: NetworkStressor where
  "net_shaped_stopped = projr (NetworkStressor_stop [5] net_shaped_running)"

definition net_shaped_stopped_early :: NetworkStressor where
  "net_shaped_stopped_early = projr (NetworkStressor_stop [5, 6] net_shaped_started)"

text \<open>The thermal generator with its worker having applied the settings, and stopped
  then.\<close>

definition thm_example_running :: ThermalStressor where
  "thm_example_running = projr (thm_worker_step 1 thm_example_started)"

definition thm_running_stopped :: ThermalStressor where
  "thm_running_stopped = projr (ThermalStressor_stop [5] thm_example_running)"

text \<open>The CPU generator started with no worker thread and the duration
  \<open>LONG_MIN\<close>.\<close>

definition cpu_example_unbounded :: CPUStressor where
  "cpu_example_unbounded =
     snd (projr (CPUStressor_start
       \<lparr>threadCount = 0, loadPercentage = 50, cpu_durationMs = - 9223372036854775808,
        pinToCores = False, targetCores = []\<rparr> 0 8 CPUStressor_init))"

text \<open>The orchestrator with its five generators as constructed, and with every
  generator started and its worker not yet returned.\<close>

definition StressManager_init :: "diskfs \<Rightarrow> shell \<Rightarrow> sysfs \<Rightarrow> StressManager" where
  "StressManager_init dw nw fs =
     \<lparr>cpuStressor = CPUStressor_init, memoryStressor = MemoryStressor_init,
      diskStressor = DiskStressor_init dw, networkStressor = NetworkStressor_init nw,
      thermalStressor = ThermalStressor_init fs, mutex_locked = False\<rparr>"

definition manager_example :: StressManager where
  "manager_example =
     (StressManager_init diskfs_example shell_class_fails sysfs_example)
       \<lparr>cpuStressor := cpu_example_started, memoryStressor := mem_example_running,
        diskStressor := disk_example_started, networkStressor := net_example_started,
        thermalStressor := thm_example_started\<rparr>"

definition no_ticks :: all_ticks where
  "no_ticks = \<lparr>cpu_ticks = [], mem_ticks = [], disk_ticks = [], net_ticks = [], thm_ticks = []\<rparr>"

section \<open>Properties\<close>

subsection \<open>Starting\<close>

text \<open>
  C5. For every generator, \<open>start(config)\<close> on a generator that is running returns false
  and leaves the whole state as it was: the stored configuration, the duration, the
  running flag, the counters and the worker threads.
\<close>

theorem start_while_running_has_no_effect:
  "(running c \<longrightarrow> CPUStressor_start cc now oc c = Inr (False, c)) \<and>
   (running m \<longrightarrow> MemoryStressor_start mc now m = Inr (False, m)) \<and>
   (running d \<longrightarrow> DiskStressor_start dc now d = Inr (False, d)) \<and>
   (running n \<longrightarrow> NetworkStressor_start nc now n = Inr (False, n)) \<and>
   (running t \<longrightarrow> ThermalStressor_start tc now t = Inr (False, t))"
  by (simp add: CPUStressor_start_def MemoryStressor_start_def DiskStressor_start_def
      NetworkStressor_start_def ThermalStressor_start_def)

theorem start_while_running_has_no_effect_witness:
  "running (CPUStressor_init\<lparr>running := True\<rparr>) \<and>
   CPUStressor_start (cpu_config CPUStressor_init) 5 8 (CPUStressor_init\<lparr>running := True\<rparr>)
     = Inr (False, CPUStressor_init\<lparr>running := True\<rparr>) \<and>
   running mem_example_running \<and>
   MemoryStressor_start mem_config_example 5 mem_example_running
     = Inr (False, mem_example_running) \<and>
   running ((DiskStressor_init diskfs_example)\<lparr>running := True\<rparr>) \<and>
   DiskStressor_start (disk_config_example ''/proc/version'') 5
       ((DiskStressor_init diskfs_example)\<lparr>running := True\<rparr>)
     = Inr (False, (DiskStressor_init diskfs_example)\<lparr>running := True\<rparr>) \<and>
   running ((NetworkStressor_init shell_without_tc)\<lparr>running := True\<rparr>) \<and>
   NetworkStressor_start net_config_example 5
       ((NetworkStressor_init shell_without_tc)\<lparr>running := True\<rparr>)
     = Inr (False, (NetworkStressor_init shell_without_tc)\<lparr>running := True\<rparr>) \<and>
   running ((ThermalStressor_init sysfs_example)\<lparr>running := True\<rparr>) \<and>
   ThermalStressor_start (thm_config (ThermalStressor_init sysfs_example)) 5
       ((ThermalStressor_init sysfs_example)\<lparr>running := True\<rparr>)
     = Inr (False, (ThermalStressor_init sysfs_example)\<lparr>running := True\<rparr>)"
  using start_while_running_has_no_effect
    [of "CPUStressor_init\<lparr>running := True\<rparr>" "cpu_config CPUStressor_init" 5 8
        mem_example_running mem_config_example
        "(DiskStressor_init diskfs_example)\<lparr>running := True\<rparr>"
        "disk_config_example ''/proc/version''"
        "(NetworkStressor_init shell_without_tc)\<lparr>running := True\<rparr>" net_config_example
        "(ThermalStressor_init sysfs_example)\<lparr>running := True\<rparr>" "thm_config (ThermalStressor_init sysfs_example)"]
  by (simp add: mem_example_running_def)


text \<open>
  C7. When the traffic-shaping tool is not available, \<open>start(config)\<close> of the network
  generator returns false and leaves the whole state as it was: no configuration stored,
  no duration set, the running flag unchanged, no worker, no command run on the rules.
\<close>

theorem network_start_without_tc:
  assumes "\<not> checkTcAvailable (net_shell s)"
  shows "NetworkStressor_start config now s = Inr (False, s)"
  using assms by (simp add: NetworkStressor_start_def)

theorem network_start_without_tc_witness:
  "\<not> checkTcAvailable (net_shell (NetworkStressor_init shell_without_tc)) \<and>
   NetworkStressor_start net_config_example 5 (NetworkStressor_init shell_without_tc)
     = Inr (False, NetworkStressor_init shell_without_tc)"
proof -
  have h: "\<not> checkTcAvailable (net_shell (NetworkStressor_init shell_without_tc))"
    by (simp add: checkTcAvailable_def NetworkStressor_init_def shell_without_tc_def)
  show ?thesis
    using h network_start_without_tc [OF h, of net_config_example 5] by simp
qed

text \<open>
  C10. When the target path of the disk generator exists and is not a directory, or does
  not exist and cannot be created, \<open>start(config)\<close> on a generator that is not running
  returns false, spawns no worker and leaves the generator not running; the stored
  configuration is the new one all the same.
\<close>

theorem disk_start_bad_path:
  assumes "\<not> running s"
    and "stat_of (disk_fs s) (testPath config) = Some File
         \<or> (stat_of (disk_fs s) (testPath config) = None
            \<and> \<not> mkdir_ok (disk_fs s) (testPath config))"
  shows "DiskStressor_start config now s = Inr (False, s\<lparr>disk_config := config\<rparr>)"
  using assms by (auto simp: DiskStressor_start_def ensureDirectory_def Let_def)

theorem disk_start_bad_path_witness:
  "\<not> running (DiskStressor_init diskfs_example) \<and>
   stat_of (disk_fs (DiskStressor_init diskfs_example))
     (testPath (disk_config_example ''/proc/version'')) = Some File \<and>
   DiskStressor_start (disk_config_example ''/proc/version'') 5 (DiskStressor_init diskfs_example)
     = Inr (False, (DiskStressor_init diskfs_example)
                     \<lparr>disk_config := disk_config_example ''/proc/version''\<rparr>) \<and>
   stat_of (disk_fs (DiskStressor_init diskfs_example))
     (testPath (disk_config_example ''/data/new'')) = None \<and>
   \<not> mkdir_ok (disk_fs (DiskStressor_init diskfs_example))
     (testPath (disk_config_example ''/data/new'')) \<and>
   DiskStressor_start (disk_config_example ''/data/new'') 5 (DiskStressor_init diskfs_example)
     = Inr (False, (DiskStressor_init diskfs_example)
                     \<lparr>disk_config := disk_config_example ''/data/new''\<rparr>) \<and>
   disk_config (DiskStressor_init diskfs_example) \<noteq> disk_config_example ''/data/new''"
proof -
  have r: "\<not> running (DiskStressor_init diskfs_example)"
    by (simp add: DiskStressor_init_def)
  have f: "stat_of (disk_fs (DiskStressor_init diskfs_example))
             (testPath (disk_config_example ''/proc/version'')) = Some File"
    by (simp add: DiskStressor_init_def diskfs_example_def disk_config_example_def)
  have n: "stat_of (disk_fs (DiskStressor_init diskfs_example))
             (testPath (disk_config_example ''/data/new'')) = None
           \<and> \<not> mkdir_ok (disk_fs (DiskStressor_init diskfs_example))
                 (testPath (disk_config_example ''/data/new''))"
    by (simp add: DiskStressor_init_def diskfs_example_def disk_config_example_def)
  have d: "disk_config (DiskStressor_init diskfs_example) \<noteq> disk_config_example ''/data/new''"
    by (simp add: DiskStressor_init_def disk_config_example_def)
  show ?thesis
    using r f n d
      disk_start_bad_path [OF r disjI1 [OF f], of 5]
      disk_start_bad_path [OF r disjI2 [OF n], of 5]
    by simp
qed

subsection \<open>Status\<close>

lemma long_sub_exact: "long_range (a - b) \<Longrightarrow> long_sub a b = a - b"
  by (simp add: long_sub_def long_wrap_def long_range_def)

lemma remaining_as_specified:
  assumes "isRunning st = running s" and "remainingTimeMs st = getRemainingTimeMs now s"
    and "data st = (if running s then d else [])" and "running s \<longrightarrow> times_in_range now s"
  shows "status_as_specified now s st"
proof (cases "running s")
  case False
  then show ?thesis using assms by (simp add: status_as_specified_def getRemainingTimeMs_def)
next
  case True
  then have r: "long_range (now - startTimeMs s)"
    "long_range (durationMs s - (now - startTimeMs s))"
    using assms(4) by (simp_all add: times_in_range_def)
  have "long_sub (durationMs s) (long_sub now (startTimeMs s))
        = durationMs s - (now - startTimeMs s)"
    using r by (simp add: long_sub_exact)
  then show ?thesis
    using assms True
    by (simp add: status_as_specified_def getRemainingTimeMs_def Let_def max_def)
qed

text \<open>
  C8, as stated: while a generator is running, the remaining time of its status snapshot is
  \<open>max(0, duration - elapsed)\<close>. Here the CPU generator was started at time 0 with no worker
  thread and the duration \<open>LONG_MIN\<close>, which the control surface passes on as it parses it, and
  is running; at time 1 the formula gives 0 and the snapshot says 9223372036854775807:
  \<open>getRemainingTimeMs\<close> subtracts in \<open>long\<close>, where \<open>LONG_MIN - 1\<close> wraps around.
\<close>

theorem status_remaining_overflow_counterexample:
  "running cpu_example_unbounded \<and>
   startTimeMs cpu_example_unbounded = 0 \<and>
   durationMs cpu_example_unbounded = - 9223372036854775808 \<and>
   workerThreads cpu_example_unbounded = [] \<and>
   remainingTimeMs (CPUStressor_getStatus 1 cpu_example_unbounded) = 9223372036854775807 \<and>
   max 0 (durationMs cpu_example_unbounded - (1 - startTimeMs cpu_example_unbounded)) = 0 \<and>
   \<not> status_as_specified 1 cpu_example_unbounded (CPUStressor_getStatus 1 cpu_example_unbounded)"
  by (simp add: cpu_example_unbounded_def CPUStressor_start_def CPUStressor_init_def
      markStarted_def setDuration_def CPUStressor_getStatus_def getRemainingTimeMs_def
      long_sub_def long_wrap_def status_as_specified_def Let_def)

text \<open>
  C8, amended: for every generator, \<open>status()\<close> returns a snapshot whose running flag is the
  generator's; while the generator is running, and provided the elapsed time \<open>now - start\<close> and
  the difference \<open>duration - elapsed\<close> both lie in the range of \<open>long\<close>, its remaining time is
  \<open>max(0, duration - elapsed)\<close>; whenever the generator is idle its remaining time is 0 and its
  counter map is empty.
\<close>

theorem status_snapshot:
  "((running c \<longrightarrow> times_in_range now c) \<longrightarrow>
      status_as_specified now c (CPUStressor_getStatus now c)) \<and>
   ((running m \<longrightarrow> times_in_range now m) \<longrightarrow>
      status_as_specified now m (MemoryStressor_getStatus now availableMB m)) \<and>
   ((running d \<longrightarrow> times_in_range now d) \<longrightarrow>
      status_as_specified now d (DiskStressor_getStatus now d)) \<and>
   ((running n \<longrightarrow> times_in_range now n) \<longrightarrow>
      status_as_specified now n (NetworkStressor_getStatus now n)) \<and>
   ((running t \<longrightarrow> times_in_range now t) \<longrightarrow>
      status_as_specified now t (ThermalStressor_getStatus now t))"
proof -
  have c: "(running c \<longrightarrow> times_in_range now c) \<longrightarrow>
      status_as_specified now c (CPUStressor_getStatus now c)"
    by (intro impI remaining_as_specified) (simp_all add: CPUStressor_getStatus_def Let_def)
  have m: "(running m \<longrightarrow> times_in_range now m) \<longrightarrow>
      status_as_specified now m (MemoryStressor_getStatus now availableMB m)"
    by (intro impI remaining_as_specified) (simp_all add: MemoryStressor_getStatus_def Let_def)
  have d: "(running d \<longrightarrow> times_in_range now d) \<longrightarrow>
      status_as_specified now d (DiskStressor_getStatus now d)"
    by (intro impI remaining_as_specified) (simp_all add: DiskStressor_getStatus_def Let_def)
  have n: "(running n \<longrightarrow> times_in_range now n) \<longrightarrow>
      status_as_specified now n (NetworkStressor_getStatus now n)"
    by (intro impI remaining_as_specified) (simp_all add: NetworkStressor_getStatus_def Let_def)
  have t: "(running t \<longrightarrow> times_in_range now t) \<longrightarrow>
      status_as_specified now t (ThermalStressor_getStatus now t)"
    by (intro impI remaining_as_specified) (simp_all add: ThermalStressor_getStatus_def Let_def)
  note parts = c m d n t
  show ?thesis by (intro conjI) (rule parts)+
qed


theorem status_snapshot_witness:
  "running (CPUStressor_init\<lparr>running := True, startTimeMs := 100, durationMs := 1000\<rparr>) \<and>
   times_in_range 400 (CPUStressor_init\<lparr>running := True, startTimeMs := 100, durationMs := 1000\<rparr>) \<and>
   remainingTimeMs (CPUStressor_getStatus 400
     (CPUStressor_init\<lparr>running := True, startTimeMs := 100, durationMs := 1000\<rparr>)) = 700 \<and>
   running mem_example_running \<and>
   times_in_range 400 mem_example_running \<and>
   remainingTimeMs (MemoryStressor_getStatus 400 250 mem_example_running) = 600 \<and>
   times_in_range 1400 mem_example_running \<and>
   remainingTimeMs (MemoryStressor_getStatus 1400 250 mem_example_running) = 0 \<and>
   running ((DiskStressor_init diskfs_example)\<lparr>running := True, durationMs := 500\<rparr>) \<and>
   times_in_range 400 ((DiskStressor_init diskfs_example)\<lparr>running := True, durationMs := 500\<rparr>) \<and>
   remainingTimeMs (DiskStressor_getStatus 400
     ((DiskStressor_init diskfs_example)\<lparr>running := True, durationMs := 500\<rparr>)) = 100 \<and>
   running ((NetworkStressor_init shell_without_tc)\<lparr>running := True, durationMs := 500\<rparr>) \<and>
   times_in_range 400
     ((NetworkStressor_init shell_without_tc)\<lparr>running := True, durationMs := 500\<rparr>) \<and>
   remainingTimeMs (NetworkStressor_getStatus 400
     ((NetworkStressor_init shell_without_tc)\<lparr>running := True, durationMs := 500\<rparr>)) = 100 \<and>
   running ((ThermalStressor_init sysfs_example)\<lparr>running := True, durationMs := 500\<rparr>) \<and>
   times_in_range 400
     ((ThermalStressor_init sysfs_example)\<lparr>running := True, durationMs := 500\<rparr>) \<and>
   remainingTimeMs (ThermalStressor_getStatus 400
     ((ThermalStressor_init sysfs_example)\<lparr>running := True, durationMs := 500\<rparr>)) = 100 \<and>
   \<not> running CPUStressor_init \<and>
   remainingTimeMs (CPUStressor_getStatus 400 CPUStressor_init) = 0 \<and>
   data (CPUStressor_getStatus 400 CPUStressor_init) = [] \<and>
   \<not> running mem_example_stopped \<and>
   remainingTimeMs (MemoryStressor_getStatus 400 250 mem_example_stopped) = 0 \<and>
   data (MemoryStressor_getStatus 400 250 mem_example_stopped) = [] \<and>
   \<not> running (DiskStressor_init diskfs_example) \<and>
   remainingTimeMs (DiskStressor_getStatus 400 (DiskStressor_init diskfs_example)) = 0 \<and>
   data (DiskStressor_getStatus 400 (DiskStressor_init diskfs_example)) = [] \<and>
   \<not> running (NetworkStressor_init shell_without_tc) \<and>
   remainingTimeMs (NetworkStressor_getStatus 400 (NetworkStressor_init shell_without_tc)) = 0 \<and>
   data (NetworkStressor_getStatus 400 (NetworkStressor_init shell_without_tc)) = [] \<and>
   \<not> running (ThermalStressor_init sysfs_example) \<and>
   remainingTimeMs (ThermalStressor_getStatus 400 (ThermalStressor_init sysfs_example)) = 0 \<and>
   data (ThermalStressor_getStatus 400 (ThermalStressor_init sysfs_example)) = []"
proof -
  have st: "running (CPUStressor_init\<lparr>running := True, startTimeMs := 100, durationMs := 1000\<rparr>)"
    "startTimeMs (CPUStressor_init\<lparr>running := True, startTimeMs := 100, durationMs := 1000\<rparr>) = 100"
    "running mem_example_running" "startTimeMs mem_example_running = 0"
    "durationMs mem_example_running = 1000"
    "startTimeMs (DiskStressor_init diskfs_example) = 0"
    "startTimeMs (NetworkStressor_init shell_without_tc) = 0"
    "startTimeMs (ThermalStressor_init sysfs_example) = 0"
    "\<not> running CPUStressor_init" "\<not> running mem_example_stopped"
    "\<not> running (DiskStressor_init diskfs_example)"
    "\<not> running (NetworkStressor_init shell_without_tc)"
    "\<not> running (ThermalStressor_init sysfs_example)"
    by (simp_all add: CPUStressor_init_def mem_example_running_def mem_example_stopped_def
        DiskStressor_init_def NetworkStressor_init_def ThermalStressor_init_def)
  have rg: "times_in_range 400
      (CPUStressor_init\<lparr>running := True, startTimeMs := 100, durationMs := 1000\<rparr>)"
    "times_in_range 400 mem_example_running" "times_in_range 1400 mem_example_running"
    "times_in_range 400 ((DiskStressor_init diskfs_example)\<lparr>running := True, durationMs := 500\<rparr>)"
    "times_in_range 400
      ((NetworkStressor_init shell_without_tc)\<lparr>running := True, durationMs := 500\<rparr>)"
    "times_in_range 400
      ((ThermalStressor_init sysfs_example)\<lparr>running := True, durationMs := 500\<rparr>)"
    by (simp_all add: times_in_range_def long_range_def st)
  show ?thesis
    using status_snapshot
      [of "CPUStressor_init\<lparr>running := True, startTimeMs := 100, durationMs := 1000\<rparr>" 400
          mem_example_running 250
          "(DiskStressor_init diskfs_example)\<lparr>running := True, durationMs := 500\<rparr>"
          "(NetworkStressor_init shell_without_tc)\<lparr>running := True, durationMs := 500\<rparr>"
          "(ThermalStressor_init sysfs_example)\<lparr>running := True, durationMs := 500\<rparr>"]
      status_snapshot
      [of CPUStressor_init 1400 mem_example_running 250 "DiskStressor_init diskfs_example"
          "NetworkStressor_init shell_without_tc" "ThermalStressor_init sysfs_example"]
      status_snapshot
      [of CPUStressor_init 400 mem_example_stopped 250 "DiskStressor_init diskfs_example"
          "NetworkStressor_init shell_without_tc" "ThermalStressor_init sysfs_example"]
    by (simp add: status_as_specified_def st rg)
qed


subsection \<open>The memory generator's allocations\<close>

lemma run_allocated_append:
  "run_allocated a (xs @ ys) = run_allocated (run_allocated a xs) ys"
  by (induction a xs rule: run_allocated.induct) simp_all

lemma run_released_append:
  "run_released a (xs @ ys) = run_released (run_released a xs) ys"
  by (induction a xs rule: run_released.induct) simp_all

lemma listed_append: "listed L (xs @ ys) = listed (listed L xs) ys"
  by (induction L xs rule: listed.induct) simp_all

lemma released_after_clear_append:
  "released_after_clear L (xs @ ys) \<longleftrightarrow>
     released_after_clear L xs \<and> released_after_clear (listed L xs) ys"
  by (induction L xs rule: released_after_clear.induct) auto

lemma run_allocated_release_events:
  "run_allocated a (release_events lck mm n h ps) = a"
  by (induction ps arbitrary: h) auto

lemma listed_release_events: "listed L (release_events lck mm n h ps) = L"
  by (induction ps arbitrary: h) auto

lemma released_after_clear_release_events:
  "released_after_clear [] (release_events lck mm n h ps)"
  by (induction ps arbitrary: h) auto

lemma run_released_release_events:
  "run_released a (release_events lck mm n (map (\<lambda>p. (p, n)) ps) ps) = a + n * int (length ps)"
  by (induction ps arbitrary: a) (auto simp: block_size_def algebra_simps)

lemma release_heap_own: "release_heap (map (\<lambda>p. (p, n)) ps) ps = []"
  by (induction ps) simp_all

lemma mem_inv_releaseMemory:
  assumes "mem_inv s"
  shows "listed [] (mem_trace (releaseMemory s)) = []"
    and "released_after_clear [] (mem_trace (releaseMemory s))"
    and "heap (releaseMemory s) = []"
    and "allocations (releaseMemory s) = []"
    and "run_allocated 0 (mem_trace (releaseMemory s)) = run_released 0 (mem_trace (releaseMemory s))"
  using assms
  by (simp_all add: mem_inv_def releaseMemory_def Let_def listed_append released_after_clear_append
      listed_release_events released_after_clear_release_events run_allocated_append
      run_released_append run_allocated_release_events run_released_release_events release_heap_own)


lemma mem_inv_releaseMemory_inv:
  assumes "mem_inv s"
  shows "mem_inv (releaseMemory s)"
proof -
  have same: "mem_config (releaseMemory s) = mem_config s" "mem_thread (releaseMemory s) = mem_thread s"
    by (simp_all add: releaseMemory_def Let_def)
  show ?thesis
    using mem_inv_releaseMemory [OF assms] assms
    by (simp add: mem_inv_def same)
qed

lemma mem_inv_record_chunk:
  assumes "mem_inv s" and "l_chunkSizeMB l = chunkSizeMB (mem_config s)"
  shows "listed [] (mem_trace (record_chunk l p s)) = allocations (record_chunk l p s)"
    and "released_after_clear [] (mem_trace (record_chunk l p s))"
    and "heap (record_chunk l p s) =
           map (\<lambda>p. (p, chunk_bytes (chunkSizeMB (mem_config s)))) (allocations (record_chunk l p s))"
    and "run_allocated 0 (mem_trace (record_chunk l p s)) =
           run_released 0 (mem_trace (record_chunk l p s))
           + chunk_bytes (chunkSizeMB (mem_config s)) * int (length (allocations (record_chunk l p s)))"
    and "mem_config (record_chunk l p s) = mem_config s"
    and "mem_thread (record_chunk l p s) = mem_thread s"
  using assms
  by (simp_all add: mem_inv_def record_chunk_def Let_def listed_append released_after_clear_append
      run_allocated_append run_released_append algebra_simps)

lemma mem_inv_worker_step:
  assumes "mem_inv s"
  shows "mem_inv (mem_worker_step t s)"
proof (cases "mem_thread s")
  case MNoThread
  then show ?thesis using assms by (simp add: mem_worker_step_def)
next
  case MSpawned
  then show ?thesis using assms by (simp add: mem_worker_step_def mem_inv_def)
next
  case (MPhase1 l)
  then have l: "l_chunkSizeMB l = chunkSizeMB (mem_config s)"
    using assms by (simp add: mem_inv_def)
  have rc: "mem_inv (record_chunk l p s)" for p
    using mem_inv_record_chunk [OF assms l, of p] MPhase1 l
    by (simp add: mem_inv_def)
  have mv: "mem_inv (s\<lparr>mem_thread := MPhase2 l\<rparr>)"
    using assms MPhase1 l by (simp add: mem_inv_def)
  show ?thesis using MPhase1 rc mv assms by (simp add: mem_worker_step_def)
next
  case (MPhase2 l)
  then have l: "l_chunkSizeMB l = chunkSizeMB (mem_config s)"
    using assms by (simp add: mem_inv_def)
  have rc: "mem_inv (record_chunk l p s)" for p
    using mem_inv_record_chunk [OF assms l, of p] MPhase2 l
    by (simp add: mem_inv_def)
  have "mem_inv (markStopped s)"
    using assms by (simp add: mem_inv_def markStopped_def)
  then have "mem_inv (releaseMemory (markStopped s))"
    by (rule mem_inv_releaseMemory_inv)
  then have ex: "mem_inv ((releaseMemory (markStopped s))\<lparr>mem_thread := MExited\<rparr>)"
    by (simp add: mem_inv_def releaseMemory_def Let_def)
  show ?thesis using MPhase2 rc ex assms by (simp add: mem_worker_step_def)
next
  case MExited
  then show ?thesis using assms by (simp add: mem_worker_step_def)
qed

lemma mem_inv_join:
  assumes "mem_inv s" and "mem_join ts s = Inr s'"
  shows "mem_inv s' \<and> mem_thread s' = MNoThread"
  using assms
proof (induction ts arbitrary: s)
  case Nil
  then show ?case
    by (auto simp: mem_join.simps [of "[]"] mem_inv_def split: if_splits)
next
  case (Cons t ts)
  show ?case
  proof (cases "mem_thread s = MNoThread \<or> mem_thread s = MExited")
    case True
    then show ?thesis using Cons.prems
      by (auto simp: mem_join.simps [of "t # ts"] mem_inv_def split: if_splits)
  next
    case False
    then have "mem_join ts (mem_worker_step t s) = Inr s'"
      using Cons.prems(2) by (simp add: mem_join.simps [of "t # ts"])
    then show ?thesis
      using Cons.IH [OF mem_inv_worker_step [OF Cons.prems(1)]] by simp
  qed
qed

lemma mem_inv_stop:
  assumes "mem_inv s" and "MemoryStressor_stop ts s = Inr s'"
  shows "mem_inv s' \<and> mem_thread s' = MNoThread \<and> allocations s' = [] \<and> heap s' = []
         \<and> run_released 0 (mem_trace s') = run_allocated 0 (mem_trace s')"
proof -
  let ?s1 = "if running s then markStopped s else s"
  have i1: "mem_inv ?s1" using assms(1) by (simp add: mem_inv_def markStopped_def)
  obtain s2 where j: "mem_join ts ?s1 = Inr s2" and s': "s' = releaseMemory s2"
    using assms(2) by (auto simp: MemoryStressor_stop_def Let_def split: sum.splits)
  have i2: "mem_inv s2" "mem_thread s2 = MNoThread"
    using mem_inv_join [OF i1 j] by simp_all
  show ?thesis
    using mem_inv_releaseMemory_inv [OF i2(1)] mem_inv_releaseMemory [OF i2(1)] i2(2) s'
    by (simp add: releaseMemory_def Let_def)
qed

lemma mem_inv_start:
  assumes "mem_inv s" and "MemoryStressor_start c now s = Inr (ok, s')"
  shows "mem_inv s'"
  using assms
  by (auto simp: MemoryStressor_start_def mem_inv_def markStarted_def setDuration_def
      listed_append released_after_clear_append run_allocated_append run_released_append
      split: if_splits)

lemma mem_inv_exec:
  assumes "mem_inv s" and "mem_exec c s = Inr s'"
  shows "mem_inv s'"
proof (cases c)
  case (MStart cfg now)
  then show ?thesis using assms mem_inv_start
    by (auto split: sum.splits prod.splits)
next
  case (MWorker t)
  then show ?thesis using assms mem_inv_worker_step by auto
next
  case (MStop ts)
  then show ?thesis using assms mem_inv_stop by auto
qed

lemma mem_inv_run:
  assumes "mem_inv s" and "mem_run cs s = Inr s'"
  shows "mem_inv s'"
  using assms
proof (induction cs arbitrary: s)
  case Nil
  then show ?case by simp
next
  case (Cons c cs)
  then show ?case
    by (auto split: sum.splits dest: mem_inv_exec)
qed

lemma mem_inv_init: "mem_inv MemoryStressor_init"
  by (simp add: mem_inv_def MemoryStressor_init_def)

lemma mem_example_run:
  "mem_run mem_example_calls MemoryStressor_init = Inr mem_example_running"
  by (simp add: mem_example_calls_def MemoryStressor_init_def mem_example_running_def
      mem_config_example_def mem_tick_example_def MemoryStressor_start_def markStarted_def
      setDuration_def mem_worker_step_def long_add_def long_wrap_def record_chunk_def
      chunk_bytes_def size_t_wrap_def)

lemma mem_example_stop:
  "MemoryStressor_stop [mem_tick_example 3 0, mem_tick_example 3 0] mem_example_running
     = Inr mem_example_stopped"
  by (simp add: mem_example_running_def mem_example_stopped_def mem_config_example_def
      mem_tick_example_def MemoryStressor_stop_def markStopped_def mem_join.simps
      mem_worker_step_def releaseMemory_def chunk_bytes_def size_t_wrap_def)

text \<open>
  C4, as stated: over every run, the bytes released by the end of \<open>stop\<close> equal the
  bytes allocated since the last start, and every recorded region is released while it
  is still on the allocation list. The second half fails: in the example run the one
  region is released after the list has been emptied.
\<close>

theorem memory_release_order_counterexample:
  "mem_run mem_example_calls MemoryStressor_init = Inr mem_example_running \<and>
   MemoryStressor_stop [mem_tick_example 3 0, mem_tick_example 3 0] mem_example_running
     = Inr mem_example_stopped \<and>
   \<not> (run_released 0 (mem_trace mem_example_stopped)
        = run_allocated 0 (mem_trace mem_example_stopped)
      \<and> released_while_listed [] (mem_trace mem_example_stopped))"
  by (simp add: mem_example_run mem_example_stop) (simp add: mem_example_stopped_def)

text \<open>
  C4, amended: over every run and every interleaving of the worker's two phases with
  \<open>stop\<close>, the bytes released by the end of \<open>stop\<close> equal the bytes allocated and recorded
  since the last start, nothing the generator was given is left, and the allocation list
  is emptied first: every region is released after the list it was recorded in has been
  emptied.
\<close>

theorem memory_release_accounting:
  assumes "mem_run cs MemoryStressor_init = Inr s"
    and "MemoryStressor_stop ts s = Inr s'"
  shows "run_released 0 (mem_trace s') = run_allocated 0 (mem_trace s')
         \<and> released_after_clear [] (mem_trace s')
         \<and> allocations s' = [] \<and> heap s' = []"
proof -
  have "mem_inv s"
    using mem_inv_run [OF mem_inv_init assms(1)] .
  from mem_inv_stop [OF this assms(2)]
  have i: "mem_inv s'"
    and r: "allocations s' = []" "heap s' = []"
           "run_released 0 (mem_trace s') = run_allocated 0 (mem_trace s')"
    by simp_all
  from i have "released_after_clear [] (mem_trace s')"
    unfolding mem_inv_def by (elim conjE)
  with r show ?thesis by (intro conjI)
qed

theorem memory_release_accounting_witness:
  "mem_run mem_example_calls MemoryStressor_init = Inr mem_example_running \<and>
   MemoryStressor_stop [mem_tick_example 3 0, mem_tick_example 3 0] mem_example_running
     = Inr mem_example_stopped \<and>
   run_released 0 (mem_trace mem_example_stopped) = 1048576 \<and>
   run_allocated 0 (mem_trace mem_example_stopped) = 1048576 \<and>
   released_after_clear [] (mem_trace mem_example_stopped) \<and>
   allocations mem_example_stopped = [] \<and> heap mem_example_stopped = []"
proof -
  have "run_allocated 0 (mem_trace mem_example_stopped) = 1048576"
    by (simp add: mem_example_stopped_def)
  then show ?thesis
    using memory_release_accounting [OF mem_example_run mem_example_stop]
      mem_example_run mem_example_stop
    by simp
qed


subsection \<open>The network generator's rules\<close>

text \<open>
  C1. After \<open>stop()\<close> no rule installed by the run should remain on the interface,
  whatever the outcome of rule application. Here the root queuing discipline is added
  and the class command fails: the worker gives up, \<open>stop\<close> returns, and the root
  discipline is still in force on \<open>wlan0\<close>, because \<open>removeTcRules\<close> does nothing unless
  \<open>tcRulesApplied_\<close> is set, which only a complete application does.
\<close>

theorem network_rules_left_after_partial_failure:
  "\<not> isl net_example_run \<and>
   \<not> running (projr net_example_run) \<and>
   net_thread (projr net_example_run) = NNoThread \<and>
   \<not> tcRulesApplied (projr net_example_run) \<and>
   shaping (net_shell (projr net_example_run)) ''wlan0'' = [QdiscAddRootHtb ''wlan0'']"
  by (simp add: net_example_run_def NetworkStressor_start_def NetworkStressor_init_def
      shell_class_fails_def net_config_example_def checkTcAvailable_def markStarted_def
      setDuration_def net_worker_step_def applyTcRules_def removeTcRules_def net_exec_def
      executeCommand_def tc_effect_def markStopped_def NetworkStressor_stop_def
      net_join.simps Let_def)

subsection \<open>The thermal generator's settings\<close>

text \<open>
  C2. After \<open>stop()\<close> every setting the run overwrote should hold its value from before
  the start. On the example core the ceiling \<open>scaling_max_freq\<close> was 1500000 before the
  start and is 2000000 after \<open>stop\<close>: what \<open>applySettings\<close> saves for the ceiling is
  \<open>cpuinfo_max_freq\<close>, the hardware maximum, and not the ceiling it overwrites. The
  governor is saved and restored as it was.
\<close>

theorem thermal_ceiling_not_restored:
  "readSysFile sysfs_example (cpu_file 0 ''/cpufreq/scaling_max_freq'') = ''1500000'' \<and>
   readSysFile sysfs_example (cpu_file 0 ''/cpufreq/scaling_governor'') = ''schedutil'' \<and>
   \<not> isl thm_example_run \<and>
   \<not> running (projr thm_example_run) \<and>
   thm_originalSettings (projr thm_example_run) = [] \<and>
   readSysFile (thm_sysfs (projr thm_example_run)) (cpu_file 0 ''/cpufreq/scaling_max_freq'')
     = ''2000000'' \<and>
   readSysFile (thm_sysfs (projr thm_example_run)) (cpu_file 0 ''/cpufreq/scaling_governor'')
     = ''schedutil''"
  by (simp add: thm_example_run_def ThermalStressor_start_def ThermalStressor_init_def
      thm_config_example_def markStarted_def setDuration_def ThermalStressor_stop_def
      markStopped_def thm_join.simps thm_worker_step_def applySettings_def tune_core_def
      isCoreOnline_def getCpuGovernor_def cpu_file_def to_string_def nat_to_string.simps
      digit_char_def readSysFile_def sysfs_example_def trim_def getline_def is_blank_def
      thm_save_def setCpuGovernor_def thm_write_def writeSysFile_def getMaxFrequency_def
      getMinFrequency_def stol_def is_space_def is_digit_def dec_value_def long_range_def
      long_add_def long_sub_def long_wrap_def trunc_div_def ThermalStressor_setMaxFrequency_def
      restoreSettings_def Let_def)


subsection \<open>The frequency-throttle controller's snapshot\<close>

lemma smap_put_entry: "x \<in> set (smap_put k v m) \<Longrightarrow> fst x = k \<or> x \<in> set m"
  by (induction m) (auto split: if_splits)

lemma smap_put_sorted:
  "sorted_wrt (<) (map fst m) \<Longrightarrow> sorted_wrt (<) (map fst (smap_put k v m))"
proof (induction m)
  case Nil
  then show ?case by simp
next
  case (Cons e m)
  obtain k' v' where e: "e = (k', v')" by (cases e)
  have below: "\<forall>x \<in> set m. k' < fst x" and rest: "sorted_wrt (<) (map fst m)"
    using Cons.prems e by simp_all
  show ?case
  proof (cases "k = k'")
    case True
    then show ?thesis using below rest e by simp
  next
    case False
    show ?thesis
    proof (cases "k < k'")
      case True
      then have "\<forall>x \<in> set m. k < fst x" using below by fastforce
      then show ?thesis using True False below rest e by simp
    next
      case ge: False
      then have "k' < k" using False by simp
      then have "\<forall>x \<in> set (smap_put k v m). k' < fst x"
        using below smap_put_entry by blast
      then show ?thesis using ge False Cons.IH [OF rest] e by simp
    qed
  qed
qed

lemma sorted_keys_distinct: "sorted_wrt (<) (map fst (m :: smap)) \<Longrightarrow> distinct (map fst m)"
  by (simp add: strict_sorted_iff)

lemma map_of_smap_put: "map_of (smap_put k v m) = (map_of m)(k \<mapsto> v)"
  by (induction m) (auto simp: fun_eq_iff)

lemma getCurrentMaxFreq_ceiling:
  "getCurrentMaxFreq fs cpu = ceiling_of fs (cpu_file cpu ''/cpufreq/scaling_max_freq'')"
  by (simp add: getCurrentMaxFreq_def ceiling_of_def)

lemma save_originals_sorted:
  "sorted_wrt (<) (map fst m) \<Longrightarrow> sorted_wrt (<) (map fst (save_originals fs cpus m))"
  by (induction cpus arbitrary: m) (simp_all add: Let_def smap_put_sorted)

lemma save_originals_keeps:
  "map_of m p = Some (to_string (ceiling_of fs p)) \<Longrightarrow>
   map_of (save_originals fs cpus m) p = Some (to_string (ceiling_of fs p))"
proof (induction cpus arbitrary: m)
  case Nil
  then show ?case by simp
next
  case (Cons c cs)
  show ?case
    using Cons.prems
    by (auto simp: Let_def map_of_smap_put getCurrentMaxFreq_ceiling intro!: Cons.IH)
qed

lemma save_originals_saved:
  assumes "cpu \<in> set cpus" and "0 < getCurrentMaxFreq fs cpu"
  shows "map_of (save_originals fs cpus m) (cpu_file cpu ''/cpufreq/scaling_max_freq'')
         = Some (to_string (getCurrentMaxFreq fs cpu))"
  using assms
proof (induction cpus arbitrary: m)
  case Nil
  then show ?case by simp
next
  case (Cons c cs)
  show ?case
  proof (cases "cpu = c")
    case True
    then show ?thesis
      using Cons.prems(2)
      by (simp add: Let_def getCurrentMaxFreq_ceiling save_originals_keeps map_of_smap_put)
  next
    case False
    then have "cpu \<in> set cs" using Cons.prems(1) by simp
    then show ?thesis using Cons.IH Cons.prems(2) by (simp add: Let_def)
  qed
qed

lemma writeSysFile_writable: "writable (snd (writeSysFile p v fs)) = writable fs"
  by (simp add: writeSysFile_def)

lemma restore_entries_writable: "writable (restore_entries m fs) = writable fs"
  by (induction m arbitrary: fs) (auto simp: writeSysFile_writable)

lemma restore_entries_other:
  "p \<notin> set (map fst m) \<Longrightarrow> contents (restore_entries m fs) p = contents fs p"
  by (induction m arbitrary: fs) (auto simp: writeSysFile_def)

lemma restore_entries_written:
  assumes "distinct (map fst m)" and "map_of m p = Some v" and "writable fs p"
  shows "contents (restore_entries m fs) p = Some v"
  using assms
proof (induction m arbitrary: fs)
  case Nil
  then show ?case by simp
next
  case (Cons e m)
  obtain k w where e: "e = (k, w)" by (cases e)
  show ?case
  proof (cases "p = k")
    case True
    then have "p \<notin> set (map fst m)" and "w = v" using Cons.prems e by auto
    then show ?thesis using e True Cons.prems(3)
      by (simp add: restore_entries_other writeSysFile_def)
  next
    case False
    then have "map_of m p = Some v" using Cons.prems(2) e by simp
    moreover have "writable (snd (writeSysFile k w fs)) p"
      using Cons.prems(3) by (simp add: writeSysFile_writable)
    ultimately show ?thesis using Cons.IH Cons.prems(1) e by simp
  qed
qed

lemma apply_frequency_result:
  "apply_frequency f cpus (b, fs) = (b', fs') \<Longrightarrow> b' \<Longrightarrow> b"
  by (induction cpus arbitrary: b fs) (auto simp: Let_def)


lemma digit_table:
  "\<forall>k < Suc (Suc (Suc (Suc (Suc (Suc (Suc (Suc (Suc (Suc 0))))))))).
     is_digit (''0123456789'' ! k) \<and> (of_char (''0123456789'' ! k) :: nat) - 48 = k
     \<and> ''0123456789'' ! k \<noteq> CHR 0x0A \<and> \<not> is_blank (''0123456789'' ! k)
     \<and> \<not> is_space (''0123456789'' ! k)
     \<and> ''0123456789'' ! k \<noteq> CHR ''-'' \<and> ''0123456789'' ! k \<noteq> CHR ''+''"
  by (simp add: All_less_Suc is_digit_def is_blank_def is_space_def)

lemma digit_char_props:
  "is_digit (digit_char n)" "(of_char (digit_char n) :: nat) - 48 = n mod 10"
  "digit_char n \<noteq> CHR 0x0A" "\<not> is_blank (digit_char n)" "\<not> is_space (digit_char n)"
  "digit_char n \<noteq> CHR ''-''" "digit_char n \<noteq> CHR ''+''"
proof -
  have "n mod 10 < Suc (Suc (Suc (Suc (Suc (Suc (Suc (Suc (Suc (Suc 0)))))))))" by simp
  with digit_table
  show "is_digit (digit_char n)" "(of_char (digit_char n) :: nat) - 48 = n mod 10"
    "digit_char n \<noteq> CHR 0x0A" "\<not> is_blank (digit_char n)" "\<not> is_space (digit_char n)"
    "digit_char n \<noteq> CHR ''-''" "digit_char n \<noteq> CHR ''+''"
    unfolding digit_char_def by blast+
qed

lemma nat_to_string_digits: "\<forall>c \<in> set (nat_to_string n). \<exists>k. c = digit_char k"
  by (induction n rule: nat_to_string.induct) (subst nat_to_string.simps, auto)

lemma nat_to_string_nonempty: "nat_to_string n \<noteq> []"
  by (subst nat_to_string.simps) simp

lemma dec_value_snoc: "dec_value (ds @ [c]) = 10 * dec_value ds + (of_char c - 48)"
  by (simp add: dec_value_def)

lemma dec_value_nat_to_string: "dec_value (nat_to_string n) = n"
proof (induction n rule: nat_to_string.induct)
  case (1 n)
  show ?case
  proof (cases "n < 10")
    case True
    then show ?thesis
      by (subst nat_to_string.simps) (simp add: dec_value_def digit_char_props)
  next
    case False
    then have "dec_value (nat_to_string (n div 10)) = n div 10" using 1 by simp
    then show ?thesis using False
      by (subst nat_to_string.simps) (simp add: dec_value_snoc digit_char_props)
  qed
qed

lemma nat_to_string_plain:
  "takeWhile is_digit (nat_to_string n) = nat_to_string n"
  "dropWhile is_space (nat_to_string n) = nat_to_string n"
  "getline (nat_to_string n) = nat_to_string n"
  "trim (nat_to_string n) = nat_to_string n"
  "hd (nat_to_string n) \<noteq> CHR ''-''" "hd (nat_to_string n) \<noteq> CHR ''+''"
proof -
  have all: "\<forall>c \<in> set (nat_to_string n). \<exists>k. c = digit_char k"
    by (rule nat_to_string_digits)
  have ne: "nat_to_string n \<noteq> []" by (rule nat_to_string_nonempty)
  show "takeWhile is_digit (nat_to_string n) = nat_to_string n"
    using all by (auto simp: takeWhile_eq_all_conv digit_char_props)
  have h: "\<exists>k. hd (nat_to_string n) = digit_char k"
    using all ne by (cases "nat_to_string n") auto
  have l: "\<exists>k. last (nat_to_string n) = digit_char k"
    using all ne last_in_set by blast
  show "dropWhile is_space (nat_to_string n) = nat_to_string n"
    using h ne by (cases "nat_to_string n") (auto simp: digit_char_props)
  have "CHR 0x0A \<notin> set (nat_to_string n)"
    using all digit_char_props(3) by metis
  then show "getline (nat_to_string n) = nat_to_string n"
    by (auto simp: getline_def takeWhile_eq_all_conv)
  have d1: "dropWhile is_blank (nat_to_string n) = nat_to_string n"
    using h ne by (cases "nat_to_string n") (auto simp: digit_char_props)
  have d2: "dropWhile is_blank (rev (nat_to_string n)) = rev (nat_to_string n)"
    using l ne by (cases "rev (nat_to_string n)") (auto simp: digit_char_props hd_rev)
  show "trim (nat_to_string n) = nat_to_string n"
    by (simp add: trim_def d1 d2)
  show "hd (nat_to_string n) \<noteq> CHR ''-''" "hd (nat_to_string n) \<noteq> CHR ''+''"
    using h digit_char_props(6,7) by metis+
qed

lemma stol_nat_to_string:
  assumes "long_range (int k)"
  shows "stol (nat_to_string k) = Inr (int k)"
  using assms
  by (simp add: stol_def nat_to_string_plain nat_to_string_nonempty dec_value_nat_to_string
      Let_def)

lemma ceiling_of_written:
  assumes "0 \<le> n" and "long_range n" and "contents fs p = Some (to_string n)"
  shows "ceiling_of fs p = n"
proof -
  have "to_string n = nat_to_string (nat n)" using assms(1) by (simp add: to_string_def)
  moreover have "stol (nat_to_string (nat n)) = Inr n"
    using stol_nat_to_string [of "nat n"] assms(1,2) by simp
  ultimately show ?thesis
    using assms(3)
    by (simp add: ceiling_of_def readSysFile_def nat_to_string_plain nat_to_string_nonempty)
qed

lemma ceiling_of_range: "long_range (ceiling_of fs p)"
  by (auto simp: ceiling_of_def stol_def Let_def long_range_def split: sum.splits if_splits)


lemma setMaxFrequency_first:
  assumes "\<not> isLimited s" and "CPUFreqManager_setMaxFrequency f cores a t s = (True, s')"
  shows "fm_originalSettings s' = save_originals (fm_sysfs s) (target_cores (fm_sysfs s) cores) []"
    and "isLimited s'"
  using assms
  by (auto simp: CPUFreqManager_setMaxFrequency_def Let_def startWorker_def split: if_splits)

lemma setMaxFrequency_later:
  assumes "isLimited s" and "CPUFreqManager_setMaxFrequency f cores a t s = (True, s')"
  shows "fm_originalSettings s' = fm_originalSettings s" and "isLimited s'"
  using assms
  by (auto simp: CPUFreqManager_setMaxFrequency_def Let_def startWorker_def split: if_splits)

lemma restore_limited:
  assumes "isLimited s" and "CPUFreqManager_restore s = (ok, s')"
  shows "ok" and "fm_sysfs s' = restore_entries (fm_originalSettings s) (fm_sysfs s)"
    and "\<not> isLimited s'" and "fm_originalSettings s' = []"
  using assms
  by (auto simp: CPUFreqManager_restore_def Let_def stopWorker_def split: if_splits)

text \<open>
  C3. Two successful \<open>setMaxFrequency\<close> calls in one limiting session, with no restore
  between them: the snapshot of the original ceilings is taken by the first call only,
  and \<open>restore()\<close> writes back the ceilings read before the first call, whatever the
  control files held before the second call (\<open>fsA\<close>) and before the restore (\<open>fsB\<close>).
  Every target core of the first call whose ceiling was readable then and is writable
  at the restore reads as it did before the first call.
\<close>

theorem throttle_restores_first_snapshot:
  assumes "\<not> isLimited s0"
    and "CPUFreqManager_setMaxFrequency f1 cores1 a1 t1 s0 = (True, s1)"
    and "CPUFreqManager_setMaxFrequency f2 cores2 a2 t2 (s1\<lparr>fm_sysfs := fsA\<rparr>) = (True, s2)"
    and "CPUFreqManager_restore (s2\<lparr>fm_sysfs := fsB\<rparr>) = (ok, s3)"
  shows "fm_originalSettings s1
           = save_originals (fm_sysfs s0) (target_cores (fm_sysfs s0) cores1) []
         \<and> fm_originalSettings s2 = fm_originalSettings s1
         \<and> (\<forall>cpu \<in> set (target_cores (fm_sysfs s0) cores1).
               0 < getCurrentMaxFreq (fm_sysfs s0) cpu
               \<and> writable fsB (cpu_file cpu ''/cpufreq/scaling_max_freq'')
               \<longrightarrow> contents (fm_sysfs s3) (cpu_file cpu ''/cpufreq/scaling_max_freq'')
                     = Some (to_string (getCurrentMaxFreq (fm_sysfs s0) cpu))
                   \<and> getCurrentMaxFreq (fm_sysfs s3) cpu = getCurrentMaxFreq (fm_sysfs s0) cpu)
         \<and> ok \<and> \<not> isLimited s3 \<and> fm_originalSettings s3 = []"
proof -
  let ?snap = "save_originals (fm_sysfs s0) (target_cores (fm_sysfs s0) cores1) []"
  have o1: "fm_originalSettings s1 = ?snap" and l1: "isLimited s1"
    using setMaxFrequency_first [OF assms(1,2)] by simp_all
  have l1': "isLimited (s1\<lparr>fm_sysfs := fsA\<rparr>)" using l1 by simp
  have o2: "fm_originalSettings s2 = fm_originalSettings s1" and l2: "isLimited s2"
    using setMaxFrequency_later [OF l1' assms(3)] by simp_all
  have l2': "isLimited (s2\<lparr>fm_sysfs := fsB\<rparr>)" using l2 by simp
  have r: "ok" "fm_sysfs s3 = restore_entries ?snap fsB" "\<not> isLimited s3"
    "fm_originalSettings s3 = []"
    using restore_limited [OF l2' assms(4)] o1 o2 by simp_all
  have d: "distinct (map fst ?snap)"
    by (rule sorted_keys_distinct, rule save_originals_sorted) simp
  have each: "contents (fm_sysfs s3) (cpu_file cpu ''/cpufreq/scaling_max_freq'')
                = Some (to_string (getCurrentMaxFreq (fm_sysfs s0) cpu))
              \<and> getCurrentMaxFreq (fm_sysfs s3) cpu = getCurrentMaxFreq (fm_sysfs s0) cpu"
    if c: "cpu \<in> set (target_cores (fm_sysfs s0) cores1)"
      and p: "0 < getCurrentMaxFreq (fm_sysfs s0) cpu"
      and w: "writable fsB (cpu_file cpu ''/cpufreq/scaling_max_freq'')" for cpu
  proof -
    let ?path = "cpu_file cpu ''/cpufreq/scaling_max_freq''"
    have "map_of ?snap ?path = Some (to_string (getCurrentMaxFreq (fm_sysfs s0) cpu))"
      by (rule save_originals_saved [OF c p])
    then have c3: "contents (fm_sysfs s3) ?path
                     = Some (to_string (getCurrentMaxFreq (fm_sysfs s0) cpu))"
      using restore_entries_written [OF d _ w] r(2) by simp
    have "long_range (getCurrentMaxFreq (fm_sysfs s0) cpu)"
      by (simp add: getCurrentMaxFreq_ceiling ceiling_of_range)
    then have "ceiling_of (fm_sysfs s3) ?path = getCurrentMaxFreq (fm_sysfs s0) cpu"
      using ceiling_of_written [OF _ _ c3] p by simp
    then show ?thesis using c3 by (simp add: getCurrentMaxFreq_ceiling)
  qed
  show ?thesis using o1 o2 r each by blast
qed


lemma fm_example_values:
  "getCurrentMaxFreq sysfs_example 0 = 1500000"
  "fst (CPUFreqManager_setMaxFrequency 1000000 [] 0 10 (CPUFreqManager_init sysfs_example))"
  "getCurrentMaxFreq (fm_sysfs fm_example_1) 0 = 1000000"
  "fst (CPUFreqManager_setMaxFrequency 800000 [0] 0 20 fm_example_1)"
  "getCurrentMaxFreq (fm_sysfs fm_example_2) 0 = 800000"
  "writable (fm_sysfs fm_example_2) (cpu_file 0 ''/cpufreq/scaling_max_freq'')"
  "target_cores sysfs_example [] = [0]"
  by (simp_all add: fm_example_2_def fm_example_1_def CPUFreqManager_setMaxFrequency_def
      CPUFreqManager_init_def target_cores_def sysfs_example_def getCurrentMaxFreq_def
      getHardwareMaxFreq_def readSysFile_def trim_def getline_def is_blank_def stol_def
      is_space_def is_digit_def dec_value_def long_range_def cpu_file_def to_string_def
      nat_to_string.simps digit_char_def setCpuMaxFreq_def writeSysFile_def startWorker_def
      Let_def)

theorem throttle_restores_first_snapshot_witness:
  "\<not> isLimited (CPUFreqManager_init sysfs_example) \<and>
   CPUFreqManager_setMaxFrequency 1000000 [] 0 10 (CPUFreqManager_init sysfs_example)
     = (True, fm_example_1) \<and>
   CPUFreqManager_setMaxFrequency 800000 [0] 0 20 fm_example_1 = (True, fm_example_2) \<and>
   CPUFreqManager_restore fm_example_2 = (True, fm_example_3) \<and>
   getCurrentMaxFreq sysfs_example 0 = 1500000 \<and>
   getCurrentMaxFreq (fm_sysfs fm_example_1) 0 = 1000000 \<and>
   getCurrentMaxFreq (fm_sysfs fm_example_2) 0 = 800000 \<and>
   getCurrentMaxFreq (fm_sysfs fm_example_3) 0 = 1500000"
proof -
  let ?s0 = "CPUFreqManager_init sysfs_example"
  have h0: "\<not> isLimited ?s0" and fs0: "fm_sysfs ?s0 = sysfs_example"
    by (simp_all add: CPUFreqManager_init_def)
  have h1: "CPUFreqManager_setMaxFrequency 1000000 [] 0 10 ?s0 = (True, fm_example_1)"
    using fm_example_values(2) by (simp add: fm_example_1_def prod_eq_iff)
  have h2: "CPUFreqManager_setMaxFrequency 800000 [0] 0 20
              (fm_example_1\<lparr>fm_sysfs := fm_sysfs fm_example_1\<rparr>) = (True, fm_example_2)"
    using fm_example_values(4) by (simp add: fm_example_2_def prod_eq_iff)
  have h3: "CPUFreqManager_restore (fm_example_2\<lparr>fm_sysfs := fm_sysfs fm_example_2\<rparr>)
              = (fst (CPUFreqManager_restore fm_example_2), fm_example_3)"
    by (simp add: fm_example_3_def)
  have c: "0 \<in> set (target_cores (fm_sysfs ?s0) [])"
    by (simp add: fs0 fm_example_values(7))
  from throttle_restores_first_snapshot [OF h0 h1 h2 h3] c fm_example_values h1 h2 h3 h0
  show ?thesis by (simp add: fs0)
qed


subsection \<open>Stopping\<close>

lemma releaseMemory_fields:
  "running (releaseMemory s) = running s" "mem_thread (releaseMemory s) = mem_thread s"
  "allocations (releaseMemory s) = []" "allocatedBytes (releaseMemory s) = 0"
  by (simp_all add: releaseMemory_def Let_def)

lemma mem_worker_step_idle:
  assumes "\<not> running s"
  shows "\<not> running (mem_worker_step t s)"
    and "mem_steps_left (mem_thread (mem_worker_step t s)) \<le> mem_steps_left (mem_thread s) - 1"
  using assms
  by (auto simp: mem_worker_step_def markStopped_def releaseMemory_fields split: mem_worker.splits)

lemma mem_join_idle:
  assumes "\<not> running s" and "mem_steps_left (mem_thread s) \<le> length ts"
  shows "\<exists>s'. mem_join ts s = Inr s'"
  using assms
proof (induction ts arbitrary: s)
  case Nil
  then show ?case by (cases "mem_thread s") (simp_all add: mem_join.simps)
next
  case (Cons t ts)
  show ?case
  proof (cases "mem_thread s = MNoThread \<or> mem_thread s = MExited")
    case True
    then show ?thesis by (auto simp: mem_join.simps)
  next
    case False
    have "mem_steps_left (mem_thread (mem_worker_step t s)) \<le> length ts"
      using mem_worker_step_idle(2) [OF Cons.prems(1), of t] Cons.prems(2) by simp
    then have "\<exists>s'. mem_join ts (mem_worker_step t s) = Inr s'"
      using Cons.IH mem_worker_step_idle(1) [OF Cons.prems(1)] by blast
    then show ?thesis using False by (simp add: mem_join.simps [of "t # ts"])
  qed
qed

lemma mem_steps_left_le: "mem_steps_left w \<le> 3"
  by (cases w) simp_all

lemma mem_stop_returns:
  assumes "3 \<le> length ts"
  shows "\<exists>s'. MemoryStressor_stop ts s = Inr s'"
proof -
  let ?s1 = "if running s then markStopped s else s"
  have "\<not> running ?s1" by (simp add: markStopped_def)
  moreover have "mem_steps_left (mem_thread ?s1) \<le> length ts"
    using assms mem_steps_left_le [of "mem_thread ?s1"] by linarith
  ultimately obtain s2 where "mem_join ts ?s1 = Inr s2"
    using mem_join_idle by blast
  then show ?thesis by (simp add: MemoryStressor_stop_def Let_def)
qed

lemma mem_join_post:
  assumes "\<not> running s" and "mem_join ts s = Inr s'"
  shows "\<not> running s' \<and> mem_thread s' = MNoThread"
  using assms
proof (induction ts arbitrary: s)
  case Nil
  then show ?case by (auto simp: mem_join.simps [of "[]"] split: if_splits)
next
  case (Cons t ts)
  show ?case
  proof (cases "mem_thread s = MNoThread \<or> mem_thread s = MExited")
    case True
    then show ?thesis using Cons.prems by (auto simp: mem_join.simps [of "t # ts"] split: if_splits)
  next
    case False
    then have "mem_join ts (mem_worker_step t s) = Inr s'"
      using Cons.prems(2) by (simp add: mem_join.simps [of "t # ts"])
    then show ?thesis
      using Cons.IH mem_worker_step_idle(1) [OF Cons.prems(1)] by blast
  qed
qed

lemma mem_stop_post:
  assumes "MemoryStressor_stop ts s = Inr s'"
  shows "mem_thread s' = MNoThread \<and> \<not> running s' \<and> allocations s' = [] \<and> allocatedBytes s' = 0"
proof -
  let ?s1 = "if running s then markStopped s else s"
  have idle: "\<not> running ?s1" by (simp add: markStopped_def)
  obtain s2 where j: "mem_join ts ?s1 = Inr s2" and s': "s' = releaseMemory s2"
    using assms by (auto simp: MemoryStressor_stop_def Let_def split: sum.splits)
  show ?thesis using mem_join_post [OF idle j] s' by (simp add: releaseMemory_fields)
qed

lemma mem_stop_again:
  assumes "mem_thread s = MNoThread" and "\<not> running s" and "allocations s = []"
    and "allocatedBytes s = 0"
  shows "MemoryStressor_stop ts s = Inr s"
  using assms
  by (simp add: MemoryStressor_stop_def mem_join.simps releaseMemory_def Let_def)

lemma restoreSettings_fields:
  "running (restoreSettings s) = running s" "thm_thread (restoreSettings s) = thm_thread s"
  "thm_originalSettings (restoreSettings s) = []"
  by (simp_all add: restoreSettings_def)

lemma thm_write_fields:
  "running (thm_write p v s) = running s" "thm_thread (thm_write p v s) = thm_thread s"
  by (simp_all add: thm_write_def)

lemma thm_save_fields:
  "running (thm_save p v s) = running s" "thm_thread (thm_save p v s) = thm_thread s"
  by (simp_all add: thm_save_def)

lemma force_online_fields:
  "running (force_online cpu s) = running s" "thm_thread (force_online cpu s) = thm_thread s"
  by (simp_all add: force_online_def setCoreOnline_def thm_write_fields thm_save_fields Let_def)

lemma force_online_fold_fields:
  "running (foldl (\<lambda>st cpu. force_online cpu st) s cpus) = running s"
  "thm_thread (foldl (\<lambda>st cpu. force_online cpu st) s cpus) = thm_thread s"
  by (induction cpus arbitrary: s) (simp_all add: force_online_fields)

lemma tune_core_fields:
  assumes "tune_core pct cpu s = Inr s'"
  shows "running s' = running s" and "thm_thread s' = thm_thread s"
proof -
  have "running s' = running s \<and> thm_thread s' = thm_thread s"
  proof (cases "isCoreOnline (thm_sysfs s) cpu")
    case False
    then show ?thesis using assms by (simp add: tune_core_def)
  next
    case True
    define s1 where "s1 = (if getCpuGovernor (thm_sysfs s) cpu \<noteq> []
      then thm_save (cpu_file cpu ''/cpufreq/scaling_governor'') (getCpuGovernor (thm_sysfs s) cpu) s
      else s)"
    define s2 where "s2 = setCpuGovernor cpu ''performance'' s1"
    have f2: "running s2 = running s" "thm_thread s2 = thm_thread s"
      by (simp_all add: s2_def s1_def setCpuGovernor_def thm_write_fields thm_save_fields)
    have "s2 = s' \<or> (\<exists>p v f. ThermalStressor_setMaxFrequency cpu f (thm_save p v s2) = s')"
      using assms True unfolding tune_core_def Let_def s2_def s1_def
      by (simp split: sum.splits if_splits) blast+
    then show ?thesis
      using f2 by (auto simp: ThermalStressor_setMaxFrequency_def thm_write_fields thm_save_fields)
  qed
  then show "running s' = running s" and "thm_thread s' = thm_thread s" by simp_all
qed

lemma tune_core_error: "tune_core pct cpu s = Inl e \<Longrightarrow> e = Terminated"
  unfolding tune_core_def Let_def by (simp split: sum.splits if_splits)

lemma tune_cores_error: "tune_cores pct cpus s = Inl e \<Longrightarrow> e = Terminated"
  by (induction cpus arbitrary: s) (auto split: sum.splits dest: tune_core_error)

lemma applySettings_error: "applySettings s = Inl e \<Longrightarrow> e = Terminated"
  unfolding applySettings_def Let_def by (rule tune_cores_error)

lemma thm_worker_step_error: "thm_worker_step t s = Inl e \<Longrightarrow> e = Terminated"
  by (auto simp: thm_worker_step_def split: thm_worker.splits sum.splits if_splits
      dest: applySettings_error)

lemma tune_cores_fields:
  assumes "tune_cores pct cpus s = Inr s'"
  shows "running s' = running s \<and> thm_thread s' = thm_thread s"
  using assms
proof (induction cpus arbitrary: s)
  case Nil
  then show ?case by simp
next
  case (Cons c cs)
  then obtain s1 where 1: "tune_core pct c s = Inr s1" and 2: "tune_cores pct cs s1 = Inr s'"
    by (auto split: sum.splits)
  show ?case using Cons.IH [OF 2] tune_core_fields [OF 1] by simp
qed

lemma applySettings_fields:
  assumes "applySettings s = Inr s'"
  shows "running s' = running s" and "thm_thread s' = thm_thread s"
  using tune_cores_fields [of _ _ _ s'] assms
  by (auto simp: applySettings_def Let_def force_online_fold_fields split: if_splits)

lemma monitor_cores_fields:
  "running (monitor_cores s) = running s" "thm_thread (monitor_cores s) = thm_thread s"
proof -
  have a: "running (foldl (\<lambda>st cpu. if \<not> isCoreOnline (thm_sysfs st) cpu then setCoreOnline cpu True st else st) s' cpus) = running s'"
    "thm_thread (foldl (\<lambda>st cpu. if \<not> isCoreOnline (thm_sysfs st) cpu then setCoreOnline cpu True st else st) s' cpus) = thm_thread s'"
    for s' cpus
    by (induction cpus arbitrary: s') (simp_all add: setCoreOnline_def thm_write_fields)
  show "running (monitor_cores s) = running s" "thm_thread (monitor_cores s) = thm_thread s"
    by (simp_all add: monitor_cores_def Let_def a)
qed

lemma thm_worker_step_idle:
  assumes "\<not> running s" and "thm_worker_step t s = Inr s'"
  shows "\<not> running s'"
    and "thm_steps_left (thm_thread s') \<le> thm_steps_left (thm_thread s) - 1"
  using assms applySettings_fields [of s]
  by (auto simp: thm_worker_step_def markStopped_def split: thm_worker.splits sum.splits)

lemma thm_join_idle:
  assumes "\<not> running s" and "thm_steps_left (thm_thread s) \<le> length ts"
  shows "thm_join ts s \<noteq> Inl JoinPending"
  using assms
proof (induction ts arbitrary: s)
  case Nil
  then show ?case by (cases "thm_thread s") (simp_all add: thm_join.simps)
next
  case (Cons t ts)
  show ?case
  proof (cases "thm_thread s = TNoThread \<or> thm_thread s = TExited")
    case True
    then show ?thesis by (auto simp: thm_join.simps)
  next
    case False
    show ?thesis
    proof (cases "thm_worker_step t s")
      case (Inl e)
      then have "e = Terminated" by (rule thm_worker_step_error)
      then show ?thesis using False Inl by (simp add: thm_join.simps [of "t # ts"])
    next
      case (Inr s1)
      have "thm_steps_left (thm_thread s1) \<le> length ts"
        using thm_worker_step_idle(2) [OF Cons.prems(1) Inr] Cons.prems(2) by simp
      then have "thm_join ts s1 \<noteq> Inl JoinPending"
        using Cons.IH thm_worker_step_idle(1) [OF Cons.prems(1) Inr] by blast
      then show ?thesis using False Inr by (simp add: thm_join.simps [of "t # ts"])
    qed
  qed
qed

lemma thm_stop_not_pending:
  assumes "2 \<le> length ts"
  shows "ThermalStressor_stop ts s \<noteq> Inl JoinPending"
proof -
  let ?s1 = "if running s then markStopped s else s"
  have "\<not> running ?s1" by (simp add: markStopped_def)
  moreover have "thm_steps_left (thm_thread ?s1) \<le> length ts"
    using assms by (cases "thm_thread ?s1") simp_all
  ultimately have "thm_join ts ?s1 \<noteq> Inl JoinPending"
    by (rule thm_join_idle)
  then show ?thesis
    by (auto simp: ThermalStressor_stop_def Let_def split: sum.splits)
qed

lemma thm_join_post:
  assumes "\<not> running s" and "thm_join ts s = Inr s'"
  shows "\<not> running s' \<and> thm_thread s' = TNoThread"
  using assms
proof (induction ts arbitrary: s)
  case Nil
  then show ?case by (auto simp: thm_join.simps [of "[]"] split: if_splits)
next
  case (Cons t ts)
  show ?case
  proof (cases "thm_thread s = TNoThread \<or> thm_thread s = TExited")
    case True
    then show ?thesis using Cons.prems by (auto simp: thm_join.simps [of "t # ts"] split: if_splits)
  next
    case False
    then obtain s1 where 1: "thm_worker_step t s = Inr s1" and 2: "thm_join ts s1 = Inr s'"
      using Cons.prems(2) by (auto simp: thm_join.simps [of "t # ts"] split: sum.splits)
    show ?thesis
      using Cons.IH [OF thm_worker_step_idle(1) [OF Cons.prems(1) 1] 2] .
  qed
qed

lemma thm_stop_post:
  assumes "ThermalStressor_stop ts s = Inr s'"
  shows "thm_thread s' = TNoThread \<and> \<not> running s' \<and> thm_originalSettings s' = []"
proof -
  let ?s1 = "if running s then markStopped s else s"
  have idle: "\<not> running ?s1" by (simp add: markStopped_def)
  obtain s2 where j: "thm_join ts ?s1 = Inr s2" and s': "s' = restoreSettings s2"
    using assms by (auto simp: ThermalStressor_stop_def Let_def split: sum.splits)
  show ?thesis using thm_join_post [OF idle j] s' by (simp add: restoreSettings_fields)
qed

lemma thm_stop_again:
  assumes "thm_thread s = TNoThread" and "\<not> running s" and "thm_originalSettings s = []"
  shows "ThermalStressor_stop ts s = Inr s"
  using assms
  by (simp add: ThermalStressor_stop_def thm_join.simps restoreSettings_def)

lemma net_exec_fields:
  "running (snd (net_exec c s)) = running s" "net_thread (snd (net_exec c s)) = net_thread s"
  "tcRulesApplied (snd (net_exec c s)) = tcRulesApplied s"
  "net_config (snd (net_exec c s)) = net_config s"
  by (simp_all add: net_exec_def Let_def)

lemma removeTcRules_fields:
  "running (removeTcRules s) = running s" "net_thread (removeTcRules s) = net_thread s"
  "\<not> tcRulesApplied (removeTcRules s)"
  by (simp_all add: removeTcRules_def net_exec_fields)

lemma apply_netem_fields:
  "running (snd (apply_netem s)) = running s" "net_thread (snd (apply_netem s)) = net_thread s"
  by (auto simp: apply_netem_def Let_def removeTcRules_fields split: prod.splits bool.splits)
     (metis net_exec_fields(1,2) snd_conv)+

lemma applyTcRules_fields:
  "running (snd (applyTcRules s)) = running s" "net_thread (snd (applyTcRules s)) = net_thread s"
proof -
  have e: "running (snd (net_exec c s')) = running s'"
    "net_thread (snd (net_exec c s')) = net_thread s'" for c s'
    by (simp_all add: net_exec_fields)
  have e': "net_exec c s' = (b, s'') \<Longrightarrow> running s'' = running s' \<and> net_thread s'' = net_thread s'"
    for c s' b s''
    using e [of c s'] by simp
  show "running (snd (applyTcRules s)) = running s"
    by (auto simp: applyTcRules_def Let_def removeTcRules_fields apply_netem_fields
        split: prod.splits bool.splits dest!: e')
  show "net_thread (snd (applyTcRules s)) = net_thread s"
    by (auto simp: applyTcRules_def Let_def removeTcRules_fields apply_netem_fields
        split: prod.splits bool.splits dest!: e')
qed

lemma net_worker_step_idle:
  assumes "\<not> running s"
  shows "\<not> running (net_worker_step t s)"
    and "net_steps_left (net_thread (net_worker_step t s)) \<le> net_steps_left (net_thread s) - 1"
proof -
  have a: "applyTcRules s = (b, s1) \<Longrightarrow> running s1 = running s" for b s1
    using applyTcRules_fields(1) [of s] by simp
  show "\<not> running (net_worker_step t s)"
    using assms
    by (auto simp: net_worker_step_def markStopped_def removeTcRules_fields
        split: net_worker.splits prod.splits bool.splits dest: a)
  show "net_steps_left (net_thread (net_worker_step t s)) \<le> net_steps_left (net_thread s) - 1"
    using assms
    by (auto simp: net_worker_step_def markStopped_def removeTcRules_fields
        split: net_worker.splits prod.splits bool.splits)
qed

lemma net_join_idle:
  assumes "\<not> running s" and "net_steps_left (net_thread s) \<le> length ts"
  shows "\<exists>s'. net_join ts s = Inr s' \<and> \<not> running s' \<and> net_thread s' = NNoThread"
  using assms
proof (induction ts arbitrary: s)
  case Nil
  then show ?case by (cases "net_thread s") (simp_all add: net_join.simps)
next
  case (Cons t ts)
  show ?case
  proof (cases "net_thread s = NNoThread \<or> net_thread s = NExited")
    case True
    then show ?thesis using Cons.prems(1) by (auto simp: net_join.simps)
  next
    case False
    have "net_steps_left (net_thread (net_worker_step t s)) \<le> length ts"
      using net_worker_step_idle(2) [OF Cons.prems(1), of t] Cons.prems(2) by simp
    then have "\<exists>s'. net_join ts (net_worker_step t s) = Inr s' \<and> \<not> running s'
                 \<and> net_thread s' = NNoThread"
      using Cons.IH net_worker_step_idle(1) [OF Cons.prems(1)] by blast
    then show ?thesis using False by (simp add: net_join.simps [of "t # ts"])
  qed
qed

lemma net_join_post:
  assumes "\<not> running s" and "net_join ts s = Inr s'"
  shows "\<not> running s' \<and> net_thread s' = NNoThread"
  using assms
proof (induction ts arbitrary: s)
  case Nil
  then show ?case by (auto simp: net_join.simps [of "[]"] split: if_splits)
next
  case (Cons t ts)
  show ?case
  proof (cases "net_thread s = NNoThread \<or> net_thread s = NExited")
    case True
    then show ?thesis using Cons.prems by (auto simp: net_join.simps [of "t # ts"] split: if_splits)
  next
    case False
    then have "net_join ts (net_worker_step t s) = Inr s'"
      using Cons.prems(2) by (simp add: net_join.simps [of "t # ts"])
    then show ?thesis
      using Cons.IH net_worker_step_idle(1) [OF Cons.prems(1)] by blast
  qed
qed

lemma net_stop_returns:
  assumes "2 \<le> length ts"
  shows "\<exists>s'. NetworkStressor_stop ts s = Inr s'"
proof -
  let ?s1 = "if running s then markStopped s else s"
  have "\<not> running ?s1" by (simp add: markStopped_def)
  moreover have "net_steps_left (net_thread ?s1) \<le> length ts"
    using assms by (cases "net_thread ?s1") simp_all
  ultimately obtain s2 where "net_join ts ?s1 = Inr s2"
    using net_join_idle by blast
  then show ?thesis by (simp add: NetworkStressor_stop_def Let_def)
qed

lemma net_stop_post:
  assumes "NetworkStressor_stop ts s = Inr s'"
  shows "net_thread s' = NNoThread \<and> \<not> running s' \<and> \<not> tcRulesApplied s'"
proof -
  let ?s1 = "if running s then markStopped s else s"
  have idle: "\<not> running ?s1" by (simp add: markStopped_def)
  obtain s2 where j: "net_join ts ?s1 = Inr s2" and s': "s' = removeTcRules s2"
    using assms by (auto simp: NetworkStressor_stop_def Let_def split: sum.splits)
  show ?thesis using net_join_post [OF idle j] s' by (simp add: removeTcRules_fields)
qed

lemma net_stop_again:
  assumes "net_thread s = NNoThread" and "\<not> running s" and "\<not> tcRulesApplied s"
  shows "NetworkStressor_stop ts s = Inr s"
  using assms
  by (simp add: NetworkStressor_stop_def net_join.simps removeTcRules_def)

lemma cleanup_fold:
  "foldl (\<lambda>w' name. if strstr name ''stress_'' \<and> strstr name ''.tmp'' then unlink path name w'
                      else w') w names
   = w\<lparr>listing := (listing w)(path := kept path w names (listing w path))\<rparr>"
proof (induction names arbitrary: w)
  case Nil
  then show ?case by (simp add: kept_def)
next
  case (Cons n ns)
  let ?f = "\<lambda>w' name. if strstr name ''stress_'' \<and> strstr name ''.tmp'' then unlink path name w'
                        else w'"
  show ?case
  proof (cases "strstr n ''stress_'' \<and> strstr n ''.tmp'' \<and> unlink_ok w (path @ ''/'' @ n)")
    case True
    let ?w1 = "w\<lparr>listing := (listing w)(path := removeAll n (listing w path))\<rparr>"
    have "?f w n = ?w1" using True by (simp add: unlink_def)
    moreover have "kept path ?w1 ns (removeAll n (listing w path))
                   = kept path w (n # ns) (listing w path)"
      using True by (auto simp: kept_def removeAll_filter_not_eq intro: filter_cong)
    ultimately show ?thesis using Cons.IH [of ?w1] by (simp cong: if_cong)
  next
    case False
    then have "?f w n = w" by (auto simp: unlink_def)
    moreover have "kept path w ns (listing w path) = kept path w (n # ns) (listing w path)"
      using False by (auto simp: kept_def intro: filter_cong)
    ultimately show ?thesis using Cons.IH [of w] by simp
  qed
qed

lemma kept_idem:
  "kept path (w\<lparr>listing := L\<rparr>) (kept path w l l) (kept path w l l) = kept path w l l"
  by (auto simp: kept_def intro!: filter_cong)

lemma cleanup_idem: "cleanup (cleanup s) = cleanup s"
proof (cases "stat_of (disk_fs s) (testPath (disk_config s)) = Some Dir")
  case False
  then show ?thesis by (simp add: cleanup_def Let_def)
next
  case True
  let ?p = "testPath (disk_config s)"
  let ?w = "disk_fs s"
  let ?k = "kept ?p ?w (listing ?w ?p) (listing ?w ?p)"
  have 1: "cleanup s = s\<lparr>disk_fs := ?w\<lparr>listing := (listing ?w)(?p := ?k)\<rparr>\<rparr>"
    using True by (simp add: cleanup_def Let_def cleanup_fold)
  have "cleanup (cleanup s)
        = s\<lparr>disk_fs := ?w\<lparr>listing := (listing ?w)
               (?p := kept ?p (?w\<lparr>listing := (listing ?w)(?p := ?k)\<rparr>) ?k ?k)\<rparr>\<rparr>"
    using True unfolding 1 by (simp add: cleanup_def Let_def cleanup_fold)
  then show ?thesis unfolding 1 by (simp add: kept_idem)
qed

lemma cleanup_fields:
  "running (cleanup s) = running s" "disk_thread (cleanup s) = disk_thread s"
  by (simp_all add: cleanup_def Let_def)

lemma disk_iteration_fields:
  "running (disk_iteration l t s) = running s"
  "\<exists>l'. disk_thread (disk_iteration l t s) = DLoop l'"
  by (simp_all add: disk_iteration_def Let_def)

lemma disk_worker_step_idle:
  assumes "\<not> running s" and "disk_worker_step t s = Inr s'"
  shows "\<not> running s'"
    and "disk_steps_left (disk_thread s') \<le> disk_steps_left (disk_thread s) - 1"
  using assms
  by (auto simp: disk_worker_step_def markStopped_def cleanup_fields
      split: disk_worker.splits if_splits)

lemma disk_worker_step_error: "disk_worker_step t s = Inl e \<Longrightarrow> e = Terminated"
  by (auto simp: disk_worker_step_def split: disk_worker.splits if_splits)

lemma disk_join_idle:
  assumes "\<not> running s" and "disk_steps_left (disk_thread s) \<le> length ts"
  shows "disk_join ts s \<noteq> Inl JoinPending"
  using assms
proof (induction ts arbitrary: s)
  case Nil
  then show ?case by (cases "disk_thread s") (simp_all add: disk_join.simps)
next
  case (Cons t ts)
  show ?case
  proof (cases "disk_thread s = DNoThread \<or> disk_thread s = DExited")
    case True
    then show ?thesis by (auto simp: disk_join.simps)
  next
    case False
    show ?thesis
    proof (cases "disk_worker_step t s")
      case (Inl e)
      then have "e = Terminated" by (rule disk_worker_step_error)
      then show ?thesis using False Inl by (simp add: disk_join.simps [of "t # ts"])
    next
      case (Inr s1)
      have "disk_steps_left (disk_thread s1) \<le> length ts"
        using disk_worker_step_idle(2) [OF Cons.prems(1) Inr] Cons.prems(2) by simp
      then have "disk_join ts s1 \<noteq> Inl JoinPending"
        using Cons.IH disk_worker_step_idle(1) [OF Cons.prems(1) Inr] by blast
      then show ?thesis using False Inr by (simp add: disk_join.simps [of "t # ts"])
    qed
  qed
qed

lemma disk_join_post:
  assumes "\<not> running s" and "disk_join ts s = Inr s'"
  shows "\<not> running s' \<and> disk_thread s' = DNoThread"
  using assms
proof (induction ts arbitrary: s)
  case Nil
  then show ?case by (auto simp: disk_join.simps [of "[]"] split: if_splits)
next
  case (Cons t ts)
  show ?case
  proof (cases "disk_thread s = DNoThread \<or> disk_thread s = DExited")
    case True
    then show ?thesis using Cons.prems by (auto simp: disk_join.simps [of "t # ts"] split: if_splits)
  next
    case False
    then obtain s1 where 1: "disk_worker_step t s = Inr s1" and 2: "disk_join ts s1 = Inr s'"
      using Cons.prems(2) by (auto simp: disk_join.simps [of "t # ts"] split: sum.splits)
    show ?thesis
      using Cons.IH [OF disk_worker_step_idle(1) [OF Cons.prems(1) 1] 2] .
  qed
qed

lemma disk_stop_not_pending:
  assumes "2 \<le> length ts"
  shows "DiskStressor_stop ts s \<noteq> Inl JoinPending"
proof -
  let ?s1 = "if running s then markStopped s else s"
  have "\<not> running ?s1" by (simp add: markStopped_def)
  moreover have "disk_steps_left (disk_thread ?s1) \<le> length ts"
    using assms by (cases "disk_thread ?s1") simp_all
  ultimately have "disk_join ts ?s1 \<noteq> Inl JoinPending"
    by (rule disk_join_idle)
  then show ?thesis
    by (auto simp: DiskStressor_stop_def Let_def split: sum.splits)
qed

lemma disk_stop_post:
  assumes "DiskStressor_stop ts s = Inr s'"
  shows "disk_thread s' = DNoThread \<and> \<not> running s' \<and> cleanup s' = s'"
proof -
  let ?s1 = "if running s then markStopped s else s"
  have idle: "\<not> running ?s1" by (simp add: markStopped_def)
  obtain s2 where j: "disk_join ts ?s1 = Inr s2" and s': "s' = cleanup s2"
    using assms by (auto simp: DiskStressor_stop_def Let_def split: sum.splits)
  show ?thesis using disk_join_post [OF idle j] s' by (simp add: cleanup_fields cleanup_idem)
qed

lemma disk_stop_again:
  assumes "disk_thread s = DNoThread" and "\<not> running s" and "cleanup s = s"
  shows "DiskStressor_stop ts s = Inr s"
  using assms
  by (simp add: DiskStressor_stop_def disk_join.simps)

lemma cpu_worker_step_idle:
  assumes "\<not> running s"
  shows "\<not> running (cpu_worker_step i t s)"
    and "length (workerThreads (cpu_worker_step i t s)) = length (workerThreads s)"
    and "i < length (workerThreads s) \<Longrightarrow>
         cpu_steps_left (workerThreads (cpu_worker_step i t s) ! i)
           \<le> cpu_steps_left (workerThreads s ! i) - 1"
  using assms
  by (auto simp: cpu_worker_step_def markStopped_def split: cpu_worker.splits)

lemma cpu_join_worker_idle:
  assumes "\<not> running s" and "2 \<le> length ts"
  shows "\<exists>ts' s'. cpu_join_worker i ts s = Inr (ts', s') \<and> \<not> running s'
           \<and> length (workerThreads s') = length (workerThreads s)
           \<and> length ts \<le> length ts' + 2"
proof -
  have gen: "\<exists>ts' s'. cpu_join_worker i ts s = Inr (ts', s') \<and> \<not> running s'
           \<and> length (workerThreads s') = length (workerThreads s)
           \<and> length ts \<le> length ts' + k"
    if "\<not> running s" and "k \<le> length ts"
      and "i < length (workerThreads s) \<longrightarrow> cpu_steps_left (workerThreads s ! i) \<le> k"
    for k ts s
    using that
  proof (induction ts arbitrary: s k)
    case Nil
    then show ?case
      by (cases "workerThreads s ! i") (auto simp: cpu_join_worker.simps [of i "[]"])
  next
    case (Cons t ts)
    show ?case
    proof (cases "i \<ge> length (workerThreads s) \<or> workerThreads s ! i = CExited")
      case True
      then show ?thesis using Cons.prems(1) by (auto simp: cpu_join_worker.simps [of i "t # ts"])
    next
      case False
      then have i: "i < length (workerThreads s)" and ne: "workerThreads s ! i \<noteq> CExited"
        by simp_all
      then have kpos: "0 < k" using Cons.prems(3) by (cases "workerThreads s ! i") auto
      let ?s1 = "cpu_worker_step i t s"
      have 1: "\<not> running ?s1" and 2: "length (workerThreads ?s1) = length (workerThreads s)"
        and 3: "cpu_steps_left (workerThreads ?s1 ! i) \<le> k - 1"
        using cpu_worker_step_idle [OF Cons.prems(1), of i t] i Cons.prems(3) by auto
      have "k - 1 \<le> length ts" using Cons.prems(2) by simp
      from Cons.IH [OF 1 this] 3
      obtain ts' s' where r: "cpu_join_worker i ts ?s1 = Inr (ts', s')" "\<not> running s'"
        "length (workerThreads s') = length (workerThreads ?s1)"
        "length ts \<le> length ts' + (k - 1)"
        by blast
      have "cpu_join_worker i (t # ts) s = Inr (ts', s')"
        using False r(1) by (simp add: cpu_join_worker.simps [of i "t # ts"])
      moreover have "length (t # ts) \<le> length ts' + k" using r(4) kpos by simp
      ultimately show ?thesis using r(2,3) 2 by auto
    qed
  qed
  have "i < length (workerThreads s) \<longrightarrow> cpu_steps_left (workerThreads s ! i) \<le> 2"
    by (cases "workerThreads s ! i") simp_all
  from gen [OF assms(1) assms(2) this] show ?thesis .
qed

lemma cpu_join_idle:
  assumes "\<not> running s" and "2 * length js \<le> length ts"
  shows "\<exists>s'. cpu_join js ts s = Inr s' \<and> \<not> running s'"
  using assms
proof (induction js arbitrary: ts s)
  case Nil
  then show ?case by simp
next
  case (Cons j js)
  have "2 \<le> length ts" using Cons.prems(2) by simp
  from cpu_join_worker_idle [OF Cons.prems(1) this, of j]
  obtain ts' s' where r: "cpu_join_worker j ts s = Inr (ts', s')" "\<not> running s'"
    "length ts \<le> length ts' + 2"
    by blast
  have "2 * length js \<le> length ts'" using r(3) Cons.prems(2) by simp
  from Cons.IH [OF r(2) this] show ?case using r(1) by simp
qed

lemma cpu_stop_returns:
  assumes "2 * length (workerThreads s) \<le> length ts"
  shows "\<exists>s'. CPUStressor_stop ts s = Inr s'"
proof -
  let ?s1 = "if running s then markStopped s else s"
  have "\<not> running ?s1" by (simp add: markStopped_def)
  moreover have "2 * length [0..<length (workerThreads ?s1)] \<le> length ts"
    using assms by (simp add: markStopped_def)
  ultimately obtain s2 where "cpu_join [0..<length (workerThreads ?s1)] ts ?s1 = Inr s2"
    using cpu_join_idle by blast
  then show ?thesis by (simp add: CPUStressor_stop_def Let_def)
qed

lemma cpu_join_worker_post:
  assumes "\<not> running s" and "cpu_join_worker i ts s = Inr (ts', s')"
  shows "\<not> running s'"
  using assms
proof (induction ts arbitrary: s)
  case Nil
  then show ?case by (auto simp: cpu_join_worker.simps [of i "[]"] split: if_splits)
next
  case (Cons t ts)
  show ?case
  proof (cases "i \<ge> length (workerThreads s) \<or> workerThreads s ! i = CExited")
    case True
    then show ?thesis using Cons.prems by (auto simp: cpu_join_worker.simps [of i "t # ts"])
  next
    case False
    then have "cpu_join_worker i ts (cpu_worker_step i t s) = Inr (ts', s')"
      using Cons.prems(2) by (simp add: cpu_join_worker.simps [of i "t # ts"])
    then show ?thesis
      using Cons.IH cpu_worker_step_idle(1) [OF Cons.prems(1)] by blast
  qed
qed

lemma cpu_join_post:
  assumes "\<not> running s" and "cpu_join js ts s = Inr s'"
  shows "\<not> running s'"
  using assms
proof (induction js arbitrary: ts s)
  case Nil
  then show ?case by simp
next
  case (Cons j js)
  then obtain ts1 s1 where 1: "cpu_join_worker j ts s = Inr (ts1, s1)"
    and 2: "cpu_join js ts1 s1 = Inr s'"
    by (auto split: sum.splits)
  show ?case using Cons.IH [OF cpu_join_worker_post [OF Cons.prems(1) 1] 2] .
qed

lemma cpu_stop_post:
  assumes "CPUStressor_stop ts s = Inr s'"
  shows "workerThreads s' = [] \<and> \<not> running s'"
proof -
  let ?s1 = "if running s then markStopped s else s"
  have idle: "\<not> running ?s1" by (simp add: markStopped_def)
  obtain s2 where j: "cpu_join [0..<length (workerThreads ?s1)] ts ?s1 = Inr s2"
    and s': "s' = s2\<lparr>workerThreads := []\<rparr>"
    using assms by (auto simp: CPUStressor_stop_def Let_def split: sum.splits)
  show ?thesis using cpu_join_post [OF idle j] s' by simp
qed

lemma cpu_stop_again:
  assumes "workerThreads s = []" and "\<not> running s"
  shows "CPUStressor_stop ts s = Inr s"
  using assms
  by (simp add: CPUStressor_stop_def)

lemma cpu_join_exited:
  assumes "\<forall>w \<in> set (workerThreads s). w = CExited"
  shows "cpu_join js ts s = Inr s"
proof (induction js)
  case Nil
  then show ?case by simp
next
  case (Cons j js)
  have "j \<ge> length (workerThreads s) \<or> workerThreads s ! j = CExited"
    using assms nth_mem [of j "workerThreads s"] by fastforce
  then have "cpu_join_worker j ts s = Inr (ts, s)"
    by (subst cpu_join_worker.simps) simp
  then show ?case using Cons by simp
qed

lemma markStopped_idle: "\<not> running s \<Longrightarrow> markStopped s = s"
  by (cases s) (simp add: markStopped_def)

lemma stop_flag: "(if running s then markStopped s else s) = s\<lparr>running := False\<rparr>"
  using markStopped_idle [of s] by (simp add: markStopped_def)

lemma cpu_worker_step_idle_state:
  assumes "\<not> running s"
  shows "cpu_worker_step i t s = s\<lparr>workerThreads := workerThreads (cpu_worker_step i t s)\<rparr>"
  using assms
  by (auto simp: cpu_worker_step_def markStopped_idle split: cpu_worker.splits)

lemma cpu_join_worker_idle_state:
  assumes "\<not> running s" and "cpu_join_worker i ts s = Inr (ts', s')"
  shows "s' = s\<lparr>workerThreads := workerThreads s'\<rparr>"
  using assms
proof (induction ts arbitrary: s)
  case Nil
  then show ?case
    by (subst (asm) cpu_join_worker.simps) (simp split: if_splits)
next
  case (Cons t ts)
  show ?case
  proof (cases "i \<ge> length (workerThreads s) \<or> workerThreads s ! i = CExited")
    case True
    then show ?thesis
      using Cons.prems(2) by (subst (asm) cpu_join_worker.simps) auto
  next
    case False
    let ?s1 = "cpu_worker_step i t s"
    have ws: "?s1 = s\<lparr>workerThreads := workerThreads ?s1\<rparr>"
      by (rule cpu_worker_step_idle_state [OF Cons.prems(1)])
    have "cpu_join_worker i ts ?s1 = Inr (ts', s')"
      using Cons.prems(2) False by (subst (asm) cpu_join_worker.simps) simp
    moreover have "\<not> running ?s1" using Cons.prems(1) by (simp add: cpu_worker_step_idle)
    ultimately have "s' = ?s1\<lparr>workerThreads := workerThreads s'\<rparr>"
      using Cons.IH by blast
    then have "s' = s\<lparr>workerThreads := workerThreads ?s1\<rparr>\<lparr>workerThreads := workerThreads s'\<rparr>"
      using ws by simp
    then show ?thesis by simp
  qed
qed

lemma cpu_join_idle_state:
  assumes "\<not> running s" and "cpu_join js ts s = Inr s'"
  shows "s' = s\<lparr>workerThreads := workerThreads s'\<rparr>"
  using assms
proof (induction js arbitrary: ts s)
  case Nil
  then show ?case by auto
next
  case (Cons j js)
  obtain ts1 s1 where j: "cpu_join_worker j ts s = Inr (ts1, s1)"
    and r: "cpu_join js ts1 s1 = Inr s'"
    using Cons.prems(2) by (auto split: sum.splits)
  have ws: "s1 = s\<lparr>workerThreads := workerThreads s1\<rparr>"
    by (rule cpu_join_worker_idle_state [OF Cons.prems(1) j])
  have "\<not> running s1" using cpu_join_worker_post [OF Cons.prems(1) j] .
  then have "s' = s1\<lparr>workerThreads := workerThreads s'\<rparr>" using Cons.IH r by blast
  then have "s' = s\<lparr>workerThreads := workerThreads s1\<rparr>\<lparr>workerThreads := workerThreads s'\<rparr>"
    using ws by simp
  then show ?case by simp
qed

lemma cpu_stop_state:
  assumes "CPUStressor_stop ts s = Inr s'"
  shows "s' = s\<lparr>running := False, workerThreads := []\<rparr>"
proof -
  let ?s1 = "s\<lparr>running := False\<rparr>"
  obtain s2 where j: "cpu_join [0..<length (workerThreads ?s1)] ts ?s1 = Inr s2"
    and s': "s' = s2\<lparr>workerThreads := []\<rparr>"
    using assms unfolding CPUStressor_stop_def Let_def stop_flag
    by (auto split: sum.splits)
  have "s2 = ?s1\<lparr>workerThreads := workerThreads s2\<rparr>"
    by (rule cpu_join_idle_state [OF _ j]) simp
  then have "s2\<lparr>workerThreads := []\<rparr> = ?s1\<lparr>workerThreads := workerThreads s2\<rparr>\<lparr>workerThreads := []\<rparr>"
    by simp
  then show ?thesis using s' by simp
qed

lemma cpu_join_pending:
  assumes "\<exists>j \<in> set js. j < length (workerThreads s) \<and> workerThreads s ! j \<noteq> CExited"
  shows "cpu_join js [] s = Inl JoinPending"
  using assms
proof (induction js)
  case Nil
  then show ?case by simp
next
  case (Cons j js)
  show ?case
  proof (cases "j < length (workerThreads s) \<and> workerThreads s ! j \<noteq> CExited")
    case True
    then have "cpu_join_worker j [] s = Inl JoinPending"
      by (subst cpu_join_worker.simps) auto
    then show ?thesis by simp
  next
    case False
    then have "cpu_join_worker j [] s = Inr ([], s)"
      by (subst cpu_join_worker.simps) auto
    moreover have "cpu_join js [] s = Inl JoinPending" using Cons False by auto
    ultimately show ?thesis by simp
  qed
qed

lemma cpu_stop_waits:
  assumes "\<exists>w \<in> set (workerThreads s). w \<noteq> CExited"
  shows "CPUStressor_stop [] s = Inl JoinPending"
proof -
  let ?s1 = "s\<lparr>running := False\<rparr>"
  obtain j where "j < length (workerThreads s)" "workerThreads s ! j \<noteq> CExited"
    using assms by (auto simp: in_set_conv_nth)
  then have "\<exists>j \<in> set [0..<length (workerThreads ?s1)].
      j < length (workerThreads ?s1) \<and> workerThreads ?s1 ! j \<noteq> CExited"
    by auto
  then have "cpu_join [0..<length (workerThreads ?s1)] [] ?s1 = Inl JoinPending"
    by (rule cpu_join_pending)
  then show ?thesis unfolding CPUStressor_stop_def Let_def stop_flag by simp
qed

lemma cpu_stop_returned:
  assumes "\<forall>w \<in> set (workerThreads s). w = CExited"
  shows "CPUStressor_stop ts s = Inr (s\<lparr>running := False, workerThreads := []\<rparr>)"
proof -
  let ?s1 = "s\<lparr>running := False\<rparr>"
  have "cpu_join [0..<length (workerThreads ?s1)] ts ?s1 = Inr ?s1"
    by (rule cpu_join_exited) (use assms in simp)
  then show ?thesis unfolding CPUStressor_stop_def Let_def stop_flag by simp
qed


lemma releaseMemory_empty:
  assumes "allocations s = []" and "allocatedBytes s = 0"
  shows "releaseMemory s = s"
  using assms by (cases s) (simp add: releaseMemory_def Let_def)

lemma releaseMemory_idem: "releaseMemory (releaseMemory s) = releaseMemory s"
  by (rule releaseMemory_empty) (simp_all add: releaseMemory_fields)

lemma releaseMemory_commute:
  "releaseMemory (s\<lparr>mem_thread := w\<rparr>) = (releaseMemory s)\<lparr>mem_thread := w\<rparr>"
  "releaseMemory (s\<lparr>running := b\<rparr>) = (releaseMemory s)\<lparr>running := b\<rparr>"
  by (simp_all add: releaseMemory_def Let_def)

lemma mem_worker_step_idle_state:
  assumes "\<not> running s"
  shows "mem_worker_step t s = s\<lparr>mem_thread := mem_thread (mem_worker_step t s)\<rparr>
       \<or> mem_worker_step t s = (releaseMemory s)\<lparr>mem_thread := mem_thread (mem_worker_step t s)\<rparr>"
  using assms
  by (auto simp: mem_worker_step_def markStopped_idle split: mem_worker.splits)

lemma mem_join_idle_state:
  assumes "\<not> running s" and "mem_join ts s = Inr s'"
  shows "s' = s\<lparr>mem_thread := MNoThread\<rparr> \<or> s' = (releaseMemory s)\<lparr>mem_thread := MNoThread\<rparr>"
  using assms
proof (induction ts arbitrary: s)
  case Nil
  then show ?case by (auto simp: mem_join.simps [of "[]"] split: if_splits)
next
  case (Cons t ts)
  show ?case
  proof (cases "mem_thread s = MNoThread \<or> mem_thread s = MExited")
    case True
    then show ?thesis using Cons.prems(2) by (auto simp: mem_join.simps [of "t # ts"])
  next
    case False
    let ?s1 = "mem_worker_step t s"
    have j: "mem_join ts ?s1 = Inr s'"
      using Cons.prems(2) False by (simp add: mem_join.simps [of "t # ts"])
    have idle: "\<not> running ?s1" using Cons.prems(1) by (rule mem_worker_step_idle)
    have r: "s' = ?s1\<lparr>mem_thread := MNoThread\<rparr>
           \<or> s' = (releaseMemory ?s1)\<lparr>mem_thread := MNoThread\<rparr>"
      using Cons.IH [OF idle j] .
    from mem_worker_step_idle_state [OF Cons.prems(1), of t]
    show ?thesis
    proof
      assume e: "?s1 = s\<lparr>mem_thread := mem_thread ?s1\<rparr>"
      have "?s1\<lparr>mem_thread := MNoThread\<rparr> = s\<lparr>mem_thread := MNoThread\<rparr>"
        by (subst e) simp
      moreover have "(releaseMemory ?s1)\<lparr>mem_thread := MNoThread\<rparr>
                     = (releaseMemory s)\<lparr>mem_thread := MNoThread\<rparr>"
        by (subst e) (simp add: releaseMemory_commute)
      ultimately show ?thesis using r by simp
    next
      assume e: "?s1 = (releaseMemory s)\<lparr>mem_thread := mem_thread ?s1\<rparr>"
      have "?s1\<lparr>mem_thread := MNoThread\<rparr> = (releaseMemory s)\<lparr>mem_thread := MNoThread\<rparr>"
        by (subst e) simp
      moreover have "(releaseMemory ?s1)\<lparr>mem_thread := MNoThread\<rparr>
                     = (releaseMemory s)\<lparr>mem_thread := MNoThread\<rparr>"
        by (subst e) (simp add: releaseMemory_commute releaseMemory_idem)
      ultimately show ?thesis using r by simp
    qed
  qed
qed

lemma mem_stop_state:
  assumes "MemoryStressor_stop ts s = Inr s'"
  shows "s' = (releaseMemory s)\<lparr>running := False, mem_thread := MNoThread\<rparr>"
proof -
  let ?s1 = "s\<lparr>running := False\<rparr>"
  obtain s2 where j: "mem_join ts ?s1 = Inr s2" and s': "s' = releaseMemory s2"
    using assms unfolding MemoryStressor_stop_def Let_def stop_flag
    by (auto split: sum.splits)
  have "s2 = ?s1\<lparr>mem_thread := MNoThread\<rparr> \<or> s2 = (releaseMemory ?s1)\<lparr>mem_thread := MNoThread\<rparr>"
    by (rule mem_join_idle_state [OF _ j]) simp
  then show ?thesis
    using s' by (auto simp: releaseMemory_commute releaseMemory_idem)
qed

lemma release_heap_all: "release_heap h (map fst h) = []"
  by (induction h) auto

lemma mem_stop_heap:
  assumes "MemoryStressor_stop ts s = Inr s'" and "map fst (heap s) = allocations s"
  shows "heap s' = []"
  using mem_stop_state [OF assms(1)] assms(2) release_heap_all [of "heap s"]
  by (simp add: releaseMemory_def Let_def)

lemma mem_stop_returned:
  assumes "mem_thread s = MExited \<or> mem_thread s = MNoThread"
  shows "MemoryStressor_stop ts s = Inr ((releaseMemory s)\<lparr>running := False, mem_thread := MNoThread\<rparr>)"
proof -
  have "\<exists>r. MemoryStressor_stop ts s = Inr r"
    using assms unfolding MemoryStressor_stop_def Let_def stop_flag
    by (auto simp: mem_join.simps)
  then show ?thesis using mem_stop_state by blast
qed

lemma kept_all:
  "kept path w l l = filter (\<lambda>n. \<not> (strstr n ''stress_'' \<and> strstr n ''.tmp''
                                    \<and> unlink_ok w (path @ ''/'' @ n))) l"
  by (auto simp: kept_def intro!: filter_cong)

lemma cleanup_swept: "cleanup s = s\<lparr>disk_fs := swept (testPath (disk_config s)) (disk_fs s)\<rparr>"
  by (simp add: cleanup_def Let_def cleanup_fold kept_all swept_def)

lemma swept_idem: "swept p (swept p w) = swept p w"
  by (simp add: swept_def)

lemma cleanup_commute:
  "cleanup (s\<lparr>disk_thread := w\<rparr>) = (cleanup s)\<lparr>disk_thread := w\<rparr>"
  "cleanup (s\<lparr>running := b\<rparr>) = (cleanup s)\<lparr>running := b\<rparr>"
  by (simp_all add: cleanup_def Let_def)

lemma disk_worker_step_idle_state:
  assumes "\<not> running s" and "disk_worker_step t s = Inr s1"
  shows "s1 = s\<lparr>disk_thread := disk_thread s1\<rparr> \<or> s1 = (cleanup s)\<lparr>disk_thread := disk_thread s1\<rparr>"
  using assms
  by (auto simp: disk_worker_step_def markStopped_idle split: disk_worker.splits if_splits)

lemma disk_join_idle_state:
  assumes "\<not> running s" and "disk_join ts s = Inr s'"
  shows "s' = s\<lparr>disk_thread := DNoThread\<rparr> \<or> s' = (cleanup s)\<lparr>disk_thread := DNoThread\<rparr>"
  using assms
proof (induction ts arbitrary: s)
  case Nil
  then show ?case by (auto simp: disk_join.simps [of "[]"] split: if_splits)
next
  case (Cons t ts)
  show ?case
  proof (cases "disk_thread s = DNoThread \<or> disk_thread s = DExited")
    case True
    then show ?thesis using Cons.prems(2) by (auto simp: disk_join.simps [of "t # ts"])
  next
    case False
    obtain s1 where st: "disk_worker_step t s = Inr s1" and j: "disk_join ts s1 = Inr s'"
      using Cons.prems(2) False by (auto simp: disk_join.simps [of "t # ts"] split: sum.splits)
    have idle: "\<not> running s1" using disk_worker_step_idle(1) [OF Cons.prems(1) st] .
    have r: "s' = s1\<lparr>disk_thread := DNoThread\<rparr> \<or> s' = (cleanup s1)\<lparr>disk_thread := DNoThread\<rparr>"
      using Cons.IH [OF idle j] .
    from disk_worker_step_idle_state [OF Cons.prems(1) st]
    show ?thesis
    proof
      assume e: "s1 = s\<lparr>disk_thread := disk_thread s1\<rparr>"
      have "s1\<lparr>disk_thread := DNoThread\<rparr> = s\<lparr>disk_thread := DNoThread\<rparr>"
        by (subst e) simp
      moreover have "(cleanup s1)\<lparr>disk_thread := DNoThread\<rparr> = (cleanup s)\<lparr>disk_thread := DNoThread\<rparr>"
        by (subst e) (simp add: cleanup_commute)
      ultimately show ?thesis using r by simp
    next
      assume e: "s1 = (cleanup s)\<lparr>disk_thread := disk_thread s1\<rparr>"
      have "s1\<lparr>disk_thread := DNoThread\<rparr> = (cleanup s)\<lparr>disk_thread := DNoThread\<rparr>"
        by (subst e) simp
      moreover have "(cleanup s1)\<lparr>disk_thread := DNoThread\<rparr> = (cleanup s)\<lparr>disk_thread := DNoThread\<rparr>"
        by (subst e) (simp add: cleanup_commute cleanup_idem)
      ultimately show ?thesis using r by simp
    qed
  qed
qed

lemma disk_stop_state:
  assumes "DiskStressor_stop ts s = Inr s'"
  shows "s' = s\<lparr>running := False, disk_thread := DNoThread,
               disk_fs := swept (testPath (disk_config s)) (disk_fs s)\<rparr>"
proof -
  let ?s1 = "s\<lparr>running := False\<rparr>"
  obtain s2 where j: "disk_join ts ?s1 = Inr s2" and s': "s' = cleanup s2"
    using assms unfolding DiskStressor_stop_def Let_def stop_flag
    by (auto split: sum.splits)
  have "s2 = ?s1\<lparr>disk_thread := DNoThread\<rparr> \<or> s2 = (cleanup ?s1)\<lparr>disk_thread := DNoThread\<rparr>"
    by (rule disk_join_idle_state [OF _ j]) simp
  then have "s' = (cleanup s)\<lparr>running := False, disk_thread := DNoThread\<rparr>"
    using s' by (auto simp: cleanup_commute cleanup_idem)
  then show ?thesis by (simp add: cleanup_swept)
qed

lemma disk_stop_returned:
  assumes "disk_thread s = DExited \<or> disk_thread s = DNoThread"
  shows "DiskStressor_stop ts s
         = Inr (s\<lparr>running := False, disk_thread := DNoThread,
                  disk_fs := swept (testPath (disk_config s)) (disk_fs s)\<rparr>)"
proof -
  have "\<exists>r. DiskStressor_stop ts s = Inr r"
    using assms unfolding DiskStressor_stop_def Let_def stop_flag
    by (auto simp: disk_join.simps)
  then show ?thesis using disk_stop_state by blast
qed


lemma removeTcRules_state:
  "removeTcRules s = s\<lparr>tcRulesApplied := False, net_shell := rules_removed s\<rparr>"
proof (cases "tcRulesApplied s")
  case False
  then show ?thesis by (cases s) (simp add: removeTcRules_def rules_removed_def Let_def)
next
  case True
  then show ?thesis
    by (simp add: removeTcRules_def rules_removed_def net_exec_def executeCommand_def
        tc_effect_def Let_def)
qed

lemma removeTcRules_idem: "removeTcRules (removeTcRules s) = removeTcRules s"
  by (simp add: removeTcRules_state rules_removed_def Let_def)

lemma removeTcRules_commute:
  "removeTcRules (s\<lparr>net_thread := w\<rparr>) = (removeTcRules s)\<lparr>net_thread := w\<rparr>"
  "removeTcRules (s\<lparr>running := b\<rparr>) = (removeTcRules s)\<lparr>running := b\<rparr>"
  by (simp_all add: removeTcRules_state rules_removed_def Let_def)

lemma net_join_idle_state:
  assumes "\<not> running s" and "net_thread s \<noteq> NSpawned" and "net_join ts s = Inr s'"
  shows "s' = s\<lparr>net_thread := NNoThread\<rparr> \<or> s' = (removeTcRules s)\<lparr>net_thread := NNoThread\<rparr>"
proof (cases "net_thread s")
  case NNoThread
  then show ?thesis using assms(3) by (auto simp: net_join.simps [of ts])
next
  case NSpawned
  then show ?thesis using assms(2) by simp
next
  case (NWait e)
  show ?thesis
  proof (cases ts)
    case Nil
    then show ?thesis using assms(3) NWait by (simp add: net_join.simps)
  next
    case (Cons t ts')
    then show ?thesis
      using assms(1,3) NWait
      by (simp add: net_join.simps [of "t # ts'"] net_join.simps [of ts'] net_worker_step_def
          markStopped_idle)
  qed
next
  case NExited
  then show ?thesis using assms(3) by (auto simp: net_join.simps [of ts])
qed

lemma net_stop_state:
  assumes "NetworkStressor_stop ts s = Inr s'" and "net_thread s \<noteq> NSpawned"
  shows "s' = s\<lparr>running := False, net_thread := NNoThread, tcRulesApplied := False,
               net_shell := rules_removed s\<rparr>"
proof -
  let ?s1 = "s\<lparr>running := False\<rparr>"
  obtain s2 where j: "net_join ts ?s1 = Inr s2" and s': "s' = removeTcRules s2"
    using assms(1) unfolding NetworkStressor_stop_def Let_def stop_flag
    by (auto split: sum.splits)
  have "s2 = ?s1\<lparr>net_thread := NNoThread\<rparr> \<or> s2 = (removeTcRules ?s1)\<lparr>net_thread := NNoThread\<rparr>"
    by (rule net_join_idle_state [OF _ _ j]) (use assms(2) in simp_all)
  then have "s' = (removeTcRules s)\<lparr>running := False, net_thread := NNoThread\<rparr>"
    using s' by (auto simp: removeTcRules_commute removeTcRules_idem)
  then show ?thesis by (simp add: removeTcRules_state)
qed

lemma net_stop_returned:
  assumes "net_thread s = NExited \<or> net_thread s = NNoThread"
  shows "NetworkStressor_stop ts s
         = Inr (s\<lparr>running := False, net_thread := NNoThread, tcRulesApplied := False,
                  net_shell := rules_removed s\<rparr>)"
proof -
  have "\<exists>r. NetworkStressor_stop ts s = Inr r"
    using assms unfolding NetworkStressor_stop_def Let_def stop_flag
    by (auto simp: net_join.simps)
  then show ?thesis using net_stop_state assms by force
qed

lemma net_exec_ok:
  assumes "\<forall>c. tc_ok (net_shell s) c" and "net_exec c s = (b, s1)"
  shows "b" and "\<forall>c. tc_ok (net_shell s1) c" and "net_config s1 = net_config s"
    and "tcRulesApplied s1 = tcRulesApplied s"
  using assms by (auto simp: net_exec_def executeCommand_def Let_def)

lemma removeTcRules_ok:
  assumes "\<forall>c. tc_ok (net_shell s) c"
  shows "\<forall>c. tc_ok (net_shell (removeTcRules s)) c" and "net_config (removeTcRules s) = net_config s"
  using assms by (simp_all add: removeTcRules_state rules_removed_def Let_def)

lemma apply_netem_ok:
  assumes "\<forall>c. tc_ok (net_shell s) c" and "apply_netem s = (b, s1)"
  shows "b \<and> tcRulesApplied s1 \<and> (\<forall>c. tc_ok (net_shell s1) c) \<and> net_config s1 = net_config s"
proof (cases "latencyMs (net_config s) > 0 \<or> packetLossPercent (net_config s) > 0")
  case False
  then show ?thesis using assms by (auto simp: apply_netem_def Let_def)
next
  case True
  obtain b2 s2 where e: "net_exec (QdiscAddNetem (targetInterface (net_config s))
      (bandwidthLimitKbps (net_config s) > 0) (latencyMs (net_config s))
      (packetLossPercent (net_config s))) s = (b2, s2)"
    by (cases "net_exec (QdiscAddNetem (targetInterface (net_config s))
      (bandwidthLimitKbps (net_config s) > 0) (latencyMs (net_config s))
      (packetLossPercent (net_config s))) s") auto
  note f = net_exec_ok [OF assms(1) e]
  show ?thesis using assms(2) True e f by (auto simp: apply_netem_def Let_def)
qed

lemma applyTcRules_ok:
  assumes "\<forall>c. tc_ok (net_shell s) c" and "applyTcRules s = (b, s1)"
  shows "b \<and> tcRulesApplied s1 \<and> (\<forall>c. tc_ok (net_shell s1) c) \<and> net_config s1 = net_config s"
proof -
  let ?s0 = "removeTcRules s"
  note r = removeTcRules_ok [OF assms(1)]
  show ?thesis
  proof (cases "bandwidthLimitKbps (net_config s) = 0 \<and> latencyMs (net_config s) = 0
                \<and> packetLossPercent (net_config s) = 0")
    case True
    then show ?thesis using assms(2) r by (auto simp: applyTcRules_def Let_def)
  next
    case nz: False
    show ?thesis
    proof (cases "bandwidthLimitKbps (net_config s) > 0")
      case False
      then have "apply_netem ?s0 = (b, s1)"
        using assms(2) nz by (auto simp: applyTcRules_def Let_def)
      from apply_netem_ok [OF r(1) this] show ?thesis using r(2) by simp
    next
      case True
      obtain b1 t1 where e1: "net_exec (QdiscAddRootHtb (targetInterface (net_config s))) ?s0 = (b1, t1)"
        by (cases "net_exec (QdiscAddRootHtb (targetInterface (net_config s))) ?s0") auto
      note f1 = net_exec_ok [OF r(1) e1]
      obtain b2 t2 where e2: "net_exec (ClassAddHtb (targetInterface (net_config s))
          (bandwidthLimitKbps (net_config s))) t1 = (b2, t2)"
        by (cases "net_exec (ClassAddHtb (targetInterface (net_config s))
          (bandwidthLimitKbps (net_config s))) t1") auto
      note f2 = net_exec_ok [OF f1(2) e2]
      have "apply_netem t2 = (b, s1)"
        using assms(2) True nz e1 e2 f1(1) f2(1) by (simp add: applyTcRules_def Let_def)
      from apply_netem_ok [OF f2(2) this] show ?thesis using f2(3) f1(3) r(2) by simp
    qed
  qed
qed

lemma net_stop_spawned:
  assumes "NetworkStressor_stop ts s = Inr s'" and "net_thread s = NSpawned"
    and "\<forall>c. tc_ok (net_shell s) c"
  shows "shaping (net_shell s') (targetInterface (net_config s)) = []"
proof -
  let ?s1 = "s\<lparr>running := False\<rparr>"
  obtain s2 where j: "net_join ts ?s1 = Inr s2" and s': "s' = removeTcRules s2"
    using assms(1) unfolding NetworkStressor_stop_def Let_def stop_flag
    by (auto split: sum.splits)
  obtain t ts' where ts: "ts = t # ts'"
    using j assms(2) by (cases ts) (auto simp: net_join.simps)
  obtain b sa where a: "applyTcRules ?s1 = (b, sa)" by (cases "applyTcRules ?s1") auto
  have ok: "b \<and> tcRulesApplied sa \<and> (\<forall>c. tc_ok (net_shell sa) c) \<and> net_config sa = net_config ?s1"
    by (rule applyTcRules_ok [OF _ a]) (use assms(3) in simp)
  have f: "running sa = running ?s1" "net_thread sa = net_thread ?s1"
    using applyTcRules_fields [of ?s1] a by simp_all
  let ?s3 = "sa\<lparr>net_thread := NWait (long_add (startTimeMs ?s1) (durationMs ?s1))\<rparr>"
  have st: "net_worker_step t ?s1 = ?s3"
    using a ok assms(2) by (simp add: net_worker_step_def)
  have j2: "net_join ts' ?s3 = Inr s2"
    using j ts st assms(2) by (simp add: net_join.simps [of "t # ts'"])
  have idle: "\<not> running ?s3" using f by simp
  have "s2 = ?s3\<lparr>net_thread := NNoThread\<rparr> \<or> s2 = (removeTcRules ?s3)\<lparr>net_thread := NNoThread\<rparr>"
    by (rule net_join_idle_state [OF idle _ j2]) simp
  moreover have "ts' \<noteq> []" using j2 by (auto simp: net_join.simps [of "[]"])
  ultimately have "s' = (removeTcRules ?s3)\<lparr>net_thread := NNoThread\<rparr>"
    using s' by (auto simp: removeTcRules_commute removeTcRules_idem)
  then show ?thesis using ok by (simp add: removeTcRules_state rules_removed_def Let_def)
qed

lemma restore_written_back:
  assumes "distinct (map fst snap)"
  shows "restore_entries snap fs = written_back snap fs"
  using assms
proof (induction snap arbitrary: fs)
  case Nil
  then show ?case by (simp add: written_back_def)
next
  case (Cons kv snap)
  obtain k v where kv: "kv = (k, v)" by (cases kv)
  have nk: "map_of snap k = None" using Cons.prems kv by (simp add: map_of_eq_None_iff)
  have "restore_entries (kv # snap) fs = written_back snap (snd (writeSysFile k v fs))"
    using Cons kv by simp
  also have "\<dots> = written_back (kv # snap) fs"
    using nk kv
    by (auto simp: written_back_def writeSysFile_def fun_eq_iff split: option.splits)
  finally show ?case .
qed

lemma thm_join_idle_state:
  assumes "\<not> running s" and "thm_thread s \<noteq> TSpawned" and "thm_join ts s = Inr s'"
  shows "s' = s\<lparr>thm_thread := TNoThread\<rparr>"
proof (cases "thm_thread s")
  case TNoThread
  then show ?thesis using assms(3) by (auto simp: thm_join.simps [of ts])
next
  case TSpawned
  then show ?thesis using assms(2) by simp
next
  case (TLoop e)
  show ?thesis
  proof (cases ts)
    case Nil
    then show ?thesis using assms(3) TLoop by (simp add: thm_join.simps)
  next
    case (Cons t ts')
    then show ?thesis
      using assms(1,3) TLoop
      by (simp add: thm_join.simps [of "t # ts'"] thm_join.simps [of ts'] thm_worker_step_def
          markStopped_idle)
  qed
next
  case TExited
  then show ?thesis using assms(3) by (auto simp: thm_join.simps [of ts])
qed

lemma thm_stop_state:
  assumes "ThermalStressor_stop ts s = Inr s'" and "thm_thread s \<noteq> TSpawned"
    and "distinct (map fst (thm_originalSettings s))"
  shows "s' = s\<lparr>running := False, thm_thread := TNoThread, thm_originalSettings := [],
               thm_sysfs := written_back (thm_originalSettings s) (thm_sysfs s)\<rparr>"
proof -
  let ?s1 = "s\<lparr>running := False\<rparr>"
  obtain s2 where j: "thm_join ts ?s1 = Inr s2" and s': "s' = restoreSettings s2"
    using assms(1) unfolding ThermalStressor_stop_def Let_def stop_flag
    by (auto split: sum.splits)
  have "s2 = ?s1\<lparr>thm_thread := TNoThread\<rparr>"
    by (rule thm_join_idle_state [OF _ _ j]) (use assms(2) in simp_all)
  then show ?thesis
    using s' assms(3) by (simp add: restoreSettings_def restore_written_back)
qed

lemma thm_stop_returned:
  assumes "thm_thread s = TExited \<or> thm_thread s = TNoThread"
    and "distinct (map fst (thm_originalSettings s))"
  shows "ThermalStressor_stop ts s
         = Inr (s\<lparr>running := False, thm_thread := TNoThread, thm_originalSettings := [],
                  thm_sysfs := written_back (thm_originalSettings s) (thm_sysfs s)\<rparr>)"
proof -
  have "\<exists>r. ThermalStressor_stop ts s = Inr r"
    using assms(1) unfolding ThermalStressor_stop_def Let_def stop_flag
    by (auto simp: thm_join.simps)
  then show ?thesis using thm_stop_state assms by force
qed

lemma thm_stop_spawned:
  assumes "ThermalStressor_stop ts s = Inr s'" and "thm_thread s = TSpawned"
  shows "\<exists>sa. applySettings (s\<lparr>running := False\<rparr>) = Inr sa \<and>
           (distinct (map fst (thm_originalSettings sa)) \<longrightarrow>
            s' = sa\<lparr>thm_thread := TNoThread, thm_originalSettings := [],
                    thm_sysfs := written_back (thm_originalSettings sa) (thm_sysfs sa)\<rparr>)"
proof -
  let ?s1 = "s\<lparr>running := False\<rparr>"
  obtain s2 where j: "thm_join ts ?s1 = Inr s2" and s': "s' = restoreSettings s2"
    using assms(1) unfolding ThermalStressor_stop_def Let_def stop_flag
    by (auto split: sum.splits)
  obtain t ts' where ts: "ts = t # ts'"
    using j assms(2) by (cases ts) (auto simp: thm_join.simps)
  obtain s3 where st: "thm_worker_step t ?s1 = Inr s3" and j2: "thm_join ts' s3 = Inr s2"
    using j ts assms(2) by (auto simp: thm_join.simps [of "t # ts'"] split: sum.splits)
  obtain sa where a: "applySettings ?s1 = Inr sa"
    and s3: "s3 = sa\<lparr>thm_thread := TLoop (long_add (startTimeMs ?s1) (durationMs ?s1))\<rparr>"
    using st assms(2) by (auto simp: thm_worker_step_def split: sum.splits)
  have f: "\<not> running sa" using applySettings_fields(1) [OF a] by simp
  have "s2 = s3\<lparr>thm_thread := TNoThread\<rparr>"
    by (rule thm_join_idle_state [OF _ _ j2]) (use s3 f in simp_all)
  then have "s' = restoreSettings (sa\<lparr>thm_thread := TNoThread\<rparr>)" using s' s3 by simp
  then show ?thesis using a by (auto simp: restoreSettings_def restore_written_back)
qed

lemma thm_write_keys: "thm_originalSettings (thm_write p v s) = thm_originalSettings s"
  by (simp add: thm_write_def)

lemma thm_save_keys:
  "sorted_wrt (<) (map fst (thm_originalSettings s)) \<Longrightarrow>
   sorted_wrt (<) (map fst (thm_originalSettings (thm_save p v s)))"
  by (simp add: thm_save_def smap_put_sorted)

lemma force_online_keys:
  "sorted_wrt (<) (map fst (thm_originalSettings s)) \<Longrightarrow>
   sorted_wrt (<) (map fst (thm_originalSettings (force_online cpu s)))"
  by (simp add: force_online_def setCoreOnline_def thm_write_keys thm_save_keys Let_def)

lemma force_online_fold_keys:
  "sorted_wrt (<) (map fst (thm_originalSettings s)) \<Longrightarrow>
   sorted_wrt (<) (map fst (thm_originalSettings (foldl (\<lambda>st cpu. force_online cpu st) s cpus)))"
  by (induction cpus arbitrary: s) (simp_all add: force_online_keys)

lemma tune_core_keys:
  assumes "tune_core pct cpu s = Inr s'" and "sorted_wrt (<) (map fst (thm_originalSettings s))"
  shows "sorted_wrt (<) (map fst (thm_originalSettings s'))"
proof (cases "isCoreOnline (thm_sysfs s) cpu")
  case False
  then show ?thesis using assms by (simp add: tune_core_def)
next
  case True
  define s1 where "s1 = (if getCpuGovernor (thm_sysfs s) cpu \<noteq> []
    then thm_save (cpu_file cpu ''/cpufreq/scaling_governor'') (getCpuGovernor (thm_sysfs s) cpu) s
    else s)"
  define s2 where "s2 = setCpuGovernor cpu ''performance'' s1"
  have f2: "sorted_wrt (<) (map fst (thm_originalSettings s2))"
    using assms(2) by (simp add: s2_def s1_def setCpuGovernor_def thm_write_keys thm_save_keys)
  have "s2 = s' \<or> (\<exists>p v f. ThermalStressor_setMaxFrequency cpu f (thm_save p v s2) = s')"
    using assms(1) True unfolding tune_core_def Let_def s2_def s1_def
    by (simp split: sum.splits if_splits) blast+
  then show ?thesis
    using f2 by (auto simp: ThermalStressor_setMaxFrequency_def thm_write_keys thm_save_keys)
qed

lemma tune_cores_keys:
  assumes "tune_cores pct cpus s = Inr s'" and "sorted_wrt (<) (map fst (thm_originalSettings s))"
  shows "sorted_wrt (<) (map fst (thm_originalSettings s'))"
  using assms
proof (induction cpus arbitrary: s)
  case Nil
  then show ?case by simp
next
  case (Cons c cs)
  obtain s1 where a: "tune_core pct c s = Inr s1" and b: "tune_cores pct cs s1 = Inr s'"
    using Cons.prems(1) by (auto split: sum.splits)
  show ?case using Cons.IH [OF b tune_core_keys [OF a Cons.prems(2)]] .
qed

lemma applySettings_keys:
  assumes "applySettings s = Inr s'" and "sorted_wrt (<) (map fst (thm_originalSettings s))"
  shows "sorted_wrt (<) (map fst (thm_originalSettings s'))"
  using assms tune_cores_keys [of _ _ _ s'] force_online_fold_keys [OF assms(2)]
  by (auto simp: applySettings_def Let_def split: if_splits)

lemma thm_stop_spawned_state:
  assumes "ThermalStressor_stop ts s = Inr s'" and "thm_thread s = TSpawned"
    and "sorted_wrt (<) (map fst (thm_originalSettings s))"
  shows "\<exists>sa. applySettings (s\<lparr>running := False\<rparr>) = Inr sa \<and>
            s' = sa\<lparr>thm_thread := TNoThread, thm_originalSettings := [],
                    thm_sysfs := written_back (thm_originalSettings sa) (thm_sysfs sa)\<rparr>"
proof -
  obtain sa where a: "applySettings (s\<lparr>running := False\<rparr>) = Inr sa"
    and b: "distinct (map fst (thm_originalSettings sa)) \<longrightarrow>
            s' = sa\<lparr>thm_thread := TNoThread, thm_originalSettings := [],
                    thm_sysfs := written_back (thm_originalSettings sa) (thm_sysfs sa)\<rparr>"
    using thm_stop_spawned [OF assms(1,2)] by blast
  have "sorted_wrt (<) (map fst (thm_originalSettings sa))"
    by (rule applySettings_keys [OF a]) (use assms(3) in simp)
  then show ?thesis using a b sorted_keys_distinct by blast
qed

lemma mem_stop_pending:
  assumes "mem_thread s \<noteq> MNoThread" and "mem_thread s \<noteq> MExited"
  shows "MemoryStressor_stop [] s = Inl JoinPending"
  using assms by (simp add: MemoryStressor_stop_def markStopped_def mem_join.simps)

lemma disk_stop_pending:
  assumes "disk_thread s \<noteq> DNoThread" and "disk_thread s \<noteq> DExited"
  shows "DiskStressor_stop [] s = Inl JoinPending"
  using assms by (simp add: DiskStressor_stop_def markStopped_def disk_join.simps)

lemma net_stop_pending:
  assumes "net_thread s \<noteq> NNoThread" and "net_thread s \<noteq> NExited"
  shows "NetworkStressor_stop [] s = Inl JoinPending"
  using assms by (simp add: NetworkStressor_stop_def markStopped_def net_join.simps)

lemma thm_stop_pending:
  assumes "thm_thread s \<noteq> TNoThread" and "thm_thread s \<noteq> TExited"
  shows "ThermalStressor_stop [] s = Inl JoinPending"
  using assms by (simp add: ThermalStressor_stop_def markStopped_def thm_join.simps)

lemma net_stop_spawned_state:
  assumes "NetworkStressor_stop ts s = Inr s'" and "net_thread s = NSpawned"
  shows "s' = (snd (applyTcRules (s\<lparr>running := False\<rparr>)))
               \<lparr>net_thread := NNoThread, tcRulesApplied := False,
                net_shell := rules_removed (snd (applyTcRules (s\<lparr>running := False\<rparr>)))\<rparr>"
proof -
  let ?s1 = "s\<lparr>running := False\<rparr>"
  obtain s2 where j: "net_join ts ?s1 = Inr s2" and s': "s' = removeTcRules s2"
    using assms(1) unfolding NetworkStressor_stop_def Let_def stop_flag
    by (auto split: sum.splits)
  obtain t ts' where ts: "ts = t # ts'"
    using j assms(2) by (cases ts) (auto simp: net_join.simps)
  obtain b sa where a: "applyTcRules ?s1 = (b, sa)" by (cases "applyTcRules ?s1") auto
  have f: "\<not> running sa" "net_thread sa = NSpawned"
    using applyTcRules_fields [of ?s1] a assms(2) by simp_all
  have "s' = (removeTcRules sa)\<lparr>net_thread := NNoThread\<rparr>"
  proof (cases b)
    case False
    have "net_worker_step t ?s1 = sa\<lparr>net_thread := NExited\<rparr>"
      using a False assms(2) f by (simp add: net_worker_step_def markStopped_idle)
    then have "s2 = sa\<lparr>net_thread := NNoThread\<rparr>"
      using j ts assms(2) by (simp add: net_join.simps [of "t # ts'"] net_join.simps [of ts'])
    then show ?thesis using s' by (simp add: removeTcRules_commute)
  next
    case True
    let ?s3 = "sa\<lparr>net_thread := NWait (long_add (startTimeMs ?s1) (durationMs ?s1))\<rparr>"
    have "net_worker_step t ?s1 = ?s3"
      using a True assms(2) by (simp add: net_worker_step_def)
    then have j2: "net_join ts' ?s3 = Inr s2"
      using j ts assms(2) by (simp add: net_join.simps [of "t # ts'"])
    have "s2 = ?s3\<lparr>net_thread := NNoThread\<rparr>
          \<or> s2 = (removeTcRules ?s3)\<lparr>net_thread := NNoThread\<rparr>"
      by (rule net_join_idle_state [OF _ _ j2]) (use f in simp_all)
    then show ?thesis
      using s' by (auto simp: removeTcRules_commute removeTcRules_idem)
  qed
  then show ?thesis using a by (simp add: removeTcRules_state)
qed

lemma disk_stop_returns_iff:
  assumes "2 \<le> length ts"
  shows "(\<exists>r. DiskStressor_stop ts s = Inr r) \<longleftrightarrow>
         disk_thread s \<noteq> DSpawned
         \<or> buffer_ok (disk_fs s) (size_t_wrap (size_t_wrap (chunkSizeKB (disk_config s)) * 1024))"
proof -
  let ?s1 = "s\<lparr>running := False\<rparr>"
  obtain t1 t2 ts' where ts: "ts = t1 # t2 # ts'"
    using assms by (cases ts; cases "tl ts") auto
  show ?thesis
  proof (cases "disk_thread s")
    case DNoThread
    then show ?thesis
      unfolding DiskStressor_stop_def Let_def stop_flag by (simp add: disk_join.simps)
  next
    case DExited
    then show ?thesis
      unfolding DiskStressor_stop_def Let_def stop_flag by (simp add: disk_join.simps)
  next
    case (DLoop l)
    then show ?thesis
      unfolding DiskStressor_stop_def Let_def stop_flag ts
      by (simp add: disk_join.simps [of "t1 # t2 # ts'"] disk_join.simps [of "t2 # ts'"]
          disk_worker_step_def cleanup_fields)
  next
    case DSpawned
    then show ?thesis
      unfolding DiskStressor_stop_def Let_def stop_flag ts
      by (simp add: disk_join.simps [of "t1 # t2 # ts'"] disk_join.simps [of "t2 # ts'"]
          disk_join.simps [of ts'] disk_worker_step_def cleanup_fields)
  qed
qed

lemma thm_stop_returns_iff:
  assumes "2 \<le> length ts"
  shows "(\<exists>r. ThermalStressor_stop ts s = Inr r) \<longleftrightarrow>
         thm_thread s \<noteq> TSpawned \<or> \<not> isl (applySettings (s\<lparr>running := False\<rparr>))"
proof -
  let ?s1 = "s\<lparr>running := False\<rparr>"
  obtain t1 t2 ts' where ts: "ts = t1 # t2 # ts'"
    using assms by (cases ts; cases "tl ts") auto
  show ?thesis
  proof (cases "thm_thread s")
    case TNoThread
    then show ?thesis
      unfolding ThermalStressor_stop_def Let_def stop_flag by (simp add: thm_join.simps)
  next
    case TExited
    then show ?thesis
      unfolding ThermalStressor_stop_def Let_def stop_flag by (simp add: thm_join.simps)
  next
    case (TLoop e)
    then show ?thesis
      unfolding ThermalStressor_stop_def Let_def stop_flag ts
      by (simp add: thm_join.simps [of "t1 # t2 # ts'"] thm_join.simps [of "t2 # ts'"]
          thm_worker_step_def markStopped_def)
  next
    case TSpawned
    show ?thesis
    proof (cases "applySettings ?s1")
      case (Inl e)
      then show ?thesis
        using TSpawned unfolding ThermalStressor_stop_def Let_def stop_flag ts
        by (simp add: thm_join.simps [of "t1 # t2 # ts'"] thm_worker_step_def)
    next
      case (Inr sa)
      have f: "\<not> running sa" "thm_thread sa = TSpawned"
        using applySettings_fields [OF Inr] TSpawned by simp_all
      show ?thesis
        using TSpawned Inr f unfolding ThermalStressor_stop_def Let_def stop_flag ts
        by (simp add: thm_join.simps [of "t1 # t2 # ts'"] thm_join.simps [of "t2 # ts'"]
            thm_join.simps [of ts'] thm_worker_step_def markStopped_def)
    qed
  qed
qed

text \<open>
  C6. For every generator \<open>stop()\<close> is idempotent: it joins the worker and runs the cleanup,
  also when the run has ended by itself, and a second \<open>stop\<close> changes nothing.

  A \<open>stop\<close> that returns leaves the generator as it was but for this: the flag is clear, the
  worker is joined, and the cleanup is done. For the memory generator the cleanup is
  \<open>releaseMemory\<close>, after which the allocation list is empty and, every block the generator
  owns being on that list, so is the heap; for the disk generator every stress file of the
  test directory that can be unlinked is gone; for the network generator the root discipline
  of the interface is deleted if the rules are recorded as applied; when \<open>stop\<close> comes
  before the worker has applied the rules, the worker applies them first and the same holds
  of the state it leaves, and if every command succeeds no rule is left on the interface; for the thermal generator every entry of the snapshot is written back to its
  file, also when \<open>stop\<close> comes before the worker has applied the settings, and the snapshot is
  empty. A second \<open>stop\<close> on the state the first one leaves returns that same state.

  When the worker has returned already, or there is none, \<open>stop\<close> returns at once with that
  same result. While a worker has not returned, \<open>stop\<close> waits in \<open>join()\<close> and does not return
  before the worker takes a turn. It does not stay there: given the turns the worker needs to
  notice the cleared flag (two per CPU worker, three for the memory worker, two for the
  others) it returns, but for one case: a disk worker that has not started yet and cannot
  allocate its buffer, or a thermal worker that has not started yet and meets a frequency file
  it cannot parse, ends the process with an exception.
\<close>

theorem stop_is_idempotent:
  "(CPUStressor_stop cts c = Inr c' \<longrightarrow>
      c' = c\<lparr>running := False, workerThreads := []\<rparr> \<and> CPUStressor_stop cts2 c' = Inr c') \<and>
   ((\<forall>w \<in> set (workerThreads c). w = CExited) \<longrightarrow>
      CPUStressor_stop cts c = Inr (c\<lparr>running := False, workerThreads := []\<rparr>)) \<and>
   ((\<exists>w \<in> set (workerThreads c). w \<noteq> CExited) \<longrightarrow> CPUStressor_stop [] c = Inl JoinPending) \<and>
   (2 * length (workerThreads c) \<le> length cts \<longrightarrow> (\<exists>r. CPUStressor_stop cts c = Inr r)) \<and>
   (MemoryStressor_stop mts m = Inr m' \<longrightarrow>
      m' = (releaseMemory m)\<lparr>running := False, mem_thread := MNoThread\<rparr> \<and>
      allocations m' = [] \<and>
      (map fst (heap m) = allocations m \<longrightarrow> heap m' = []) \<and>
      MemoryStressor_stop mts2 m' = Inr m') \<and>
   (mem_thread m = MExited \<or> mem_thread m = MNoThread \<longrightarrow>
      MemoryStressor_stop mts m
        = Inr ((releaseMemory m)\<lparr>running := False, mem_thread := MNoThread\<rparr>)) \<and>
   (mem_thread m \<noteq> MExited \<and> mem_thread m \<noteq> MNoThread \<longrightarrow>
      MemoryStressor_stop [] m = Inl JoinPending) \<and>
   (3 \<le> length mts \<longrightarrow> (\<exists>r. MemoryStressor_stop mts m = Inr r)) \<and>
   (DiskStressor_stop dts d = Inr d' \<longrightarrow>
      d' = d\<lparr>running := False, disk_thread := DNoThread,
              disk_fs := swept (testPath (disk_config d)) (disk_fs d)\<rparr> \<and>
      DiskStressor_stop dts2 d' = Inr d') \<and>
   (disk_thread d = DExited \<or> disk_thread d = DNoThread \<longrightarrow>
      DiskStressor_stop dts d
        = Inr (d\<lparr>running := False, disk_thread := DNoThread,
                 disk_fs := swept (testPath (disk_config d)) (disk_fs d)\<rparr>)) \<and>
   (disk_thread d \<noteq> DExited \<and> disk_thread d \<noteq> DNoThread \<longrightarrow>
      DiskStressor_stop [] d = Inl JoinPending) \<and>
   (2 \<le> length dts \<longrightarrow>
      DiskStressor_stop dts d \<noteq> Inl JoinPending \<and>
      ((\<exists>r. DiskStressor_stop dts d = Inr r) \<longleftrightarrow>
         disk_thread d \<noteq> DSpawned
         \<or> buffer_ok (disk_fs d) (size_t_wrap (size_t_wrap (chunkSizeKB (disk_config d)) * 1024)))) \<and>
   (NetworkStressor_stop nts n = Inr n' \<longrightarrow>
      net_thread n' = NNoThread \<and> \<not> running n' \<and> \<not> tcRulesApplied n' \<and>
      (net_thread n \<noteq> NSpawned \<longrightarrow>
         n' = n\<lparr>running := False, net_thread := NNoThread, tcRulesApplied := False,
                 net_shell := rules_removed n\<rparr>) \<and>
      (net_thread n = NSpawned \<longrightarrow>
         n' = (snd (applyTcRules (n\<lparr>running := False\<rparr>)))
                \<lparr>net_thread := NNoThread, tcRulesApplied := False,
                 net_shell := rules_removed (snd (applyTcRules (n\<lparr>running := False\<rparr>)))\<rparr>) \<and>
      (net_thread n = NSpawned \<and> (\<forall>k. tc_ok (net_shell n) k) \<longrightarrow>
         shaping (net_shell n') (targetInterface (net_config n)) = []) \<and>
      NetworkStressor_stop nts2 n' = Inr n') \<and>
   (net_thread n = NExited \<or> net_thread n = NNoThread \<longrightarrow>
      NetworkStressor_stop nts n
        = Inr (n\<lparr>running := False, net_thread := NNoThread, tcRulesApplied := False,
                 net_shell := rules_removed n\<rparr>)) \<and>
   (net_thread n \<noteq> NExited \<and> net_thread n \<noteq> NNoThread \<longrightarrow>
      NetworkStressor_stop [] n = Inl JoinPending) \<and>
   (2 \<le> length nts \<longrightarrow> (\<exists>r. NetworkStressor_stop nts n = Inr r)) \<and>
   (ThermalStressor_stop tts t = Inr t' \<longrightarrow>
      thm_thread t' = TNoThread \<and> \<not> running t' \<and> thm_originalSettings t' = [] \<and>
      (thm_thread t \<noteq> TSpawned \<and> sorted_wrt (<) (map fst (thm_originalSettings t)) \<longrightarrow>
         t' = t\<lparr>running := False, thm_thread := TNoThread, thm_originalSettings := [],
                 thm_sysfs := written_back (thm_originalSettings t) (thm_sysfs t)\<rparr>) \<and>
      (thm_thread t = TSpawned \<and> sorted_wrt (<) (map fst (thm_originalSettings t)) \<longrightarrow>
         (\<exists>ta. applySettings (t\<lparr>running := False\<rparr>) = Inr ta \<and>
            t' = ta\<lparr>thm_thread := TNoThread, thm_originalSettings := [],
                     thm_sysfs := written_back (thm_originalSettings ta) (thm_sysfs ta)\<rparr>)) \<and>
      ThermalStressor_stop tts2 t' = Inr t') \<and>
   ((thm_thread t = TExited \<or> thm_thread t = TNoThread)
      \<and> sorted_wrt (<) (map fst (thm_originalSettings t)) \<longrightarrow>
      ThermalStressor_stop tts t
        = Inr (t\<lparr>running := False, thm_thread := TNoThread, thm_originalSettings := [],
                 thm_sysfs := written_back (thm_originalSettings t) (thm_sysfs t)\<rparr>)) \<and>
   (thm_thread t \<noteq> TExited \<and> thm_thread t \<noteq> TNoThread \<longrightarrow>
      ThermalStressor_stop [] t = Inl JoinPending) \<and>
   (2 \<le> length tts \<longrightarrow>
      ThermalStressor_stop tts t \<noteq> Inl JoinPending \<and>
      ((\<exists>r. ThermalStressor_stop tts t = Inr r) \<longleftrightarrow>
         thm_thread t \<noteq> TSpawned \<or> \<not> isl (applySettings (t\<lparr>running := False\<rparr>))))"
proof -
  have c1: "CPUStressor_stop cts c = Inr c' \<longrightarrow>
      c' = c\<lparr>running := False, workerThreads := []\<rparr> \<and> CPUStressor_stop cts2 c' = Inr c'"
    using cpu_stop_post [of cts c c'] cpu_stop_state [of cts c c']
    by (simp add: cpu_stop_again)
  have c2: "(\<forall>w \<in> set (workerThreads c). w = CExited) \<longrightarrow>
      CPUStressor_stop cts c = Inr (c\<lparr>running := False, workerThreads := []\<rparr>)"
    using cpu_stop_returned by blast
  have c3: "(\<exists>w \<in> set (workerThreads c). w \<noteq> CExited) \<longrightarrow>
      CPUStressor_stop [] c = Inl JoinPending"
    using cpu_stop_waits by blast
  have c4: "2 * length (workerThreads c) \<le> length cts \<longrightarrow> (\<exists>r. CPUStressor_stop cts c = Inr r)"
    using cpu_stop_returns by blast
  have m1: "MemoryStressor_stop mts m = Inr m' \<longrightarrow>
      m' = (releaseMemory m)\<lparr>running := False, mem_thread := MNoThread\<rparr> \<and>
      allocations m' = [] \<and>
      (map fst (heap m) = allocations m \<longrightarrow> heap m' = []) \<and>
      MemoryStressor_stop mts2 m' = Inr m'"
    using mem_stop_post [of mts m m'] mem_stop_state [of mts m m'] mem_stop_heap [of mts m m']
    by (simp add: mem_stop_again)
  have m2: "mem_thread m = MExited \<or> mem_thread m = MNoThread \<longrightarrow>
      MemoryStressor_stop mts m
        = Inr ((releaseMemory m)\<lparr>running := False, mem_thread := MNoThread\<rparr>)"
    using mem_stop_returned by blast
  have m3: "mem_thread m \<noteq> MExited \<and> mem_thread m \<noteq> MNoThread \<longrightarrow>
      MemoryStressor_stop [] m = Inl JoinPending"
    using mem_stop_pending by blast
  have m4: "3 \<le> length mts \<longrightarrow> (\<exists>r. MemoryStressor_stop mts m = Inr r)"
    using mem_stop_returns by blast
  have d1: "DiskStressor_stop dts d = Inr d' \<longrightarrow>
      d' = d\<lparr>running := False, disk_thread := DNoThread,
              disk_fs := swept (testPath (disk_config d)) (disk_fs d)\<rparr> \<and>
      DiskStressor_stop dts2 d' = Inr d'"
    using disk_stop_post [of dts d d'] disk_stop_state [of dts d d']
    by (simp add: disk_stop_again)
  have d2: "disk_thread d = DExited \<or> disk_thread d = DNoThread \<longrightarrow>
      DiskStressor_stop dts d
        = Inr (d\<lparr>running := False, disk_thread := DNoThread,
                 disk_fs := swept (testPath (disk_config d)) (disk_fs d)\<rparr>)"
    using disk_stop_returned by blast
  have d3: "disk_thread d \<noteq> DExited \<and> disk_thread d \<noteq> DNoThread \<longrightarrow>
      DiskStressor_stop [] d = Inl JoinPending"
    using disk_stop_pending by blast
  have d4: "2 \<le> length dts \<longrightarrow>
      DiskStressor_stop dts d \<noteq> Inl JoinPending \<and>
      ((\<exists>r. DiskStressor_stop dts d = Inr r) \<longleftrightarrow>
         disk_thread d \<noteq> DSpawned
         \<or> buffer_ok (disk_fs d) (size_t_wrap (size_t_wrap (chunkSizeKB (disk_config d)) * 1024)))"
    using disk_stop_not_pending [of dts d] disk_stop_returns_iff [of dts d] by blast
  have n1: "NetworkStressor_stop nts n = Inr n' \<longrightarrow>
      net_thread n' = NNoThread \<and> \<not> running n' \<and> \<not> tcRulesApplied n' \<and>
      (net_thread n \<noteq> NSpawned \<longrightarrow>
         n' = n\<lparr>running := False, net_thread := NNoThread, tcRulesApplied := False,
                 net_shell := rules_removed n\<rparr>) \<and>
      (net_thread n = NSpawned \<longrightarrow>
         n' = (snd (applyTcRules (n\<lparr>running := False\<rparr>)))
                \<lparr>net_thread := NNoThread, tcRulesApplied := False,
                 net_shell := rules_removed (snd (applyTcRules (n\<lparr>running := False\<rparr>)))\<rparr>) \<and>
      (net_thread n = NSpawned \<and> (\<forall>k. tc_ok (net_shell n) k) \<longrightarrow>
         shaping (net_shell n') (targetInterface (net_config n)) = []) \<and>
      NetworkStressor_stop nts2 n' = Inr n'"
    using net_stop_post [of nts n n'] net_stop_state [of nts n n'] net_stop_spawned [of nts n n']
      net_stop_spawned_state [of nts n n']
    by (simp add: net_stop_again)
  have n2: "net_thread n = NExited \<or> net_thread n = NNoThread \<longrightarrow>
      NetworkStressor_stop nts n
        = Inr (n\<lparr>running := False, net_thread := NNoThread, tcRulesApplied := False,
                 net_shell := rules_removed n\<rparr>)"
    using net_stop_returned by blast
  have n3: "net_thread n \<noteq> NExited \<and> net_thread n \<noteq> NNoThread \<longrightarrow>
      NetworkStressor_stop [] n = Inl JoinPending"
    using net_stop_pending by blast
  have n4: "2 \<le> length nts \<longrightarrow> (\<exists>r. NetworkStressor_stop nts n = Inr r)"
    using net_stop_returns by blast
  have t1: "ThermalStressor_stop tts t = Inr t' \<longrightarrow>
      thm_thread t' = TNoThread \<and> \<not> running t' \<and> thm_originalSettings t' = [] \<and>
      (thm_thread t \<noteq> TSpawned \<and> sorted_wrt (<) (map fst (thm_originalSettings t)) \<longrightarrow>
         t' = t\<lparr>running := False, thm_thread := TNoThread, thm_originalSettings := [],
                 thm_sysfs := written_back (thm_originalSettings t) (thm_sysfs t)\<rparr>) \<and>
      (thm_thread t = TSpawned \<and> sorted_wrt (<) (map fst (thm_originalSettings t)) \<longrightarrow>
         (\<exists>ta. applySettings (t\<lparr>running := False\<rparr>) = Inr ta \<and>
            t' = ta\<lparr>thm_thread := TNoThread, thm_originalSettings := [],
                     thm_sysfs := written_back (thm_originalSettings ta) (thm_sysfs ta)\<rparr>)) \<and>
      ThermalStressor_stop tts2 t' = Inr t'"
    using thm_stop_post [of tts t t'] thm_stop_state [of tts t t']
      thm_stop_spawned_state [of tts t t'] sorted_keys_distinct [of "thm_originalSettings t"]
    by (simp add: thm_stop_again)
  have t2: "(thm_thread t = TExited \<or> thm_thread t = TNoThread)
      \<and> sorted_wrt (<) (map fst (thm_originalSettings t)) \<longrightarrow>
      ThermalStressor_stop tts t
        = Inr (t\<lparr>running := False, thm_thread := TNoThread, thm_originalSettings := [],
                 thm_sysfs := written_back (thm_originalSettings t) (thm_sysfs t)\<rparr>)"
    using thm_stop_returned sorted_keys_distinct by blast
  have t3: "thm_thread t \<noteq> TExited \<and> thm_thread t \<noteq> TNoThread \<longrightarrow>
      ThermalStressor_stop [] t = Inl JoinPending"
    using thm_stop_pending by blast
  have t4: "2 \<le> length tts \<longrightarrow>
      ThermalStressor_stop tts t \<noteq> Inl JoinPending \<and>
      ((\<exists>r. ThermalStressor_stop tts t = Inr r) \<longleftrightarrow>
         thm_thread t \<noteq> TSpawned \<or> \<not> isl (applySettings (t\<lparr>running := False\<rparr>)))"
    using thm_stop_not_pending [of tts t] thm_stop_returns_iff [of tts t] by blast
  note parts = c1 c2 c3 c4 m1 m2 m3 m4 d1 d2 d3 d4 n1 n2 n3 n4 t1 t2 t3 t4
  show ?thesis by (intro conjI) (rule parts)+
qed

lemma cpu_example_started_eq:
  "cpu_example_started =
      \<lparr>running = True, startTimeMs = 0, durationMs = 200,
       cpu_config = \<lparr>threadCount = 2, loadPercentage = 50, cpu_durationMs = 200,
                     pinToCores = False, targetCores = []\<rparr>,
       workerThreads = [CSpawned 0 (- 1), CSpawned 1 (- 1)], totalOpsCompleted = 0\<rparr>"
  by (simp add: cpu_example_started_def CPUStressor_start_def CPUStressor_init_def
      markStarted_def setDuration_def core_for_def CPUStressor_getNumCores_def Let_def
      numeral_2_eq_2)

lemma disk_example_started_eq:
  "disk_example_started =
      \<lparr>running = True, startTimeMs = 0, durationMs = 1000,
       disk_config = disk_config_example ''/data/local/tmp/danr_stress'',
       disk_thread = DSpawned, bytesWritten = 0, bytesRead = 0, disk_fs = diskfs_example\<rparr>"
  by (simp add: disk_example_started_def DiskStressor_start_def DiskStressor_init_def
      markStarted_def setDuration_def ensureDirectory_def diskfs_example_def
      disk_config_example_def Let_def)

lemma net_example_started_eq:
  "net_example_started =
      \<lparr>running = True, startTimeMs = 0, durationMs = 60000,
       net_config = net_config_example, net_thread = NSpawned, tcRulesApplied = False,
       net_shell = shell_class_fails\<rparr>"
  by (simp add: net_example_started_def NetworkStressor_start_def NetworkStressor_init_def
      markStarted_def setDuration_def checkTcAvailable_def shell_class_fails_def
      net_config_example_def)

lemma thm_example_started_eq:
  "thm_example_started =
      \<lparr>running = True, startTimeMs = 0, durationMs = 1000,
       thm_config = thm_config_example, thm_thread = TSpawned, thm_originalSettings = [],
       coresOnline = 0, totalCores = 1, thm_sysfs = sysfs_example\<rparr>"
  by (simp add: thm_example_started_def ThermalStressor_start_def ThermalStressor_init_def
      markStarted_def setDuration_def thm_config_example_def sysfs_example_def)

lemma cpu_example_facts:
  "CPUStressor_stop (replicate 4 (cpu_tick_example 5)) cpu_example_started = Inr cpu_example_stopped"
  "workerThreads cpu_example_expired = [CExited, CExited]"
  "\<not> running cpu_example_expired"
  "length (workerThreads cpu_example_started) = 2"
proof -
  note s = cpu_example_started_eq
  have "\<not> isl (CPUStressor_stop (replicate 4 (cpu_tick_example 5)) cpu_example_started)"
    unfolding s
    by (simp add: CPUStressor_stop_def markStopped_def cpu_join_worker.simps cpu_worker_step_def
        cpu_tick_example_def long_add_def long_wrap_def numeral_eq_Suc)
  then show "CPUStressor_stop (replicate 4 (cpu_tick_example 5)) cpu_example_started
             = Inr cpu_example_stopped"
    by (simp add: cpu_example_stopped_def)
  show "workerThreads cpu_example_expired = [CExited, CExited]" "\<not> running cpu_example_expired"
    unfolding cpu_example_expired_def s
    by (simp_all add: cpu_worker_step_def cpu_tick_example_def long_add_def long_wrap_def
        markStopped_def)
  show "length (workerThreads cpu_example_started) = 2" unfolding s by simp
qed

lemma mem_example_expired_facts:
  "mem_thread mem_example_expired = MExited" "\<not> running mem_example_expired"
  by (simp_all add: mem_example_expired_def mem_example_running_def mem_tick_example_def
      mem_worker_step_def markStopped_def releaseMemory_def Let_def)

lemma disk_example_facts:
  "DiskStressor_stop (replicate 2 (disk_tick_example 5)) disk_example_started
     = Inr disk_example_stopped"
  "disk_thread disk_example_expired = DExited" "\<not> running disk_example_expired"
proof -
  note s = disk_example_started_eq
  have "\<not> isl (DiskStressor_stop (replicate 2 (disk_tick_example 5)) disk_example_started)"
    unfolding s
    by (simp add: DiskStressor_stop_def markStopped_def disk_join.simps disk_worker_step_def
        disk_tick_example_def long_add_def long_wrap_def numeral_eq_Suc diskfs_example_def
        disk_config_example_def cleanup_def size_t_wrap_def Let_def)
  then show "DiskStressor_stop (replicate 2 (disk_tick_example 5)) disk_example_started
             = Inr disk_example_stopped"
    by (simp add: disk_example_stopped_def)
  show "disk_thread disk_example_expired = DExited" "\<not> running disk_example_expired"
    unfolding disk_example_expired_def s
    by (simp_all add: disk_worker_step_def disk_tick_example_def long_add_def long_wrap_def
        markStopped_def diskfs_example_def disk_config_example_def cleanup_def size_t_wrap_def
        Let_def)
qed

lemma thm_example_facts:
  "ThermalStressor_stop [5, 6] thm_example_started = Inr thm_example_stopped"
  "thm_thread thm_example_expired = TExited" "\<not> running thm_example_expired"
proof -
  note s = thm_example_started_eq
  have a: "\<not> isl (applySettings thm_example_started)"
    "\<not> isl (applySettings (markStopped thm_example_started))"
    unfolding s
    by (simp_all add: markStopped_def applySettings_def tune_core_def thm_config_example_def
      isCoreOnline_def getCpuGovernor_def cpu_file_def to_string_def nat_to_string.simps
      digit_char_def readSysFile_def sysfs_example_def trim_def getline_def is_blank_def
      thm_save_def setCpuGovernor_def thm_write_def writeSysFile_def getMaxFrequency_def
      getMinFrequency_def stol_def is_space_def is_digit_def dec_value_def long_range_def
      long_add_def long_sub_def long_wrap_def trunc_div_def ThermalStressor_setMaxFrequency_def
      Let_def)
  have st: "running thm_example_started" "thm_thread thm_example_started = TSpawned"
    "startTimeMs thm_example_started = 0" "durationMs thm_example_started = 1000"
    unfolding s by simp_all
  obtain s1 where s1: "applySettings thm_example_started = Inr s1"
    using a(1) by (cases "applySettings thm_example_started") auto
  obtain s2 where s2: "applySettings (markStopped thm_example_started) = Inr s2"
    using a(2) by (cases "applySettings (markStopped thm_example_started)") auto
  have f1: "running s1" "thm_thread s1 = TSpawned"
    using applySettings_fields [OF s1] st by simp_all
  have f2: "\<not> running s2" "thm_thread s2 = TSpawned"
    using applySettings_fields [OF s2] st by (simp_all add: markStopped_def)
  have "\<not> isl (ThermalStressor_stop [5, 6] thm_example_started)"
    using st s2 f2
    by (simp add: ThermalStressor_stop_def thm_join.simps thm_worker_step_def markStopped_def
        long_add_def long_wrap_def)
  then show "ThermalStressor_stop [5, 6] thm_example_started = Inr thm_example_stopped"
    by (simp add: thm_example_stopped_def)
  show "thm_thread thm_example_expired = TExited" "\<not> running thm_example_expired"
    using st s1 f1
    by (simp_all add: thm_example_expired_def thm_worker_step_def markStopped_def long_add_def
        long_wrap_def)
qed

lemma disk_example_busy_eq:
  "disk_example_busy =
      \<lparr>running = True, startTimeMs = 0, durationMs = 1000,
       disk_config = disk_config_example ''/data/local/tmp/danr_stress'',
       disk_thread = DLoop \<lparr>d_testPath = ''/data/local/tmp/danr_stress'', d_endTime = 1000,
                             d_fileCounter = 0, d_cycleStartTime = 1, d_bytesThisCycle = 0\<rparr>,
       bytesWritten = 0, bytesRead = 0, disk_fs = diskfs_leftover\<rparr>"
  by (simp add: disk_example_busy_def DiskStressor_start_def DiskStressor_init_def
      markStarted_def setDuration_def ensureDirectory_def diskfs_leftover_def diskfs_example_def
      disk_config_example_def disk_worker_step_def disk_tick_example_def size_t_wrap_def
      long_add_def long_wrap_def Let_def)

lemma disk_busy_facts:
  "DiskStressor_stop [disk_tick_example 5] disk_example_busy = Inr disk_busy_stopped"
  "listing (disk_fs disk_example_busy) ''/data/local/tmp/danr_stress''
     = [''stress_3.tmp'', ''notes.txt'']"
  "listing (swept (testPath (disk_config disk_example_busy)) (disk_fs disk_example_busy))
     ''/data/local/tmp/danr_stress'' = [''notes.txt'']"
  "disk_thread disk_example_busy \<noteq> DExited" "disk_thread disk_example_busy \<noteq> DNoThread"
proof -
  note s = disk_example_busy_eq
  have "\<not> isl (DiskStressor_stop [disk_tick_example 5] disk_example_busy)"
    unfolding s
    by (simp add: DiskStressor_stop_def markStopped_def disk_join.simps disk_worker_step_def
        disk_tick_example_def)
  then show "DiskStressor_stop [disk_tick_example 5] disk_example_busy = Inr disk_busy_stopped"
    by (simp add: disk_busy_stopped_def)
  show "listing (disk_fs disk_example_busy) ''/data/local/tmp/danr_stress''
     = [''stress_3.tmp'', ''notes.txt'']"
    unfolding s by (simp add: diskfs_leftover_def)
  show "listing (swept (testPath (disk_config disk_example_busy)) (disk_fs disk_example_busy))
     ''/data/local/tmp/danr_stress'' = [''notes.txt'']"
    unfolding s
    by (simp add: swept_def diskfs_leftover_def diskfs_example_def disk_config_example_def)
  show "disk_thread disk_example_busy \<noteq> DExited" "disk_thread disk_example_busy \<noteq> DNoThread"
    unfolding s by simp_all
qed

lemma disk_idle_facts:
  "disk_thread (DiskStressor_init diskfs_leftover) = DNoThread"
  "listing (swept (testPath (disk_config (DiskStressor_init diskfs_leftover)))
     (disk_fs (DiskStressor_init diskfs_leftover))) ''/data/local/tmp/danr_stress''
   = [''notes.txt'']"
  by (simp_all add: DiskStressor_init_def swept_def diskfs_leftover_def diskfs_example_def)

lemma net_shaped_started_eq:
  "net_shaped_started =
      \<lparr>running = True, startTimeMs = 0, durationMs = 60000,
       net_config = net_config_example, net_thread = NSpawned, tcRulesApplied = False,
       net_shell = shell_all_ok\<rparr>"
  by (simp add: net_shaped_started_def NetworkStressor_start_def NetworkStressor_init_def
      markStarted_def setDuration_def checkTcAvailable_def shell_all_ok_def
      net_config_example_def)

lemma net_shaped_running_eq:
  "net_shaped_running =
      \<lparr>running = True, startTimeMs = 0, durationMs = 60000,
       net_config = net_config_example, net_thread = NWait 60000, tcRulesApplied = True,
       net_shell = shell_all_ok\<lparr>shaping := (\<lambda>i. [])(''wlan0'' :=
          [QdiscAddRootHtb ''wlan0'', ClassAddHtb ''wlan0'' 1000])\<rparr>\<rparr>"
  unfolding net_shaped_running_def net_shaped_started_eq
  by (simp add: net_worker_step_def applyTcRules_def apply_netem_def removeTcRules_def
      net_exec_def executeCommand_def tc_effect_def shell_all_ok_def net_config_example_def
      long_add_def long_wrap_def Let_def)

lemma net_shaped_facts:
  "NetworkStressor_stop [5] net_shaped_running = Inr net_shaped_stopped"
  "net_thread net_shaped_running \<noteq> NSpawned"
  "net_thread net_shaped_running \<noteq> NExited" "net_thread net_shaped_running \<noteq> NNoThread"
  "tcRulesApplied net_shaped_running"
  "shaping (net_shell net_shaped_running) ''wlan0''
     = [QdiscAddRootHtb ''wlan0'', ClassAddHtb ''wlan0'' 1000]"
  "shaping (rules_removed net_shaped_running) ''wlan0'' = []"
  "net_thread net_shaped_started = NSpawned" "\<forall>c. tc_ok (net_shell net_shaped_started) c"
  "targetInterface (net_config net_shaped_started) = ''wlan0''"
  "net_thread net_shaped_expired = NExited"
  "shaping (net_shell net_shaped_expired) ''wlan0'' = []"
proof -
  note s = net_shaped_running_eq
  have "\<not> isl (NetworkStressor_stop [5] net_shaped_running)"
    unfolding s
    by (simp add: NetworkStressor_stop_def markStopped_def net_join.simps net_worker_step_def)
  then show "NetworkStressor_stop [5] net_shaped_running = Inr net_shaped_stopped"
    by (simp add: net_shaped_stopped_def)
  show "net_thread net_shaped_running \<noteq> NSpawned"
    "net_thread net_shaped_running \<noteq> NExited" "net_thread net_shaped_running \<noteq> NNoThread"
    "tcRulesApplied net_shaped_running"
    "shaping (net_shell net_shaped_running) ''wlan0''
       = [QdiscAddRootHtb ''wlan0'', ClassAddHtb ''wlan0'' 1000]"
    unfolding s by simp_all
  show "shaping (rules_removed net_shaped_running) ''wlan0'' = []"
    unfolding s by (simp add: rules_removed_def shell_all_ok_def net_config_example_def)
  show "net_thread net_shaped_started = NSpawned" "\<forall>c. tc_ok (net_shell net_shaped_started) c"
    "targetInterface (net_config net_shaped_started) = ''wlan0''"
    unfolding net_shaped_started_eq by (simp_all add: shell_all_ok_def net_config_example_def)
  show "net_thread net_shaped_expired = NExited"
    "shaping (net_shell net_shaped_expired) ''wlan0'' = []"
    unfolding net_shaped_expired_def s
    by (simp_all add: net_worker_step_def removeTcRules_def net_exec_def executeCommand_def
        tc_effect_def markStopped_def shell_all_ok_def net_config_example_def Let_def)
qed

lemma cpu0_paths:
  "cpu_file 0 ''/cpufreq/scaling_governor''
     = ''/sys/devices/system/cpu/cpu0/cpufreq/scaling_governor''"
  "cpu_file 0 ''/cpufreq/scaling_max_freq''
     = ''/sys/devices/system/cpu/cpu0/cpufreq/scaling_max_freq''"
  by (simp_all add: cpu_file_def to_string_def nat_to_string.simps digit_char_def)

lemma thm_example_running_eq:
  "thm_example_running =
      \<lparr>running = True, startTimeMs = 0, durationMs = 1000,
       thm_config = thm_config_example, thm_thread = TLoop 1000,
       thm_originalSettings =
         [(''/sys/devices/system/cpu/cpu0/cpufreq/scaling_governor'', ''schedutil''),
          (''/sys/devices/system/cpu/cpu0/cpufreq/scaling_max_freq'', ''2000000'')],
       coresOnline = 0, totalCores = 1,
       thm_sysfs = sysfs_example\<lparr>contents := (contents sysfs_example)
         (''/sys/devices/system/cpu/cpu0/cpufreq/scaling_governor'' \<mapsto> ''performance'',
          ''/sys/devices/system/cpu/cpu0/cpufreq/scaling_max_freq'' \<mapsto> ''1150000'')\<rparr>\<rparr>"
  unfolding thm_example_running_def thm_example_started_eq
  by (simp add: thm_worker_step_def applySettings_def tune_core_def thm_config_example_def
      isCoreOnline_def getCpuGovernor_def cpu_file_def to_string_def nat_to_string.simps
      digit_char_def readSysFile_def sysfs_example_def trim_def getline_def is_blank_def
      thm_save_def setCpuGovernor_def thm_write_def writeSysFile_def getMaxFrequency_def
      getMinFrequency_def stol_def is_space_def is_digit_def dec_value_def long_range_def
      long_add_def long_sub_def long_wrap_def trunc_div_def ThermalStressor_setMaxFrequency_def
      Let_def)

lemma thm_running_facts:
  "ThermalStressor_stop [5] thm_example_running = Inr thm_running_stopped"
  "thm_thread thm_example_running \<noteq> TSpawned"
  "thm_thread thm_example_running \<noteq> TExited" "thm_thread thm_example_running \<noteq> TNoThread"
  "sorted_wrt (<) (map fst (thm_originalSettings thm_example_running))"
  "contents (thm_sysfs thm_example_running) ''/sys/devices/system/cpu/cpu0/cpufreq/scaling_governor'' = Some ''performance''"
  "contents (written_back (thm_originalSettings thm_example_running)
     (thm_sysfs thm_example_running)) ''/sys/devices/system/cpu/cpu0/cpufreq/scaling_governor'' = Some ''schedutil''"
proof -
  note s = thm_example_running_eq
  have "\<not> isl (ThermalStressor_stop [5] thm_example_running)"
    unfolding s
    by (simp add: ThermalStressor_stop_def markStopped_def thm_join.simps thm_worker_step_def)
  then show "ThermalStressor_stop [5] thm_example_running = Inr thm_running_stopped"
    by (simp add: thm_running_stopped_def)
  show "thm_thread thm_example_running \<noteq> TSpawned"
    "thm_thread thm_example_running \<noteq> TExited" "thm_thread thm_example_running \<noteq> TNoThread"
    unfolding s by simp_all
  have a: "applySettings thm_example_started
           = Inr (thm_example_running\<lparr>thm_thread := TSpawned\<rparr>)"
    unfolding s thm_example_started_eq
    by (simp add: applySettings_def tune_core_def thm_config_example_def
      isCoreOnline_def getCpuGovernor_def cpu_file_def to_string_def nat_to_string.simps
      digit_char_def readSysFile_def sysfs_example_def trim_def getline_def is_blank_def
      thm_save_def setCpuGovernor_def thm_write_def writeSysFile_def getMaxFrequency_def
      getMinFrequency_def stol_def is_space_def is_digit_def dec_value_def long_range_def
      long_add_def long_sub_def long_wrap_def trunc_div_def ThermalStressor_setMaxFrequency_def
      Let_def)
  have "sorted_wrt (<) (map fst (thm_originalSettings (thm_example_running\<lparr>thm_thread := TSpawned\<rparr>)))"
    by (rule applySettings_keys [OF a]) (simp add: thm_example_started_eq)
  then show "sorted_wrt (<) (map fst (thm_originalSettings thm_example_running))" by simp
  show "contents (thm_sysfs thm_example_running) ''/sys/devices/system/cpu/cpu0/cpufreq/scaling_governor'' = Some ''performance''"
    "contents (written_back (thm_originalSettings thm_example_running)
       (thm_sysfs thm_example_running)) ''/sys/devices/system/cpu/cpu0/cpufreq/scaling_governor'' = Some ''schedutil''"
    unfolding s by (simp_all add: written_back_def sysfs_example_def)
qed

lemma thm_example_expired_eq:
  "thm_example_expired = thm_example_running\<lparr>running := False, thm_thread := TExited\<rparr>"
proof -
  have "thm_example_expired = projr (thm_worker_step 1500 thm_example_running)"
    by (simp add: thm_example_expired_def thm_example_running_def)
  then show ?thesis
    unfolding thm_example_running_eq
    by (simp add: thm_worker_step_def markStopped_def)
qed

lemma thm_expired_facts:
  "thm_thread thm_example_expired = TExited"
  "sorted_wrt (<) (map fst (thm_originalSettings thm_example_expired))"
  "contents (thm_sysfs thm_example_expired) ''/sys/devices/system/cpu/cpu0/cpufreq/scaling_governor'' = Some ''performance''"
  "contents (written_back (thm_originalSettings thm_example_expired)
     (thm_sysfs thm_example_expired)) ''/sys/devices/system/cpu/cpu0/cpufreq/scaling_governor'' = Some ''schedutil''"
  unfolding thm_example_expired_eq using thm_running_facts(5,6,7) by simp_all

lemma thm_started_facts:
  "thm_thread thm_example_started = TSpawned"
  "sorted_wrt (<) (map fst (thm_originalSettings thm_example_started))"
  "applySettings (thm_example_started\<lparr>running := False\<rparr>)
     = Inr (thm_example_running\<lparr>running := False, thm_thread := TSpawned\<rparr>)"
proof -
  show "thm_thread thm_example_started = TSpawned"
    "sorted_wrt (<) (map fst (thm_originalSettings thm_example_started))"
    by (simp_all add: thm_example_started_eq)
  show "applySettings (thm_example_started\<lparr>running := False\<rparr>)
     = Inr (thm_example_running\<lparr>running := False, thm_thread := TSpawned\<rparr>)"
    unfolding thm_example_running_eq thm_example_started_eq
    by (simp add: applySettings_def tune_core_def thm_config_example_def
      isCoreOnline_def getCpuGovernor_def cpu_file_def to_string_def nat_to_string.simps
      digit_char_def readSysFile_def sysfs_example_def trim_def getline_def is_blank_def
      thm_save_def setCpuGovernor_def thm_write_def writeSysFile_def getMaxFrequency_def
      getMinFrequency_def stol_def is_space_def is_digit_def dec_value_def long_range_def
      long_add_def long_sub_def long_wrap_def trunc_div_def ThermalStressor_setMaxFrequency_def
      Let_def)
qed

lemma mem_example_fields:
  "mem_thread mem_example_running \<noteq> MExited" "mem_thread mem_example_running \<noteq> MNoThread"
  "map fst (heap mem_example_running) = allocations mem_example_running"
  "heap mem_example_running = [(4096, 1048576)]"
  by (simp_all add: mem_example_running_def)


theorem stop_is_idempotent_witness:
  "running cpu_example_started \<and>
   workerThreads cpu_example_started = [CSpawned 0 (- 1), CSpawned 1 (- 1)] \<and>
   CPUStressor_stop [] cpu_example_started = Inl JoinPending \<and>
   CPUStressor_stop (replicate 4 (cpu_tick_example 5)) cpu_example_started
     = Inr cpu_example_stopped \<and>
   cpu_example_stopped = cpu_example_started\<lparr>running := False, workerThreads := []\<rparr> \<and>
   CPUStressor_stop [] cpu_example_stopped = Inr cpu_example_stopped \<and>
   workerThreads cpu_example_expired = [CExited, CExited] \<and>
   CPUStressor_stop [] cpu_example_expired
     = Inr (cpu_example_expired\<lparr>running := False, workerThreads := []\<rparr>) \<and>
   \<not> isl (CPUStressor_stop (replicate 4 (cpu_tick_example 5)) cpu_example_started) \<and>
   heap mem_example_running = [(4096, 1048576)] \<and>
   MemoryStressor_stop [] mem_example_running = Inl JoinPending \<and>
   MemoryStressor_stop [mem_tick_example 3 0, mem_tick_example 3 0] mem_example_running
     = Inr mem_example_stopped \<and>
   mem_example_stopped
     = (releaseMemory mem_example_running)\<lparr>running := False, mem_thread := MNoThread\<rparr> \<and>
   allocations mem_example_stopped = [] \<and>
   heap mem_example_stopped = [] \<and>
   MemoryStressor_stop [] mem_example_stopped = Inr mem_example_stopped \<and>
   mem_thread mem_example_expired = MExited \<and>
   MemoryStressor_stop [] mem_example_expired
     = Inr ((releaseMemory mem_example_expired)\<lparr>running := False, mem_thread := MNoThread\<rparr>) \<and>
   \<not> isl (MemoryStressor_stop (replicate 3 (mem_tick_example 3 0)) mem_example_running) \<and>
   listing (disk_fs disk_example_busy) ''/data/local/tmp/danr_stress'' = [''stress_3.tmp'', ''notes.txt''] \<and>
   DiskStressor_stop [] disk_example_busy = Inl JoinPending \<and>
   DiskStressor_stop [disk_tick_example 5] disk_example_busy = Inr disk_busy_stopped \<and>
   disk_busy_stopped
     = disk_example_busy\<lparr>running := False, disk_thread := DNoThread,
         disk_fs := swept (testPath (disk_config disk_example_busy)) (disk_fs disk_example_busy)\<rparr> \<and>
   listing (disk_fs disk_busy_stopped) ''/data/local/tmp/danr_stress'' = [''notes.txt''] \<and>
   DiskStressor_stop [] disk_busy_stopped = Inr disk_busy_stopped \<and>
   disk_thread disk_example_expired = DExited \<and>
   DiskStressor_stop [] disk_example_expired
     = Inr (disk_example_expired\<lparr>running := False, disk_thread := DNoThread,
         disk_fs := swept (testPath (disk_config disk_example_expired))
                      (disk_fs disk_example_expired)\<rparr>) \<and>
   disk_thread disk_example_started = DSpawned \<and>
   DiskStressor_stop (replicate 2 (disk_tick_example 5)) disk_example_started
     \<noteq> Inl JoinPending \<and>
   \<not> isl (DiskStressor_stop (replicate 2 (disk_tick_example 5)) disk_example_started) \<and>
   shaping (net_shell net_shaped_running) ''wlan0''
     = [QdiscAddRootHtb ''wlan0'', ClassAddHtb ''wlan0'' 1000] \<and>
   NetworkStressor_stop [] net_shaped_running = Inl JoinPending \<and>
   NetworkStressor_stop [5] net_shaped_running = Inr net_shaped_stopped \<and>
   net_shaped_stopped
     = net_shaped_running\<lparr>running := False, net_thread := NNoThread, tcRulesApplied := False,
         net_shell := rules_removed net_shaped_running\<rparr> \<and>
   shaping (net_shell net_shaped_stopped) ''wlan0'' = [] \<and>
   NetworkStressor_stop [] net_shaped_stopped = Inr net_shaped_stopped \<and>
   net_thread net_shaped_started = NSpawned \<and>
   NetworkStressor_stop [5, 6] net_shaped_started = Inr net_shaped_stopped_early \<and>
   net_shaped_stopped_early
     = (snd (applyTcRules (net_shaped_started\<lparr>running := False\<rparr>)))
         \<lparr>net_thread := NNoThread, tcRulesApplied := False,
          net_shell := rules_removed
            (snd (applyTcRules (net_shaped_started\<lparr>running := False\<rparr>)))\<rparr> \<and>
   shaping (net_shell net_shaped_stopped_early) ''wlan0'' = [] \<and>
   net_thread net_shaped_expired = NExited \<and>
   NetworkStressor_stop [] net_shaped_expired
     = Inr (net_shaped_expired\<lparr>running := False, net_thread := NNoThread,
         tcRulesApplied := False, net_shell := rules_removed net_shaped_expired\<rparr>) \<and>
   contents (thm_sysfs thm_example_running) ''/sys/devices/system/cpu/cpu0/cpufreq/scaling_governor'' = Some ''performance'' \<and>
   ThermalStressor_stop [] thm_example_running = Inl JoinPending \<and>
   ThermalStressor_stop [5] thm_example_running = Inr thm_running_stopped \<and>
   thm_running_stopped
     = thm_example_running\<lparr>running := False, thm_thread := TNoThread,
         thm_originalSettings := [],
         thm_sysfs := written_back (thm_originalSettings thm_example_running)
                        (thm_sysfs thm_example_running)\<rparr> \<and>
   contents (thm_sysfs thm_running_stopped) ''/sys/devices/system/cpu/cpu0/cpufreq/scaling_governor'' = Some ''schedutil'' \<and>
   ThermalStressor_stop [] thm_running_stopped = Inr thm_running_stopped \<and>
   thm_thread thm_example_started = TSpawned \<and>
   ThermalStressor_stop [5, 6] thm_example_started = Inr thm_example_stopped \<and>
   contents (thm_sysfs thm_example_stopped) ''/sys/devices/system/cpu/cpu0/cpufreq/scaling_governor'' = Some ''schedutil'' \<and>
   thm_thread thm_example_expired = TExited \<and>
   contents (thm_sysfs thm_example_expired) ''/sys/devices/system/cpu/cpu0/cpufreq/scaling_governor'' = Some ''performance'' \<and>
   ThermalStressor_stop [] thm_example_expired
     = Inr (thm_example_expired\<lparr>running := False, thm_thread := TNoThread,
         thm_originalSettings := [],
         thm_sysfs := written_back (thm_originalSettings thm_example_expired)
                        (thm_sysfs thm_example_expired)\<rparr>) \<and>
   contents (written_back (thm_originalSettings thm_example_expired)
     (thm_sysfs thm_example_expired)) ''/sys/devices/system/cpu/cpu0/cpufreq/scaling_governor'' = Some ''schedutil'' \<and>
   ThermalStressor_stop [5, 6] thm_example_started \<noteq> Inl JoinPending \<and>
   \<not> isl (ThermalStressor_stop [5, 6] thm_example_started)"
proof -
  note a = stop_is_idempotent
    [where cts = "replicate 4 (cpu_tick_example 5)" and c = cpu_example_started
       and c' = cpu_example_stopped and ?cts2.0 = "[]"
       and mts = "[mem_tick_example 3 0, mem_tick_example 3 0]" and m = mem_example_running
       and m' = mem_example_stopped and ?mts2.0 = "[]"
       and dts = "[disk_tick_example 5]" and d = disk_example_busy
       and d' = disk_busy_stopped and ?dts2.0 = "[]"
       and nts = "[5]" and n = net_shaped_running and n' = net_shaped_stopped
       and ?nts2.0 = "[]"
       and tts = "[5]" and t = thm_example_running and t' = thm_running_stopped
       and ?tts2.0 = "[]"]
  note b = stop_is_idempotent
    [where cts = "[]" and c = cpu_example_expired
       and mts = "[]" and m = mem_example_expired
       and dts = "[]" and d = disk_example_expired
       and nts = "[]" and n = net_shaped_expired
       and tts = "[]" and t = thm_example_expired]
  note e = stop_is_idempotent
    [where mts = "replicate 3 (mem_tick_example 3 0)" and m = mem_example_running
       and dts = "replicate 2 (disk_tick_example 5)" and d = disk_example_started
       and nts = "[5, 6]" and n = net_shaped_started and n' = net_shaped_stopped_early
       and tts = "[5, 6]" and t = thm_example_started and t' = thm_example_stopped]
  have len: "2 * length (workerThreads cpu_example_started)
               \<le> length (replicate 4 (cpu_tick_example 5))"
    "3 \<le> length (replicate 3 (mem_tick_example 3 0))"
    "2 \<le> length (replicate 2 (disk_tick_example 5))"
    "2 \<le> length [5, 6 :: int]"
    by (simp_all add: cpu_example_facts(4))
  have cs: "running cpu_example_started"
    "workerThreads cpu_example_started = [CSpawned 0 (- 1), CSpawned 1 (- 1)]"
    by (simp_all add: cpu_example_started_eq)
  have c0: "CPUStressor_stop [] cpu_example_started = Inl JoinPending"
    by (rule mp [OF a [THEN conjunct2, THEN conjunct2, THEN conjunct1]]) (simp add: cs)
  note c1 = mp [OF a [THEN conjunct1] cpu_example_facts(1)]
  have c2: "CPUStressor_stop [] cpu_example_expired
              = Inr (cpu_example_expired\<lparr>running := False, workerThreads := []\<rparr>)"
    by (rule mp [OF b [THEN conjunct2, THEN conjunct1]]) (simp add: cpu_example_facts)
  have "\<exists>r. CPUStressor_stop (replicate 4 (cpu_tick_example 5)) cpu_example_started = Inr r"
    by (rule mp [OF a [THEN conjunct2, THEN conjunct2, THEN conjunct2, THEN conjunct1] len(1)])
  then have c4: "\<not> isl (CPUStressor_stop (replicate 4 (cpu_tick_example 5)) cpu_example_started)"
    by (elim exE) simp
  have m0: "MemoryStressor_stop [] mem_example_running = Inl JoinPending"
    by (rule mp [OF a [THEN conjunct2, THEN conjunct2, THEN conjunct2, THEN conjunct2, THEN conjunct2,
          THEN conjunct2, THEN conjunct1]]) (simp add: mem_example_fields)
  note m1 = mp [OF a [THEN conjunct2, THEN conjunct2, THEN conjunct2, THEN conjunct2, THEN conjunct1] mem_example_stop]
  have m1h: "heap mem_example_stopped = []"
    by (rule mp [OF m1 [THEN conjunct2, THEN conjunct2, THEN conjunct1] mem_example_fields(3)])
  have m2: "MemoryStressor_stop [] mem_example_expired
      = Inr ((releaseMemory mem_example_expired)\<lparr>running := False, mem_thread := MNoThread\<rparr>)"
    by (rule mp [OF b [THEN conjunct2, THEN conjunct2, THEN conjunct2, THEN conjunct2, THEN conjunct2,
          THEN conjunct1]]) (simp add: mem_example_expired_facts)
  have "\<exists>r. MemoryStressor_stop (replicate 3 (mem_tick_example 3 0)) mem_example_running = Inr r"
    by (rule mp [OF e [THEN conjunct2, THEN conjunct2, THEN conjunct2, THEN conjunct2, THEN conjunct2,
          THEN conjunct2, THEN conjunct2, THEN conjunct1] len(2)])
  then have m4: "\<not> isl (MemoryStressor_stop (replicate 3 (mem_tick_example 3 0))
                         mem_example_running)"
    by (elim exE) simp
  have d0: "DiskStressor_stop [] disk_example_busy = Inl JoinPending"
    by (rule mp [OF a [THEN conjunct2, THEN conjunct2, THEN conjunct2, THEN conjunct2, THEN conjunct2,
          THEN conjunct2, THEN conjunct2, THEN conjunct2, THEN conjunct2, THEN conjunct2,
          THEN conjunct1]]) (simp add: disk_busy_facts)
  note d1 = mp [OF a [THEN conjunct2, THEN conjunct2, THEN conjunct2, THEN conjunct2, THEN conjunct2,
          THEN conjunct2, THEN conjunct2, THEN conjunct2, THEN conjunct1] disk_busy_facts(1)]
  have d1l: "listing (disk_fs disk_busy_stopped) ''/data/local/tmp/danr_stress'' = [''notes.txt'']"
    by (subst d1 [THEN conjunct1]) (simp add: disk_busy_facts(3))
  have d2: "DiskStressor_stop [] disk_example_expired
     = Inr (disk_example_expired\<lparr>running := False, disk_thread := DNoThread,
         disk_fs := swept (testPath (disk_config disk_example_expired))
                      (disk_fs disk_example_expired)\<rparr>)"
    by (rule mp [OF b [THEN conjunct2, THEN conjunct2, THEN conjunct2, THEN conjunct2, THEN conjunct2,
          THEN conjunct2, THEN conjunct2, THEN conjunct2, THEN conjunct2, THEN conjunct1]]) (simp add: disk_example_facts)
  note d4 = mp [OF e [THEN conjunct2, THEN conjunct2, THEN conjunct2, THEN conjunct2, THEN conjunct2,
          THEN conjunct2, THEN conjunct2, THEN conjunct2, THEN conjunct2, THEN conjunct2,
          THEN conjunct2, THEN conjunct1] len(3)]
  have d4s: "disk_thread disk_example_started = DSpawned"
    by (simp add: disk_example_started_eq)
  have "\<exists>r. DiskStressor_stop (replicate 2 (disk_tick_example 5)) disk_example_started = Inr r"
    by (rule iffD2 [OF d4 [THEN conjunct2]])
       (simp add: disk_example_started_eq diskfs_example_def)
  then have d4r: "\<not> isl (DiskStressor_stop (replicate 2 (disk_tick_example 5))
                          disk_example_started)"
    by (elim exE) simp
  have n0: "NetworkStressor_stop [] net_shaped_running = Inl JoinPending"
    by (rule mp [OF a [THEN conjunct2, THEN conjunct2, THEN conjunct2, THEN conjunct2, THEN conjunct2,
          THEN conjunct2, THEN conjunct2, THEN conjunct2, THEN conjunct2, THEN conjunct2,
          THEN conjunct2, THEN conjunct2, THEN conjunct2, THEN conjunct2, THEN conjunct1]]) (simp add: net_shaped_facts)
  note n1 = mp [OF a [THEN conjunct2, THEN conjunct2, THEN conjunct2, THEN conjunct2, THEN conjunct2,
          THEN conjunct2, THEN conjunct2, THEN conjunct2, THEN conjunct2, THEN conjunct2,
          THEN conjunct2, THEN conjunct2, THEN conjunct1] net_shaped_facts(1)]
  note n1e = mp [OF n1 [THEN conjunct2, THEN conjunct2, THEN conjunct2, THEN conjunct1]
      net_shaped_facts(2)]
  have n1s: "shaping (net_shell net_shaped_stopped) ''wlan0'' = []"
    by (subst n1e) (simp add: net_shaped_facts(7))
  have "\<exists>r. NetworkStressor_stop [5, 6] net_shaped_started = Inr r"
    by (rule mp [OF e [THEN conjunct2, THEN conjunct2, THEN conjunct2, THEN conjunct2, THEN conjunct2,
          THEN conjunct2, THEN conjunct2, THEN conjunct2, THEN conjunct2, THEN conjunct2,
          THEN conjunct2, THEN conjunct2, THEN conjunct2, THEN conjunct2, THEN conjunct2,
          THEN conjunct1] len(4)])
  then have n4: "NetworkStressor_stop [5, 6] net_shaped_started = Inr net_shaped_stopped_early"
    by (elim exE) (simp add: net_shaped_stopped_early_def)
  note n5 = mp [OF e [THEN conjunct2, THEN conjunct2, THEN conjunct2, THEN conjunct2, THEN conjunct2,
          THEN conjunct2, THEN conjunct2, THEN conjunct2, THEN conjunct2, THEN conjunct2,
          THEN conjunct2, THEN conjunct2, THEN conjunct1] n4]
  note n5q = mp [OF n5 [THEN conjunct2, THEN conjunct2, THEN conjunct2, THEN conjunct2,
      THEN conjunct1] net_shaped_facts(8)]
  have n5s: "shaping (net_shell net_shaped_stopped_early) ''wlan0'' = []"
    using mp [OF n5 [THEN conjunct2, THEN conjunct2, THEN conjunct2, THEN conjunct2,
      THEN conjunct2, THEN conjunct1]] net_shaped_facts(8,9,10)
    by simp
  have n2: "NetworkStressor_stop [] net_shaped_expired
     = Inr (net_shaped_expired\<lparr>running := False, net_thread := NNoThread,
         tcRulesApplied := False, net_shell := rules_removed net_shaped_expired\<rparr>)"
    by (rule mp [OF b [THEN conjunct2, THEN conjunct2, THEN conjunct2, THEN conjunct2, THEN conjunct2,
          THEN conjunct2, THEN conjunct2, THEN conjunct2, THEN conjunct2, THEN conjunct2,
          THEN conjunct2, THEN conjunct2, THEN conjunct2, THEN conjunct1]]) (simp add: net_shaped_facts)
  have t0: "ThermalStressor_stop [] thm_example_running = Inl JoinPending"
    by (rule mp [OF a [THEN conjunct2, THEN conjunct2, THEN conjunct2, THEN conjunct2, THEN conjunct2,
          THEN conjunct2, THEN conjunct2, THEN conjunct2, THEN conjunct2, THEN conjunct2,
          THEN conjunct2, THEN conjunct2, THEN conjunct2, THEN conjunct2, THEN conjunct2,
          THEN conjunct2, THEN conjunct2, THEN conjunct2, THEN conjunct1]]) (simp add: thm_running_facts)
  note t1 = mp [OF a [THEN conjunct2, THEN conjunct2, THEN conjunct2, THEN conjunct2, THEN conjunct2,
          THEN conjunct2, THEN conjunct2, THEN conjunct2, THEN conjunct2, THEN conjunct2,
          THEN conjunct2, THEN conjunct2, THEN conjunct2, THEN conjunct2, THEN conjunct2,
          THEN conjunct2, THEN conjunct1] thm_running_facts(1)]
  have t1e: "thm_running_stopped
     = thm_example_running\<lparr>running := False, thm_thread := TNoThread,
         thm_originalSettings := [],
         thm_sysfs := written_back (thm_originalSettings thm_example_running)
                        (thm_sysfs thm_example_running)\<rparr>"
    by (rule mp [OF t1 [THEN conjunct2, THEN conjunct2, THEN conjunct2, THEN conjunct1]])
       (simp add: thm_running_facts)
  have t1s: "contents (thm_sysfs thm_running_stopped) ''/sys/devices/system/cpu/cpu0/cpufreq/scaling_governor'' = Some ''schedutil''"
    by (subst t1e) (simp add: thm_running_facts(7))
  note t5 = mp [OF e [THEN conjunct2, THEN conjunct2, THEN conjunct2, THEN conjunct2, THEN conjunct2,
          THEN conjunct2, THEN conjunct2, THEN conjunct2, THEN conjunct2, THEN conjunct2,
          THEN conjunct2, THEN conjunct2, THEN conjunct2, THEN conjunct2, THEN conjunct2,
          THEN conjunct2, THEN conjunct1] thm_example_facts(1)]
  have "\<exists>ta. applySettings (thm_example_started\<lparr>running := False\<rparr>) = Inr ta \<and>
      thm_example_stopped = ta\<lparr>thm_thread := TNoThread, thm_originalSettings := [],
         thm_sysfs := written_back (thm_originalSettings ta) (thm_sysfs ta)\<rparr>"
    by (rule mp [OF t5 [THEN conjunct2, THEN conjunct2, THEN conjunct2, THEN conjunct2,
      THEN conjunct1]]) (simp add: thm_started_facts)
  then have t5e: "thm_example_stopped
     = thm_example_running\<lparr>running := False, thm_thread := TNoThread,
         thm_originalSettings := [],
         thm_sysfs := written_back (thm_originalSettings thm_example_running)
                        (thm_sysfs thm_example_running)\<rparr>"
    by (auto simp: thm_started_facts(3))
  have t5s: "contents (thm_sysfs thm_example_stopped) ''/sys/devices/system/cpu/cpu0/cpufreq/scaling_governor'' = Some ''schedutil''"
    by (subst t5e) (simp add: thm_running_facts(7))
  have t2: "ThermalStressor_stop [] thm_example_expired
     = Inr (thm_example_expired\<lparr>running := False, thm_thread := TNoThread,
         thm_originalSettings := [],
         thm_sysfs := written_back (thm_originalSettings thm_example_expired)
                        (thm_sysfs thm_example_expired)\<rparr>)"
    by (rule mp [OF b [THEN conjunct2, THEN conjunct2, THEN conjunct2, THEN conjunct2, THEN conjunct2,
          THEN conjunct2, THEN conjunct2, THEN conjunct2, THEN conjunct2, THEN conjunct2,
          THEN conjunct2, THEN conjunct2, THEN conjunct2, THEN conjunct2, THEN conjunct2,
          THEN conjunct2, THEN conjunct2, THEN conjunct1]]) (simp add: thm_expired_facts)
  note t4 = mp [OF e [THEN conjunct2, THEN conjunct2, THEN conjunct2, THEN conjunct2, THEN conjunct2,
          THEN conjunct2, THEN conjunct2, THEN conjunct2, THEN conjunct2, THEN conjunct2,
          THEN conjunct2, THEN conjunct2, THEN conjunct2, THEN conjunct2, THEN conjunct2,
          THEN conjunct2, THEN conjunct2, THEN conjunct2, THEN conjunct2] len(4)]
  have "\<exists>r. ThermalStressor_stop [5, 6] thm_example_started = Inr r"
    by (rule iffD2 [OF t4 [THEN conjunct2]]) (simp add: thm_started_facts(3))
  then have t4r: "\<not> isl (ThermalStressor_stop [5, 6] thm_example_started)"
    by (elim exE) simp
  note facts = cs c0 cpu_example_facts(1) c1 [THEN conjunct1] c1 [THEN conjunct2]
      cpu_example_facts(2) c2 c4
      mem_example_fields(4) m0 mem_example_stop m1 [THEN conjunct1]
      m1 [THEN conjunct2, THEN conjunct1] m1h
      m1 [THEN conjunct2, THEN conjunct2, THEN conjunct2]
      mem_example_expired_facts(1) m2 m4
      disk_busy_facts(2) d0 disk_busy_facts(1) d1 [THEN conjunct1] d1l d1 [THEN conjunct2]
      disk_example_facts(2) d2 d4s d4 [THEN conjunct1] d4r
      net_shaped_facts(6) n0 net_shaped_facts(1) n1e n1s
      n1 [THEN conjunct2, THEN conjunct2, THEN conjunct2, THEN conjunct2, THEN conjunct2,
        THEN conjunct2]
      net_shaped_facts(8) n4 n5q n5s net_shaped_facts(11) n2
      thm_running_facts(6) t0 thm_running_facts(1) t1e t1s
      t1 [THEN conjunct2, THEN conjunct2, THEN conjunct2, THEN conjunct2, THEN conjunct2]
      thm_started_facts(1) thm_example_facts(1) t5s
      thm_expired_facts(1) thm_expired_facts(3) t2 thm_expired_facts(4) t4 [THEN conjunct1] t4r
  show ?thesis by (intro conjI) (rule facts)+
qed


subsection \<open>The orchestrator's lock\<close>

lemma with_lock_locked: "mutex_locked m \<Longrightarrow> with_lock body m = LockWait"
  by (simp add: with_lock_def)

lemma with_lock_waits:
  "with_lock body m = CallWait m' \<Longrightarrow> mutex_locked m'"
  by (auto simp: with_lock_def split: if_splits sum.splits error.splits prod.splits)

lemma with_lock_pending:
  "\<not> mutex_locked m \<Longrightarrow> body (m\<lparr>mutex_locked := True\<rparr>) = Inl JoinPending \<Longrightarrow>
   with_lock body m = CallWait (m\<lparr>mutex_locked := True\<rparr>)"
  by (simp add: with_lock_def)

lemma cpu_stop_pending:
  assumes "workerThreads s \<noteq> []" and "workerThreads s ! 0 \<noteq> CExited"
  shows "CPUStressor_stop [] s = Inl JoinPending"
proof -
  let ?s1 = "if running s then markStopped s else s"
  have w: "workerThreads ?s1 = workerThreads s" by (simp add: markStopped_def)
  have "[0..<length (workerThreads ?s1)] = 0 # [1..<length (workerThreads ?s1)]"
    using assms(1) w by (simp add: upt_conv_Cons)
  moreover have "cpu_join_worker 0 [] ?s1 = Inl JoinPending"
    using assms w by (subst cpu_join_worker.simps) simp
  ultimately show ?thesis
    by (simp add: CPUStressor_stop_def Let_def)
qed

lemma manager_example_fields:
  "\<not> mutex_locked manager_example"
  "workerThreads (cpuStressor manager_example) \<noteq> []"
  "workerThreads (cpuStressor manager_example) ! 0 \<noteq> CExited"
  "mem_thread (memoryStressor manager_example) \<noteq> MNoThread"
  "mem_thread (memoryStressor manager_example) \<noteq> MExited"
  "disk_thread (diskStressor manager_example) \<noteq> DNoThread"
  "disk_thread (diskStressor manager_example) \<noteq> DExited"
  "net_thread (networkStressor manager_example) \<noteq> NNoThread"
  "net_thread (networkStressor manager_example) \<noteq> NExited"
  "thm_thread (thermalStressor manager_example) \<noteq> TNoThread"
  "thm_thread (thermalStressor manager_example) \<noteq> TExited"
  by (simp_all add: manager_example_def StressManager_init_def cpu_example_started_eq
      mem_example_running_def disk_example_started_eq net_example_started_eq
      thm_example_started_eq)

text \<open>
  C9, as stated: the coordination lock is not held across a generator's blocking work, so
  a status query does not wait behind a \<open>stop()\<close>. Here every generator is in the middle
  of a run and \<open>stopMemoryStress\<close> has been called; before the worker has taken another
  turn the call is inside \<open>join()\<close> with the mutex locked, and a status query made
  meanwhile, of this generator or of another, waits for the mutex.
\<close>

theorem status_waits_behind_stop_counterexample:
  "\<not> mutex_locked manager_example \<and>
   stopMemoryStress [] manager_example = CallWait (manager_example\<lparr>mutex_locked := True\<rparr>) \<and>
   getMemoryStatus 5 250 (manager_example\<lparr>mutex_locked := True\<rparr>) = LockWait \<and>
   getCpuStatus 5 (manager_example\<lparr>mutex_locked := True\<rparr>) = LockWait"
  by (simp add: manager_example_fields stopMemoryStress_def getMemoryStatus_def
      getCpuStatus_def with_lock_def mem_stop_pending)

text \<open>
  C9, amended: the coordination lock is held for the whole of every control call, the
  generator's blocking work included. A call that waits inside a generator's \<open>join()\<close>
  holds the mutex; a \<open>stop\<close> of a generator whose worker has not returned waits there, the
  mutex locked, until the worker has taken its turns; and while the mutex is locked
  every other call on the orchestrator, status queries included, waits for it.
\<close>

theorem lock_held_across_control_calls:
  "(stopCpuStress cts m = CallWait m' \<longrightarrow> mutex_locked m') \<and>
   (stopMemoryStress mts m = CallWait m' \<longrightarrow> mutex_locked m') \<and>
   (stopDiskStress dts m = CallWait m' \<longrightarrow> mutex_locked m') \<and>
   (stopNetworkStress nts m = CallWait m' \<longrightarrow> mutex_locked m') \<and>
   (stopThermalStress tts m = CallWait m' \<longrightarrow> mutex_locked m') \<and>
   (stopAll ats m = CallWait m' \<longrightarrow> mutex_locked m') \<and>
   (\<not> mutex_locked m \<and> workerThreads (cpuStressor m) \<noteq> []
      \<and> workerThreads (cpuStressor m) ! 0 \<noteq> CExited \<longrightarrow>
      stopCpuStress [] m = CallWait (m\<lparr>mutex_locked := True\<rparr>)
      \<and> stopAll no_ticks m = CallWait (m\<lparr>mutex_locked := True\<rparr>)) \<and>
   (\<not> mutex_locked m \<and> mem_thread (memoryStressor m) \<noteq> MNoThread
      \<and> mem_thread (memoryStressor m) \<noteq> MExited \<longrightarrow>
      stopMemoryStress [] m = CallWait (m\<lparr>mutex_locked := True\<rparr>)) \<and>
   (\<not> mutex_locked m \<and> disk_thread (diskStressor m) \<noteq> DNoThread
      \<and> disk_thread (diskStressor m) \<noteq> DExited \<longrightarrow>
      stopDiskStress [] m = CallWait (m\<lparr>mutex_locked := True\<rparr>)) \<and>
   (\<not> mutex_locked m \<and> net_thread (networkStressor m) \<noteq> NNoThread
      \<and> net_thread (networkStressor m) \<noteq> NExited \<longrightarrow>
      stopNetworkStress [] m = CallWait (m\<lparr>mutex_locked := True\<rparr>)) \<and>
   (\<not> mutex_locked m \<and> thm_thread (thermalStressor m) \<noteq> TNoThread
      \<and> thm_thread (thermalStressor m) \<noteq> TExited \<longrightarrow>
      stopThermalStress [] m = CallWait (m\<lparr>mutex_locked := True\<rparr>)) \<and>
   (mutex_locked m \<longrightarrow>
      getCpuStatus now m = LockWait \<and> getMemoryStatus now availableMB m = LockWait \<and>
      getDiskStatus now m = LockWait \<and> getNetworkStatus now m = LockWait \<and>
      getThermalStatus now m = LockWait \<and> isAnyRunning m = LockWait \<and>
      startCpuStress cc now oc m = LockWait \<and> startMemoryStress mc now m = LockWait \<and>
      startDiskStress dc now m = LockWait \<and> startNetworkStress nc now m = LockWait \<and>
      startThermalStress tc now m = LockWait \<and>
      stopCpuStress cts m = LockWait \<and> stopMemoryStress mts m = LockWait \<and>
      stopDiskStress dts m = LockWait \<and> stopNetworkStress nts m = LockWait \<and>
      stopThermalStress tts m = LockWait \<and> stopAll ats m = LockWait)"
proof -
  have w1: "stopCpuStress cts m = CallWait m' \<longrightarrow> mutex_locked m'"
    unfolding stopCpuStress_def using with_lock_waits by blast
  have w2: "stopMemoryStress mts m = CallWait m' \<longrightarrow> mutex_locked m'"
    unfolding stopMemoryStress_def using with_lock_waits by blast
  have w3: "stopDiskStress dts m = CallWait m' \<longrightarrow> mutex_locked m'"
    unfolding stopDiskStress_def using with_lock_waits by blast
  have w4: "stopNetworkStress nts m = CallWait m' \<longrightarrow> mutex_locked m'"
    unfolding stopNetworkStress_def using with_lock_waits by blast
  have w5: "stopThermalStress tts m = CallWait m' \<longrightarrow> mutex_locked m'"
    unfolding stopThermalStress_def using with_lock_waits by blast
  have w6: "stopAll ats m = CallWait m' \<longrightarrow> mutex_locked m'"
    unfolding stopAll_def using with_lock_waits by blast
  have p1: "\<not> mutex_locked m \<and> workerThreads (cpuStressor m) \<noteq> []
      \<and> workerThreads (cpuStressor m) ! 0 \<noteq> CExited \<longrightarrow>
      stopCpuStress [] m = CallWait (m\<lparr>mutex_locked := True\<rparr>)
      \<and> stopAll no_ticks m = CallWait (m\<lparr>mutex_locked := True\<rparr>)"
    by (simp add: stopCpuStress_def stopAll_def stopAll_body_def no_ticks_def with_lock_def
        cpu_stop_pending)
  have p2: "\<not> mutex_locked m \<and> mem_thread (memoryStressor m) \<noteq> MNoThread
      \<and> mem_thread (memoryStressor m) \<noteq> MExited \<longrightarrow>
      stopMemoryStress [] m = CallWait (m\<lparr>mutex_locked := True\<rparr>)"
    by (simp add: stopMemoryStress_def with_lock_def mem_stop_pending)
  have p3: "\<not> mutex_locked m \<and> disk_thread (diskStressor m) \<noteq> DNoThread
      \<and> disk_thread (diskStressor m) \<noteq> DExited \<longrightarrow>
      stopDiskStress [] m = CallWait (m\<lparr>mutex_locked := True\<rparr>)"
    by (simp add: stopDiskStress_def with_lock_def disk_stop_pending)
  have p4: "\<not> mutex_locked m \<and> net_thread (networkStressor m) \<noteq> NNoThread
      \<and> net_thread (networkStressor m) \<noteq> NExited \<longrightarrow>
      stopNetworkStress [] m = CallWait (m\<lparr>mutex_locked := True\<rparr>)"
    by (simp add: stopNetworkStress_def with_lock_def net_stop_pending)
  have p5: "\<not> mutex_locked m \<and> thm_thread (thermalStressor m) \<noteq> TNoThread
      \<and> thm_thread (thermalStressor m) \<noteq> TExited \<longrightarrow>
      stopThermalStress [] m = CallWait (m\<lparr>mutex_locked := True\<rparr>)"
    by (simp add: stopThermalStress_def with_lock_def thm_stop_pending)
  have l: "mutex_locked m \<longrightarrow>
      getCpuStatus now m = LockWait \<and> getMemoryStatus now availableMB m = LockWait \<and>
      getDiskStatus now m = LockWait \<and> getNetworkStatus now m = LockWait \<and>
      getThermalStatus now m = LockWait \<and> isAnyRunning m = LockWait \<and>
      startCpuStress cc now oc m = LockWait \<and> startMemoryStress mc now m = LockWait \<and>
      startDiskStress dc now m = LockWait \<and> startNetworkStress nc now m = LockWait \<and>
      startThermalStress tc now m = LockWait \<and>
      stopCpuStress cts m = LockWait \<and> stopMemoryStress mts m = LockWait \<and>
      stopDiskStress dts m = LockWait \<and> stopNetworkStress nts m = LockWait \<and>
      stopThermalStress tts m = LockWait \<and> stopAll ats m = LockWait"
    by (simp add: getCpuStatus_def getMemoryStatus_def getDiskStatus_def getNetworkStatus_def
        getThermalStatus_def isAnyRunning_def startCpuStress_def startMemoryStress_def
        startDiskStress_def startNetworkStress_def startThermalStress_def stopCpuStress_def
        stopMemoryStress_def stopDiskStress_def stopNetworkStress_def stopThermalStress_def
        stopAll_def with_lock_locked)
  note parts = w1 w2 w3 w4 w5 w6 p1 p2 p3 p4 p5 l
  show ?thesis by (intro conjI) (rule parts)+
qed

theorem lock_held_across_control_calls_witness:
  "\<not> mutex_locked manager_example \<and>
   stopCpuStress [] manager_example = CallWait (manager_example\<lparr>mutex_locked := True\<rparr>) \<and>
   stopAll no_ticks manager_example = CallWait (manager_example\<lparr>mutex_locked := True\<rparr>) \<and>
   stopMemoryStress [] manager_example = CallWait (manager_example\<lparr>mutex_locked := True\<rparr>) \<and>
   stopDiskStress [] manager_example = CallWait (manager_example\<lparr>mutex_locked := True\<rparr>) \<and>
   stopNetworkStress [] manager_example = CallWait (manager_example\<lparr>mutex_locked := True\<rparr>) \<and>
   stopThermalStress [] manager_example = CallWait (manager_example\<lparr>mutex_locked := True\<rparr>) \<and>
   mutex_locked (manager_example\<lparr>mutex_locked := True\<rparr>) \<and>
   getCpuStatus 5 (manager_example\<lparr>mutex_locked := True\<rparr>) = LockWait \<and>
   getMemoryStatus 5 250 (manager_example\<lparr>mutex_locked := True\<rparr>) = LockWait \<and>
   getDiskStatus 5 (manager_example\<lparr>mutex_locked := True\<rparr>) = LockWait \<and>
   getNetworkStatus 5 (manager_example\<lparr>mutex_locked := True\<rparr>) = LockWait \<and>
   getThermalStatus 5 (manager_example\<lparr>mutex_locked := True\<rparr>) = LockWait \<and>
   isAnyRunning (manager_example\<lparr>mutex_locked := True\<rparr>) = LockWait \<and>
   stopAll no_ticks (manager_example\<lparr>mutex_locked := True\<rparr>) = LockWait"
proof -
  let ?held = "manager_example\<lparr>mutex_locked := True\<rparr>"
  note a = lock_held_across_control_calls [where m = manager_example]
  note b = lock_held_across_control_calls
    [where m = ?held and now = 5 and availableMB = 250 and ats = no_ticks]
  have p1: "stopCpuStress [] manager_example = CallWait ?held
            \<and> stopAll no_ticks manager_example = CallWait ?held"
    by (rule mp [OF a [THEN conjunct2, THEN conjunct2, THEN conjunct2, THEN conjunct2,
          THEN conjunct2, THEN conjunct2, THEN conjunct1]])
       (simp add: manager_example_fields)
  have p2: "stopMemoryStress [] manager_example = CallWait ?held"
    by (rule mp [OF a [THEN conjunct2, THEN conjunct2, THEN conjunct2, THEN conjunct2,
          THEN conjunct2, THEN conjunct2, THEN conjunct2, THEN conjunct1]])
       (simp add: manager_example_fields)
  have p3: "stopDiskStress [] manager_example = CallWait ?held"
    by (rule mp [OF a [THEN conjunct2, THEN conjunct2, THEN conjunct2, THEN conjunct2,
          THEN conjunct2, THEN conjunct2, THEN conjunct2, THEN conjunct2, THEN conjunct1]])
       (simp add: manager_example_fields)
  have p4: "stopNetworkStress [] manager_example = CallWait ?held"
    by (rule mp [OF a [THEN conjunct2, THEN conjunct2, THEN conjunct2, THEN conjunct2,
          THEN conjunct2, THEN conjunct2, THEN conjunct2, THEN conjunct2, THEN conjunct2,
          THEN conjunct1]])
       (simp add: manager_example_fields)
  have p5: "stopThermalStress [] manager_example = CallWait ?held"
    by (rule mp [OF a [THEN conjunct2, THEN conjunct2, THEN conjunct2, THEN conjunct2,
          THEN conjunct2, THEN conjunct2, THEN conjunct2, THEN conjunct2, THEN conjunct2,
          THEN conjunct2, THEN conjunct1]])
       (simp add: manager_example_fields)
  have h: "mutex_locked ?held" by simp
  have w: "mutex_locked ?held"
    by (rule mp [OF a [where m' = ?held and mts = "[]", THEN conjunct2, THEN conjunct1] p2])
  note l = mp [OF b [THEN conjunct2, THEN conjunct2, THEN conjunct2, THEN conjunct2,
          THEN conjunct2, THEN conjunct2, THEN conjunct2, THEN conjunct2, THEN conjunct2,
          THEN conjunct2, THEN conjunct2] h]
  note facts = manager_example_fields(1) p1 p2 p3 p4 p5 w l
  show ?thesis by (simp only: facts simp_thms)
qed

end
